(* ===== verification/Prelude.thy ===== *)
theory Prelude
  imports Complex_Main "HOL-Library.List_Lexorder" "HOL-Library.Char_ord"
begin

text \<open>
  Shared vocabulary of the ETL development: the Python exceptions the pipeline can raise
  (as values of \<open>py_error\<close>), the result type \<open>'a result\<close>, the cell type of a pandas
  float column (\<open>rat option\<close>, \<open>None\<close> standing for NaN), a bind on results, Python's
  \<open>str.split(sep)\<close> and \<open>str.strip()\<close> on strings, and the generic list lemmas the
  component theories share.
\<close>

named_theorems etl_simps "evaluation rules of the ETL model, used by the component proofs"

datatype py_error =
    KeyError string
  | IndexError
  | ValueError string
  | FileNotFoundError string
  | NameError string
  | OperationalError string
  | ArgumentError string
  | ProgrammingError string

type_synonym 'a result = "py_error + 'a"

text \<open>A pandas \<open>float64\<close> cell: \<open>None\<close> is NaN (a missing value).\<close>

type_synonym cell = "rat option"

text \<open>Sequencing of statements that may raise: the first exception aborts the rest.\<close>

definition py_bind :: "'a result \<Rightarrow> ('a \<Rightarrow> 'b result) \<Rightarrow> 'b result" where
  "py_bind r f = (case r of Inl e \<Rightarrow> Inl e | Inr a \<Rightarrow> f a)"

lemma py_bind_Inl [simp, etl_simps]: "py_bind (Inl e) f = Inl e"
  by (simp add: py_bind_def)

lemma py_bind_Inr [simp, etl_simps]: "py_bind (Inr a) f = f a"
  by (simp add: py_bind_def)

lemma py_bind_eq_Inr:
  "py_bind r f = Inr b \<longleftrightarrow> (\<exists>a. r = Inr a \<and> f a = Inr b)"
  by (cases r) auto

lemma py_bind_eq_Inl:
  "py_bind r f = Inl e \<longleftrightarrow> r = Inl e \<or> (\<exists>a. r = Inr a \<and> f a = Inl e)"
  by (cases r) auto

text \<open>An element-wise conversion that raises at the first element it cannot convert
  (\<open>pd.to_datetime\<close> over a column, for instance).\<close>

fun py_map :: "('a \<Rightarrow> 'b result) \<Rightarrow> 'a list \<Rightarrow> 'b list result" where
  "py_map f [] = Inr []"
| "py_map f (x # xs) = py_bind (f x) (\<lambda>y. py_bind (py_map f xs) (\<lambda>ys. Inr (y # ys)))"

lemma py_map_length: "py_map f xs = Inr ys \<Longrightarrow> length ys = length xs"
  by (induction xs arbitrary: ys) (auto simp: py_bind_eq_Inr)

lemma py_map_nth:
  "py_map f xs = Inr ys \<Longrightarrow> i < length xs \<Longrightarrow> f (xs ! i) = Inr (ys ! i)"
proof (induction xs arbitrary: ys i)
  case Nil
  then show ?case by simp
next
  case (Cons x xs)
  then obtain y ys' where "f x = Inr y" "py_map f xs = Inr ys'" "ys = y # ys'"
    by (auto simp: py_bind_eq_Inr)
  with Cons show ?case by (cases i) auto
qed

lemma py_map_Inr_iff: "py_map f xs = Inr (map g xs) \<longleftrightarrow> (\<forall>x \<in> set xs. f x = Inr (g x))"
  by (induction xs) (auto simp: py_bind_eq_Inr)

lemma py_map_all_Inr: "(\<And>x. x \<in> set xs \<Longrightarrow> f x = Inr (g x)) \<Longrightarrow> py_map f xs = Inr (map g xs)"
  by (simp add: py_map_Inr_iff)

text \<open>Python's \<open>xs.index(x)\<close> where \<open>x\<close> occurs: the first position holding it.\<close>

fun list_index :: "'a list \<Rightarrow> 'a \<Rightarrow> nat" where
  "list_index [] x = 0"
| "list_index (y # ys) x = (if y = x then 0 else Suc (list_index ys x))"

lemma list_index_less: "x \<in> set xs \<Longrightarrow> list_index xs x < length xs"
  by (induction xs) auto

lemma nth_list_index: "x \<in> set xs \<Longrightarrow> xs ! list_index xs x = x"
  by (induction xs) auto

subsection \<open>Python's \<open>str.split(sep)\<close>\<close>

text \<open>
  \<open>s.split(c)\<close> with an explicit one-character separator: the pieces between separators,
  empty pieces kept, so that \<open>''.split(c) = ['']\<close> and a trailing separator gives a
  trailing empty piece.
\<close>

fun py_split :: "char \<Rightarrow> string \<Rightarrow> string list" where
  "py_split c [] = [[]]"
| "py_split c (x # xs) =
     (if x = c then [] # py_split c xs
      else (case py_split c xs of p # ps \<Rightarrow> (x # p) # ps | [] \<Rightarrow> [[x]]))"

lemma py_split_nonempty [simp]: "py_split c s \<noteq> []"
  by (induction s) (auto split: list.split)

lemma py_split_no_sep: "c \<notin> set s \<Longrightarrow> py_split c s = [s]"
  by (induction s) auto

lemma py_split_append_sep:
  "c \<notin> set xs \<Longrightarrow> py_split c (xs @ c # ys) = xs # py_split c ys"
  by (induction xs) auto

lemmas py_split_simps [etl_simps] = py_split_no_sep py_split_append_sep

lemma py_split_pieces: "p \<in> set (py_split c s) \<Longrightarrow> c \<notin> set p"
proof (induction s arbitrary: p)
  case Nil
  then show ?case by simp
next
  case (Cons x xs)
  then show ?case
    by (auto split: if_splits list.splits)
qed

text \<open>Python's \<open>c.join(ps)\<close>, the inverse of \<open>split\<close>.\<close>

fun py_join :: "char \<Rightarrow> string list \<Rightarrow> string" where
  "py_join c [] = []"
| "py_join c [p] = p"
| "py_join c (p # q # ps) = p @ c # py_join c (q # ps)"

lemma py_join_Cons_Cons: "py_join c ((x # p) # ps) = x # py_join c (p # ps)"
  by (cases ps) auto

lemma py_join_split: "py_join c (py_split c s) = s"
proof (induction s)
  case Nil
  then show ?case by simp
next
  case (Cons x xs)
  obtain p ps where sp: "py_split c xs = p # ps"
    by (cases "py_split c xs") auto
  show ?case
  proof (cases "x = c")
    case True
    with Cons.IH sp show ?thesis by simp
  next
    case False
    with Cons.IH sp show ?thesis by (simp add: py_join_Cons_Cons)
  qed
qed

subsection \<open>Python's \<open>str.strip()\<close>\<close>

text \<open>
  \<open>str.isspace\<close> on the characters a byte can hold: tab, line feed, vertical tab, form
  feed, carriage return, the four information separators 0x1c--0x1f, space, NEL (0x85)
  and no-break space (0xa0).
\<close>

definition py_isspace :: "char \<Rightarrow> bool" where
  "py_isspace ch =
     (let k = of_char ch :: nat in (9 \<le> k \<and> k \<le> 13) \<or> (28 \<le> k \<and> k \<le> 32) \<or> k = 133 \<or> k = 160)"

definition py_strip :: "string \<Rightarrow> string" where
  "py_strip s = rev (dropWhile py_isspace (rev (dropWhile py_isspace s)))"

text \<open>
  \<open>str.split()\<close> without a separator: the words between runs of whitespace, with no
  empty word (leading and trailing whitespace give none).
\<close>

fun split_when :: "('a \<Rightarrow> bool) \<Rightarrow> 'a list \<Rightarrow> 'a list list" where
  "split_when P [] = [[]]"
| "split_when P (x # xs) =
     (if P x then [] # split_when P xs
      else (case split_when P xs of p # ps \<Rightarrow> (x # p) # ps | [] \<Rightarrow> [[x]]))"

definition py_split_ws :: "string \<Rightarrow> string list" where
  "py_split_ws s = filter (\<lambda>w. w \<noteq> []) (split_when py_isspace s)"

lemma split_when_concat: "concat (split_when P xs) = filter (\<lambda>x. \<not> P x) xs"
  by (induction xs) (auto split: list.splits)

lemma py_split_ws_no_space: "w \<in> set (py_split_ws s) \<Longrightarrow> w \<noteq> [] \<and> (\<forall>c \<in> set w. \<not> py_isspace c)"
proof -
  assume w: "w \<in> set (py_split_ws s)"
  have "set w \<subseteq> set (concat (split_when py_isspace s))"
    using w by (auto simp: py_split_ws_def)
  with w show ?thesis by (auto simp: py_split_ws_def split_when_concat)
qed


text \<open>A vector of cells without NaN is the vector of its values.\<close>

lemma map_Some_eq_iff: "map Some p = y \<longleftrightarrow> None \<notin> set y \<and> p = map the y"
proof (induction y arbitrary: p)
  case (Cons a y)
  then show ?case by (cases p) auto
qed simp

end
