(* ===== verification/Calendar.thy ===== *)
theory Calendar
  imports Prelude
begin

text \<open>
  Calendar dates as pandas holds them after \<open>pd.to_datetime\<close> (a \<open>Timestamp\<close> at
  midnight; only the date part is used by the pipeline): the accessors
  \<open>.dt.dayofweek\<close>, \<open>.dt.month\<close>, \<open>.dt.dayofyear\<close> of \<open>preprocessing\<close>
  (toolbox.py), the proleptic Gregorian ordinal they rest on, the \<open>Timestamp\<close> range
  outside which \<open>to_datetime\<close> raises, the \<open>strftime("%m/%d/%Y")\<close> rendering and the
  two parsers \<open>to_datetime\<close> applies in etl.py (month/day/year for the re-rendered
  weather dates, ISO \<open>YYYY-MM-DD\<close> for the API's \<open>time\<close> array and the sales file).
\<close>

record date =
  year :: nat
  month :: nat
  day :: nat

subsection \<open>The Gregorian calendar\<close>

definition is_leap :: "nat \<Rightarrow> bool" where
  "is_leap y \<longleftrightarrow> y mod 4 = 0 \<and> (y mod 100 \<noteq> 0 \<or> y mod 400 = 0)"

definition days_in_month :: "nat \<Rightarrow> nat \<Rightarrow> nat" where
  "days_in_month y m =
     (if m = 2 then (if is_leap y then 29 else 28)
      else if m = 4 \<or> m = 6 \<or> m = 9 \<or> m = 11 then 30 else 31)"

definition valid_date :: "date \<Rightarrow> bool" where
  "valid_date d \<longleftrightarrow>
     1 \<le> year d \<and> 1 \<le> month d \<and> month d \<le> 12 \<and>
     1 \<le> day d \<and> day d \<le> days_in_month (year d) (month d)"

definition days_before_month :: "nat \<Rightarrow> nat \<Rightarrow> nat" where
  "days_before_month y m = sum_list (map (days_in_month y) [1..<m])"

text \<open>\<open>Series.dt.dayofyear\<close>: 1 on January 1st.\<close>

definition dayofyear :: "date \<Rightarrow> nat" where
  "dayofyear d = days_before_month (year d) (month d) + day d"

text \<open>CPython's \<open>_days_before_year\<close> and \<open>date.toordinal\<close> (0001-01-01 is day 1).\<close>

definition days_before_year :: "nat \<Rightarrow> nat" where
  "days_before_year y =
     365 * (y - 1) + (y - 1) div 4 - (y - 1) div 100 + (y - 1) div 400"

definition toordinal :: "date \<Rightarrow> nat" where
  "toordinal d = days_before_year (year d) + dayofyear d"

text \<open>\<open>Series.dt.dayofweek\<close>: Monday is 0, Sunday is 6; day 1 of the ordinal was a Monday.\<close>

definition dayofweek :: "date \<Rightarrow> nat" where
  "dayofweek d = (toordinal d + 6) mod 7"

subsection \<open>The \<open>Timestamp\<close> range\<close>

text \<open>
  A nanosecond \<open>Timestamp\<close> spans 1677-09-21 00:12:43 to 2262-04-11 23:47:16, so the
  dates whose midnight it can hold are 1677-09-22 to 2262-04-11; \<open>to_datetime\<close> raises
  \<open>OutOfBoundsDatetime\<close> (a \<open>ValueError\<close>) on any other.
\<close>

definition in_ts_bounds :: "date \<Rightarrow> bool" where
  "in_ts_bounds d \<longleftrightarrow>
     (1677 < year d \<or> (year d = 1677 \<and> (9 < month d \<or> (month d = 9 \<and> 22 \<le> day d)))) \<and>
     (year d < 2262 \<or> (year d = 2262 \<and> (month d < 4 \<or> (month d = 4 \<and> day d \<le> 11))))"

subsection \<open>Digits\<close>

definition digit_char :: "nat \<Rightarrow> char" where
  "digit_char k = char_of (48 + k)"

definition is_digit :: "char \<Rightarrow> bool" where
  "is_digit c \<longleftrightarrow> CHR ''0'' \<le> c \<and> c \<le> CHR ''9''"

definition digit_of :: "char \<Rightarrow> nat" where
  "digit_of c = of_char c - 48"

text \<open>\<open>%m\<close>, \<open>%d\<close>, \<open>%Y\<close> of \<open>strftime\<close>: the number in \<open>w\<close> zero-padded digits.\<close>

fun pad_digits :: "nat \<Rightarrow> nat \<Rightarrow> string" where
  "pad_digits 0 n = []"
| "pad_digits (Suc w) n = pad_digits w (n div 10) @ [digit_char (n mod 10)]"

text \<open>A field of digits read as a decimal number; \<open>None\<close> unless it is all digits.\<close>

definition parse_uint :: "string \<Rightarrow> nat option" where
  "parse_uint s =
     (if s \<noteq> [] \<and> list_all is_digit s then Some (foldl (\<lambda>acc c. 10 * acc + digit_of c) 0 s)
      else None)"

subsection \<open>Rendering and parsing\<close>

text \<open>\<open>Series.dt.strftime("%m/%d/%Y")\<close> (etl.py line 89).\<close>

definition strftime_mdy :: "date \<Rightarrow> string" where
  "strftime_mdy d =
     pad_digits 2 (month d) @ ''/'' @ pad_digits 2 (day d) @ ''/'' @ pad_digits 4 (year d)"

text \<open>
  Building a date from parsed fields: an impossible day or month, or a date outside the
  \<open>Timestamp\<close> range, raises \<open>ValueError\<close>.
\<close>

definition make_date :: "nat \<Rightarrow> nat \<Rightarrow> nat \<Rightarrow> date result" where
  "make_date y m dd =
     (let d = \<lparr>year = y, month = m, day = dd\<rparr> in
      if valid_date d \<and> in_ts_bounds d then Inr d
      else Inl (ValueError ''time data does not match a valid Timestamp''))"

text \<open>
  \<open>pd.to_datetime\<close> on strings of the form \<open>%m/%d/%Y\<close> (etl.py line 90): one or two
  digits of month and of day, four of year.
\<close>

definition parse_mdy :: "string \<Rightarrow> date result" where
  "parse_mdy s =
     (case py_split CHR ''/'' s of
        [ms, ds, ys] \<Rightarrow>
          (if length ms \<in> {1, 2} \<and> length ds \<in> {1, 2} \<and> length ys = 4 then
             (case (parse_uint ms, parse_uint ds, parse_uint ys) of
                (Some m, Some dd, Some y) \<Rightarrow> make_date y m dd
              | _ \<Rightarrow> Inl (ValueError ''time data does not match format''))
           else Inl (ValueError ''time data does not match format''))
      | _ \<Rightarrow> Inl (ValueError ''time data does not match format''))"

text \<open>
  \<open>pd.to_datetime\<close> on ISO dates \<open>%Y-%m-%d\<close> (etl.py lines 73 and 85): the
  \<open>time\<close> array of the weather API and the \<open>date\<close> column of the sales file.
\<close>

definition parse_iso :: "string \<Rightarrow> date result" where
  "parse_iso s =
     (case py_split CHR ''-'' s of
        [ys, ms, ds] \<Rightarrow>
          (if length ys = 4 \<and> length ms \<in> {1, 2} \<and> length ds \<in> {1, 2} then
             (case (parse_uint ys, parse_uint ms, parse_uint ds) of
                (Some y, Some m, Some dd) \<Rightarrow> make_date y m dd
              | _ \<Rightarrow> Inl (ValueError ''time data does not match format''))
           else Inl (ValueError ''time data does not match format''))
      | _ \<Rightarrow> Inl (ValueError ''time data does not match format''))"

text \<open>\<open>date.isoformat()\<close>, the rendering the weather API uses for its \<open>time\<close> array.\<close>

definition isoformat :: "date \<Rightarrow> string" where
  "isoformat d =
     pad_digits 4 (year d) @ ''-'' @ pad_digits 2 (month d) @ ''-'' @ pad_digits 2 (day d)"

text \<open>
  Lines 89--90 of etl.py: the weather dates are rendered as \<open>%m/%d/%Y\<close> and parsed
  again before the join.
\<close>

definition normalize_date :: "date \<Rightarrow> date result" where
  "normalize_date d = parse_mdy (strftime_mdy d)"

text \<open>The length of a year, and the calendar successor of a date (used to state that
  \<open>dayofweek\<close> and the ordinal advance together).\<close>

definition year_length :: "nat \<Rightarrow> nat" where
  "year_length y = (if is_leap y then 366 else 365)"

definition next_day :: "date \<Rightarrow> date" where
  "next_day d =
     (if day d < days_in_month (year d) (month d) then d\<lparr>day := Suc (day d)\<rparr>
      else if month d < 12 then d\<lparr>month := Suc (month d), day := 1\<rparr>
      else \<lparr>year = Suc (year d), month = 1, day = 1\<rparr>)"

subsection \<open>Digits and the round trips of the date formats\<close>

lemma length_pad_digits [simp]: "length (pad_digits w n) = w"
  by (induction w arbitrary: n) auto

lemma pad_digits_Nil_iff [simp]: "pad_digits w n = [] \<longleftrightarrow> w = 0"
  by (metis length_pad_digits length_0_conv)

lemma digit_of_digit_char [simp]: "k < 10 \<Longrightarrow> digit_of (digit_char k) = k"
  by (simp add: digit_of_def digit_char_def)

lemma is_digit_digit_char [simp]: "k < 10 \<Longrightarrow> is_digit (digit_char k)"
  by (simp add: is_digit_def digit_char_def less_eq_char_def)

lemma pad_digits_all_digits: "list_all is_digit (pad_digits w n)"
  by (induction w arbitrary: n) auto

lemma pad_digits_value:
  "foldl (\<lambda>acc c. 10 * acc + digit_of c) a (pad_digits w n) = a * 10 ^ w + n mod 10 ^ w"
proof (induction w arbitrary: a n)
  case 0
  then show ?case by simp
next
  case (Suc w)
  have "n mod 10 ^ Suc w = 10 * (n div 10 mod 10 ^ w) + n mod 10"
    by (simp add: mod_mult2_eq mult.commute)
  with Suc.IH show ?case by (simp add: algebra_simps)
qed

lemma parse_uint_pad_digits:
  "0 < w \<Longrightarrow> n < 10 ^ w \<Longrightarrow> parse_uint (pad_digits w n) = Some n"
  using pad_digits_all_digits [of w n] pad_digits_value [of 0 w n]
  by (auto simp: parse_uint_def)

lemma sep_notin_pad_digits: "\<not> is_digit c \<Longrightarrow> c \<notin> set (pad_digits w n)"
  using pad_digits_all_digits [of w n] by (auto simp: list_all_iff)

lemma date_eta [simp]: "\<lparr>year = year d, month = month d, day = day d\<rparr> = d"
  by (cases d) simp

lemma valid_date_field_bounds:
  assumes "valid_date d" "in_ts_bounds d"
  shows "month d < 10 ^ 2" "day d < 10 ^ 2" "year d < 10 ^ 4"
  using assms by (auto simp: valid_date_def in_ts_bounds_def days_in_month_def split: if_splits)

lemma make_date_ok:
  "valid_date d \<Longrightarrow> in_ts_bounds d \<Longrightarrow> make_date (year d) (month d) (day d) = Inr d"
  by (simp add: make_date_def Let_def)

lemma parse_mdy_strftime:
  assumes "valid_date d" "in_ts_bounds d"
  shows "parse_mdy (strftime_mdy d) = Inr d"
proof -
  have sl: "\<not> is_digit CHR ''/''" by (simp add: is_digit_def less_eq_char_def)
  have "py_split CHR ''/'' (strftime_mdy d) =
      [pad_digits 2 (month d), pad_digits 2 (day d), pad_digits 4 (year d)]"
    by (simp add: strftime_mdy_def py_split_simps sep_notin_pad_digits [OF sl])
  with valid_date_field_bounds [OF assms] show ?thesis
    by (simp add: parse_mdy_def parse_uint_pad_digits make_date_ok [OF assms, symmetric])
qed

lemma parse_iso_isoformat:
  assumes "valid_date d" "in_ts_bounds d"
  shows "parse_iso (isoformat d) = Inr d"
proof -
  have sl: "\<not> is_digit CHR ''-''" by (simp add: is_digit_def less_eq_char_def)
  have "py_split CHR ''-'' (isoformat d) =
      [pad_digits 4 (year d), pad_digits 2 (month d), pad_digits 2 (day d)]"
    by (simp add: isoformat_def py_split_simps sep_notin_pad_digits [OF sl])
  with valid_date_field_bounds [OF assms] show ?thesis
    by (simp add: parse_iso_def parse_uint_pad_digits make_date_ok [OF assms, symmetric])
qed

lemma parse_iso_valid: "parse_iso s = Inr d \<Longrightarrow> valid_date d \<and> in_ts_bounds d"
  by (auto simp: parse_iso_def make_date_def Let_def
      split: list.splits option.splits if_splits)

subsection \<open>Day of year and the ordinal\<close>

lemma days_before_month_Suc:
  "1 \<le> m \<Longrightarrow> days_before_month y (Suc m) = days_before_month y m + days_in_month y m"
  by (simp add: days_before_month_def)

lemma days_before_month_mono:
  assumes "m \<le> m'" shows "days_before_month y m \<le> days_before_month y m'"
proof (cases "m = 0")
  case True
  then show ?thesis by (simp add: days_before_month_def)
next
  case False
  with assms have "[1..<m'] = [1..<m] @ [m..<m']"
    using upt_add_eq_append [of 1 m "m' - m"] by simp
  then show ?thesis by (simp add: days_before_month_def)
qed

lemma days_before_month_13: "days_before_month y 13 = year_length y"
  by (simp add: days_before_month_def days_in_month_def year_length_def upt_rec)

lemma dayofyear_le_year_length:
  assumes "valid_date d" shows "dayofyear d \<le> year_length (year d)"
proof -
  from assms have m: "1 \<le> month d" "month d \<le> 12"
    and dd: "day d \<le> days_in_month (year d) (month d)"
    by (auto simp: valid_date_def)
  have "dayofyear d \<le> days_before_month (year d) (Suc (month d))"
    using m dd by (simp add: dayofyear_def days_before_month_Suc)
  also have "\<dots> \<le> days_before_month (year d) 13"
    using m by (intro days_before_month_mono) simp
  finally show ?thesis by (simp add: days_before_month_13)
qed

text \<open>
  CPython's \<open>_days_before_year\<close> grows by the length of the year: the divisions by 4,
  100 and 400 are abstracted to plain numbers so that the arithmetic stays linear.
\<close>

lemma days_before_year_Suc:
  assumes "1 \<le> y" shows "days_before_year (Suc y) = days_before_year y + year_length y"
proof -
  obtain n where n: "y = Suc n" using assms by (cases y) auto
  define A B C where "A = n div 4" and "B = n div 100" and "C = n div 400"
  define p4 p100 p400 where "p4 \<longleftrightarrow> Suc n mod 4 = 0" and "p100 \<longleftrightarrow> Suc n mod 100 = 0"
    and "p400 \<longleftrightarrow> Suc n mod 400 = 0"
  have le: "B \<le> A" unfolding A_def B_def by (simp add: div_le_mono2)
  have i1: "p400 \<Longrightarrow> p100"
    using mod_mod_cancel [of 100 400 "Suc n"] by (simp add: p400_def p100_def)
  have i2: "p100 \<Longrightarrow> p4"
    using mod_mod_cancel [of 4 100 "Suc n"] by (simp add: p4_def p100_def)
  have l: "days_before_year (Suc y) =
      365 * Suc n + (A + (if p4 then 1 else 0)) - (B + (if p100 then 1 else 0))
      + (C + (if p400 then 1 else 0))"
    by (simp add: days_before_year_def n div_Suc A_def B_def C_def p4_def p100_def p400_def)
  have r: "days_before_year y = 365 * n + A - B + C"
    by (simp add: days_before_year_def n A_def B_def C_def)
  have yl: "year_length y = (if p4 \<and> (\<not> p100 \<or> p400) then 366 else 365)"
    by (simp add: year_length_def is_leap_def n p4_def p100_def p400_def)
  show ?thesis
    unfolding l r yl using le i1 i2 by (cases p4; cases p100; cases p400) simp_all
qed

lemma valid_next_day: "valid_date d \<Longrightarrow> valid_date (next_day d)"
  by (auto simp: valid_date_def next_day_def days_in_month_def)

lemma toordinal_next_day:
  assumes v: "valid_date d" shows "toordinal (next_day d) = Suc (toordinal d)"
proof -
  from v have m: "1 \<le> month d" "month d \<le> 12" "1 \<le> year d"
    and dd: "day d \<le> days_in_month (year d) (month d)" by (auto simp: valid_date_def)
  consider (same_month) "day d < days_in_month (year d) (month d)"
    | (next_month) "day d = days_in_month (year d) (month d)" "month d < 12"
    | (next_year) "day d = days_in_month (year d) (month d)" "month d = 12"
    using dd m by linarith
  then show ?thesis
  proof cases
    case same_month
    then show ?thesis by (simp add: next_day_def toordinal_def dayofyear_def)
  next
    case next_month
    then show ?thesis
      using m by (simp add: next_day_def toordinal_def dayofyear_def days_before_month_Suc)
  next
    case next_year
    have "dayofyear d = days_before_month (year d) 13"
      using next_year by (simp add: dayofyear_def days_before_month_Suc [of 12, simplified])
    then have doy: "dayofyear d = year_length (year d)"
      by (simp add: days_before_month_13)
    have jan1: "\<And>y. dayofyear \<lparr>year = y, month = Suc 0, day = Suc 0\<rparr> = 1"
      by (simp add: dayofyear_def days_before_month_def)
    show ?thesis
      using next_year m
      by (simp add: next_day_def toordinal_def days_before_year_Suc doy jan1)
  qed
qed

subsection \<open>Properties of the calendar features\<close>

text \<open>For a valid date the day of week is in 0..6, the month in 1..12 and the day of year in 1..366 (1..365 outside leap years).\<close>

theorem calendar_fields_bounds:
  assumes "valid_date d"
  shows "dayofweek d \<le> 6 \<and> 1 \<le> month d \<and> month d \<le> 12 \<and>
         1 \<le> dayofyear d \<and> dayofyear d \<le> 366 \<and>
         (\<not> is_leap (year d) \<longrightarrow> dayofyear d \<le> 365)"
  using assms dayofyear_le_year_length [OF assms]
  by (auto simp: dayofweek_def valid_date_def dayofyear_def year_length_def split: if_splits)

text \<open>The next calendar day is valid, has the next ordinal, and its day of week is the next one modulo 7.\<close>

theorem next_day_weekday:
  assumes "valid_date d"
  shows "valid_date (next_day d) \<and> toordinal (next_day d) = Suc (toordinal d) \<and>
         dayofweek (next_day d) = Suc (dayofweek d) mod 7"
  using assms valid_next_day toordinal_next_day
  by (simp add: dayofweek_def mod_Suc_eq)

text \<open>Formatting a valid in-range date as month/day/year and parsing it back gives the same date.\<close>

theorem normalize_date_identity:
  assumes "valid_date d" "in_ts_bounds d"
  shows "normalize_date d = Inr d"
  using parse_mdy_strftime [OF assms] by (simp add: normalize_date_def)

end
