(* ===== verification/Weather.thy ===== *)
theory Weather
  imports Calendar
begin

text \<open>
  The weather side of the pipeline: \<open>get_data\<close> of toolbox.py (one HTTP request to the
  Open-Meteo historical-forecast API, with a \<open>RequestException\<close> turned into an
  \<open>{"error": ...}\<close> dictionary), and the statements of etl.py (lines 69--90) that turn its
  result into the weather frame: the \<open>time\<close>, \<open>temperature_2m_max\<close> and
  \<open>temperature_2m_min\<close> arrays become the columns \<open>date\<close>, \<open>temp_max\<close>,
  \<open>temp_min\<close>, the daily \<open>temperature\<close> is the mean of the two rounded to one decimal
  (\<open>Series.round(1)\<close>, which rounds half to even), and the dates are rendered as
  \<open>%m/%d/%Y\<close> and parsed again. The network itself is the datatype \<open>http_outcome\<close>:
  what \<open>requests.get(...).json()\<close> produced.
\<close>

subsection \<open>The API response and \<open>get_data\<close>\<close>

text \<open>The \<open>daily\<close> object of the JSON response: parallel arrays, \<open>null\<close> read as NaN.\<close>

record daily =
  time :: "string list"
  temperature_2m_max :: "cell list"
  temperature_2m_min :: "cell list"

text \<open>
  What the request and \<open>response.json()\<close> did: raised a \<open>RequestException\<close> (a
  transport failure, or a body that is not JSON: \<open>requests.JSONDecodeError\<close> is one),
  or produced a JSON object, with or without its \<open>daily\<close> key.
\<close>

datatype http_outcome =
    Request_exception string
  | Json_body "daily option"

text \<open>What \<open>get_data\<close> returns: the \<open>daily\<close> object, or the error dictionary.\<close>

datatype temperatures =
    Daily_data daily
  | Error_dict string

text \<open>
  toolbox.py lines 19--29. A JSON object without \<open>daily\<close> makes \<open>data["daily"]\<close> raise
  \<open>KeyError\<close>, which the \<open>except requests.RequestException\<close> clause does not catch.
\<close>

fun get_data :: "http_outcome \<Rightarrow> temperatures result" where
  "get_data (Request_exception m) = Inr (Error_dict (''Error al obtener datos: '' @ m))"
| "get_data (Json_body None) = Inl (KeyError ''daily'')"
| "get_data (Json_body (Some d)) = Inr (Daily_data d)"

subsection \<open>The daily mean temperature\<close>

text \<open>
  \<open>numpy.round\<close>, which \<open>Series.round\<close> calls: round half to even
  (\<open>rint\<close>) of the value scaled by \<open>10 ^ decimals\<close>. Values are exact rationals here;
  the binary floating-point error of the scaling is not modelled.
\<close>

definition round_half_even :: "rat \<Rightarrow> int" where
  "round_half_even x =
     (let f = \<lfloor>x\<rfloor>; r = x - of_int f in
      if r < 1 / 2 then f else if 1 / 2 < r then f + 1 else if even f then f else f + 1)"

definition round1 :: "rat \<Rightarrow> rat" where
  "round1 x = of_int (round_half_even (x * 10)) / 10"

text \<open>
  etl.py line 79, one row: \<open>((temp_max + temp_min) / 2).round(1)\<close>; a NaN operand gives
  NaN.
\<close>

definition mean_temperature :: "cell \<Rightarrow> cell \<Rightarrow> cell" where
  "mean_temperature tmax tmin =
     (case (tmax, tmin) of
        (Some a, Some b) \<Rightarrow> Some (round1 ((a + b) / 2))
      | _ \<Rightarrow> None)"

subsection \<open>The weather frame\<close>

record weather_row =
  w_date :: date
  temp_max :: cell
  temp_min :: cell
  temperature :: cell

text \<open>
  etl.py lines 72--79. The dictionary literal is evaluated first: \<open>temperatures["time"]\<close>
  raises \<open>KeyError\<close> on the error dictionary, and \<open>pd.to_datetime\<close> raises on a date
  it cannot parse; then the \<open>DataFrame\<close> constructor raises \<open>ValueError\<close> unless the
  three arrays have the same length; then line 79 adds the \<open>temperature\<close> column.
\<close>

definition weather_frame :: "temperatures \<Rightarrow> weather_row list result" where
  "weather_frame t =
     (case t of
        Error_dict _ \<Rightarrow> Inl (KeyError ''time'')
      | Daily_data d \<Rightarrow>
          py_bind (py_map parse_iso (time d)) (\<lambda>dates.
            if length (temperature_2m_max d) \<noteq> length dates
               \<or> length (temperature_2m_min d) \<noteq> length dates
            then Inl (ValueError ''All arrays must be of the same length'')
            else Inr (map (\<lambda>(dt, hi, lo).
                             \<lparr>w_date = dt, temp_max = hi, temp_min = lo,
                              temperature = mean_temperature hi lo\<rparr>)
                        (zip dates (zip (temperature_2m_max d) (temperature_2m_min d))))))"

text \<open>
  etl.py lines 86--90 on the weather frame: \<open>pd.to_datetime\<close> of a datetime column, then
  \<open>dt.strftime("%m/%d/%Y")\<close> and \<open>pd.to_datetime\<close> again, row by row.
\<close>

definition normalize_weather :: "weather_row list \<Rightarrow> weather_row list result" where
  "normalize_weather ws =
     py_map (\<lambda>w. py_bind (normalize_date (w_date w)) (\<lambda>d. Inr (w\<lparr>w_date := d\<rparr>))) ws"


text \<open>A value with at most one decimal, as the API reports temperatures.\<close>

definition on_tenths :: "rat \<Rightarrow> bool" where
  "on_tenths x \<longleftrightarrow> of_int \<lfloor>x * 10\<rfloor> = x * 10"

text \<open>The three days of the scenario of the specification (section 8), as the API returns them.\<close>

definition scenario_daily :: daily where
  "scenario_daily =
     \<lparr>time = [''2024-06-01'', ''2024-06-02'', ''2024-06-03''],
      temperature_2m_max = [Some 25, Some 24, Some (241 / 10)],
      temperature_2m_min = [Some 16, Some 18, Some (155 / 10)]\<rparr>"

definition scenario_weather :: "weather_row list" where
  "scenario_weather =
     [\<lparr>w_date = \<lparr>year = 2024, month = 6, day = 1\<rparr>, temp_max = Some 25, temp_min = Some 16,
       temperature = Some (205 / 10)\<rparr>,
      \<lparr>w_date = \<lparr>year = 2024, month = 6, day = 2\<rparr>, temp_max = Some 24, temp_min = Some 18,
       temperature = Some 21\<rparr>,
      \<lparr>w_date = \<lparr>year = 2024, month = 6, day = 3\<rparr>, temp_max = Some (241 / 10),
       temp_min = Some (155 / 10), temperature = Some (198 / 10)\<rparr>]"

subsection \<open>Rounding\<close>

lemma round_half_even_floor_ceiling:
  "round_half_even x = \<lfloor>x\<rfloor> \<or> round_half_even x = \<lceil>x\<rceil>"
proof -
  have "x - of_int \<lfloor>x\<rfloor> \<ge> 1 / 2 \<Longrightarrow> \<lceil>x\<rceil> = \<lfloor>x\<rfloor> + 1"
    by (auto simp: ceiling_altdef)
  then show ?thesis
    by (auto simp: round_half_even_def Let_def not_less)
qed

lemma round_half_even_error: "\<bar>of_int (round_half_even x) - x\<bar> \<le> 1 / 2"
proof -
  have f: "of_int \<lfloor>x\<rfloor> \<le> x" "x < of_int \<lfloor>x\<rfloor> + 1"
    using floor_correct [of x] by simp_all
  then show ?thesis
    by (auto simp: round_half_even_def Let_def abs_le_iff)
qed

lemma round_half_even_between:
  assumes "of_int a \<le> x" "x \<le> of_int b"
  shows "a \<le> round_half_even x \<and> round_half_even x \<le> b"
proof -
  from assms have "a \<le> \<lfloor>x\<rfloor>" "\<lceil>x\<rceil> \<le> b" by (simp_all add: le_floor_iff ceiling_le_iff)
  moreover have "\<lfloor>x\<rfloor> \<le> \<lceil>x\<rceil>" by simp
  ultimately show ?thesis using round_half_even_floor_ceiling [of x] by (metis order_trans floor_le_ceiling)
qed

text \<open>Rounding to one decimal half to even moves a value by at most 0.05.\<close>

theorem round1_error: "\<bar>round1 x - x\<bar> \<le> 1 / 20"
proof -
  have e: "round1 x - x = (of_int (round_half_even (x * 10)) - x * 10) / 10"
    by (simp add: round1_def field_simps)
  have "\<bar>round1 x - x\<bar> = \<bar>of_int (round_half_even (x * 10)) - x * 10\<bar> / 10"
    unfolding e abs_divide by simp
  also have "\<dots> \<le> (1 / 2) / 10"
    using round_half_even_error [of "x * 10"] by (rule divide_right_mono) simp
  finally show ?thesis by simp
qed

lemma on_tenths_round1: "on_tenths (round1 x)"
  by (simp add: on_tenths_def round1_def)

text \<open>C33: For extremes given to one decimal, the rounded daily mean lies between the minimum and the maximum and has one decimal.\<close>

theorem mean_temperature_between:
  assumes "on_tenths lo" "on_tenths hi" "lo \<le> hi"
  shows "\<exists>t. mean_temperature (Some hi) (Some lo) = Some t \<and> lo \<le> t \<and> t \<le> hi \<and> on_tenths t"
proof -
  define a b where "a = \<lfloor>lo * 10\<rfloor>" and "b = \<lfloor>hi * 10\<rfloor>"
  have lo: "lo * 10 = of_int a" using assms(1) unfolding on_tenths_def a_def by (rule sym)
  have hi: "hi * 10 = of_int b" using assms(2) unfolding on_tenths_def b_def by (rule sym)
  have m: "(hi + lo) / 2 * 10 = (hi * 10 + lo * 10) / 2" by (simp add: field_simps)
  have "of_int a \<le> (hi + lo) / 2 * 10"
    using assms(3) unfolding m lo [symmetric] by (simp add: field_simps)
  moreover have "(hi + lo) / 2 * 10 \<le> of_int b"
    using assms(3) unfolding m hi [symmetric] by (simp add: field_simps)
  ultimately have k: "a \<le> round_half_even ((hi + lo) / 2 * 10) \<and> round_half_even ((hi + lo) / 2 * 10) \<le> b"
    by (rule round_half_even_between)
  have "lo \<le> round1 ((hi + lo) / 2) \<and> round1 ((hi + lo) / 2) \<le> hi"
  proof -
    have "lo = of_int a / 10" "hi = of_int b / 10" using lo hi by (simp_all add: field_simps)
    with k show ?thesis by (simp add: round1_def divide_right_mono)
  qed
  then show ?thesis by (simp add: mean_temperature_def on_tenths_round1)
qed


subsection \<open>The weather frame\<close>

lemma weather_frame_Inr:
  assumes "weather_frame t = Inr ws"
  obtains d ds where "t = Daily_data d" "py_map parse_iso (time d) = Inr ds"
    "length (temperature_2m_max d) = length ds" "length (temperature_2m_min d) = length ds"
    "ws = map (\<lambda>(dt, hi, lo). \<lparr>w_date = dt, temp_max = hi, temp_min = lo,
                              temperature = mean_temperature hi lo\<rparr>)
            (zip ds (zip (temperature_2m_max d) (temperature_2m_min d)))"
  using assms
  by (auto simp: weather_frame_def py_bind_eq_Inr split: temperatures.splits if_splits)

text \<open>C32: The weather frame has one row per day of the API response, with the parsed date, both extremes and their rounded mean.\<close>

theorem weather_frame_rows:
  assumes "weather_frame t = Inr ws"
  shows "\<exists>d. t = Daily_data d \<and> length ws = length (time d) \<and>
           (\<forall>i < length ws. parse_iso (time d ! i) = Inr (w_date (ws ! i)) \<and>
              temp_max (ws ! i) = temperature_2m_max d ! i \<and>
              temp_min (ws ! i) = temperature_2m_min d ! i \<and>
              temperature (ws ! i) =
                mean_temperature (temperature_2m_max d ! i) (temperature_2m_min d ! i))"
proof -
  obtain d ds where t: "t = Daily_data d" and ds: "py_map parse_iso (time d) = Inr ds"
    and l1: "length (temperature_2m_max d) = length ds"
    and l2: "length (temperature_2m_min d) = length ds"
    and ws: "ws = map (\<lambda>(dt, hi, lo). \<lparr>w_date = dt, temp_max = hi, temp_min = lo,
                              temperature = mean_temperature hi lo\<rparr>)
            (zip ds (zip (temperature_2m_max d) (temperature_2m_min d)))"
    using assms by (rule weather_frame_Inr)
  have len: "length ds = length (time d)" using ds by (rule py_map_length)
  show ?thesis
    using t ws l1 l2 len py_map_nth [OF ds] by auto
qed

lemma weather_frame_dates_valid:
  assumes "weather_frame t = Inr ws" "w \<in> set ws"
  shows "valid_date (w_date w) \<and> in_ts_bounds (w_date w)"
proof -
  obtain d ds where "t = Daily_data d" and ds: "py_map parse_iso (time d) = Inr ds"
    and l1: "length (temperature_2m_max d) = length ds"
    and l2: "length (temperature_2m_min d) = length ds"
    and ws: "ws = map (\<lambda>(dt, hi, lo). \<lparr>w_date = dt, temp_max = hi, temp_min = lo,
                              temperature = mean_temperature hi lo\<rparr>)
            (zip ds (zip (temperature_2m_max d) (temperature_2m_min d)))"
    using assms(1) by (rule weather_frame_Inr)
  from assms(2) ws obtain i where i: "i < length ds" and wd: "w_date w = ds ! i"
    using l1 l2 by (auto simp: in_set_conv_nth)
  have "parse_iso (time d ! i) = Inr (ds ! i)"
    using py_map_nth [OF ds] i py_map_length [OF ds] by simp
  then show ?thesis using wd parse_iso_valid by simp
qed

lemma normalize_weather_valid:
  assumes "\<And>w. w \<in> set ws \<Longrightarrow> valid_date (w_date w) \<and> in_ts_bounds (w_date w)"
  shows "normalize_weather ws = Inr ws"
proof -
  have "\<And>w. w \<in> set ws \<Longrightarrow>
      py_bind (normalize_date (w_date w)) (\<lambda>d. Inr (w\<lparr>w_date := d\<rparr>)) = Inr (id w)"
    using assms parse_mdy_strftime by (simp add: normalize_date_def)
  then show ?thesis unfolding normalize_weather_def by (drule_tac py_map_all_Inr) simp
qed

text \<open>C31: The strftime("%m/%d/%Y") and to_datetime round trip of etl.py lines 89-90 leaves every weather date unchanged.\<close>

theorem normalize_weather_identity:
  assumes "weather_frame t = Inr ws"
  shows "normalize_weather ws = Inr ws"
  using weather_frame_dates_valid [OF assms] by (rule normalize_weather_valid)


subsection \<open>The scenario of the specification\<close>

lemma scenario_weather_frame: "weather_frame (Daily_data scenario_daily) = Inr scenario_weather"
  by (simp add: scenario_daily_def scenario_weather_def) code_simp

theorem mean_temperature_between_witness:
  "on_tenths (155 / 10) \<and> on_tenths (241 / 10) \<and> (155 / 10 :: rat) \<le> 241 / 10 \<and>
   (\<exists>t. mean_temperature (Some (241 / 10)) (Some (155 / 10)) = Some t \<and>
        155 / 10 \<le> t \<and> t \<le> 241 / 10)"
proof -
  have a: "on_tenths (155 / 10)" and b: "on_tenths (241 / 10)" and c: "(155 / 10 :: rat) \<le> 241 / 10"
    by (simp_all add: on_tenths_def)
  show ?thesis using a b c mean_temperature_between [OF a b c] by blast
qed

theorem weather_frame_rows_witness:
  "weather_frame (Daily_data scenario_daily) = Inr scenario_weather \<and> length scenario_weather = 3"
  using weather_frame_rows [OF scenario_weather_frame] scenario_weather_frame
  by (auto simp: scenario_daily_def)

theorem normalize_weather_identity_witness:
  "weather_frame (Daily_data scenario_daily) = Inr scenario_weather \<and>
   normalize_weather scenario_weather = Inr scenario_weather"
  using normalize_weather_identity [OF scenario_weather_frame] scenario_weather_frame by simp

end
