(* ===== verification/Features.thy ===== *)
theory Features
  imports Weather
begin

text \<open>
  The feature builder: the sales rows read from \<open>sales.csv\<close>, their \<open>date\<close> column parsed
  (etl.py line 85), the left join with the weather frame on the date (etl.py line 93),
  and \<open>preprocessing\<close> of toolbox.py: the calendar columns, the one-hot encoding of
  \<open>category\<close> by a \<open>OneHotEncoder(handle_unknown="ignore")\<close> fitted on the batch itself,
  and the selection of the feature columns in their fixed order.
\<close>

subsection \<open>Sales rows\<close>

text \<open>
  One row of the sales frame, with its \<open>date\<close> column of type \<open>'d\<close>: the text read from
  the file, then the parsed date. Only the four columns the code reads are modelled.
  \<open>pd.read_csv\<close> reads the numeric columns \<open>price\<close> and \<open>sales\<close> as \<open>float64\<close>, an
  empty field as NaN: they are cells.
\<close>

record 'd sales_row =
  s_date :: 'd
  category :: string
  price :: cell
  sales :: cell

text \<open>etl.py line 85: \<open>df_sales["date"] = pd.to_datetime(df_sales["date"])\<close>.\<close>

definition parse_sales :: "string sales_row list \<Rightarrow> date sales_row list result" where
  "parse_sales rs =
     py_map (\<lambda>r. py_bind (parse_iso (s_date r)) (\<lambda>d.
                  Inr \<lparr>s_date = d, category = category r, price = price r, sales = sales r\<rparr>)) rs"

subsection \<open>The left join\<close>

text \<open>A row of \<open>df_final\<close>: the sales row and the joined \<open>temperature\<close> (NaN if none).\<close>

record merged_row = "date sales_row" +
  m_temperature :: cell

definition merge_row :: "date sales_row \<Rightarrow> cell \<Rightarrow> merged_row" where
  "merge_row s t =
     \<lparr>s_date = s_date s, category = category s, price = price s, sales = sales s,
      m_temperature = t\<rparr>"

text \<open>
  etl.py line 93: \<open>pd.merge(df_sales, df_weather[["date", "temperature"]], on="date",
  how="left")\<close>. Each sales row in order yields one row per weather row with the same date,
  in the weather frame's order, or one row with a NaN temperature when there is none.
\<close>

definition left_merge :: "date sales_row list \<Rightarrow> weather_row list \<Rightarrow> merged_row list" where
  "left_merge ss ws =
     concat (map (\<lambda>s. let ms = filter (\<lambda>w. w_date w = s_date s) ws in
                      if ms = [] then [merge_row s None]
                      else map (\<lambda>w. merge_row s (temperature w)) ms) ss)"

text \<open>The join as a dictionary lookup: the specification's "left join on the date".\<close>

definition temperature_by_date :: "weather_row list \<Rightarrow> date \<rightharpoonup> cell" where
  "temperature_by_date ws = map_of (map (\<lambda>w. (w_date w, temperature w)) ws)"

definition lookup_join :: "date sales_row list \<Rightarrow> weather_row list \<Rightarrow> merged_row list" where
  "lookup_join ss ws =
     map (\<lambda>s. merge_row s (case temperature_by_date ws (s_date s) of None \<Rightarrow> None | Some t \<Rightarrow> t)) ss"

subsection \<open>Calendar columns\<close>

text \<open>toolbox.py lines 36--39, one row: \<open>day_of_week\<close>, \<open>month\<close>, \<open>day_of_year\<close>.\<close>

definition calendar_features :: "date \<Rightarrow> nat \<times> nat \<times> nat" where
  "calendar_features d = (dayofweek d, month d, dayofyear d)"

subsection \<open>The one-hot encoder\<close>

text \<open>
  \<open>OneHotEncoder.fit\<close> on one column: the categories are the distinct values, sorted
  (\<open>numpy.unique\<close>; strings compare by code point, which the lexicographic order on
  byte strings of \<open>List_Lexorder\<close> and \<open>Char_ord\<close> matches for UTF-8).
\<close>

definition fit_categories :: "string list \<Rightarrow> string list" where
  "fit_categories cs = sort (remdups cs)"

text \<open>
  \<open>transform\<close> with \<open>handle_unknown="ignore"\<close>: a 1 in the column of the value, 0
  elsewhere; a value not seen by \<open>fit\<close> is all zeros.
\<close>

definition onehot :: "string list \<Rightarrow> string \<Rightarrow> rat list" where
  "onehot cats c = map (\<lambda>k. if k = c then 1 else 0) cats"

text \<open>\<open>get_feature_names_out(["category"])\<close>.\<close>

definition feature_names_out :: "string list \<Rightarrow> string list" where
  "feature_names_out cats = map (\<lambda>k. ''category_'' @ k) cats"

subsection \<open>The feature matrix\<close>

record feature_matrix =
  columns :: "string list"
  rows :: "cell list list"

definition base_columns :: "string list" where
  "base_columns = [''temperature'', ''price'', ''day_of_week'', ''month'', ''day_of_year'']"

text \<open>One row of \<open>X = df[feature_cols]\<close>, in the order of \<open>feature_cols\<close>.\<close>

definition feature_row :: "string list \<Rightarrow> merged_row \<Rightarrow> cell list" where
  "feature_row cats r =
     (let (dw, m, dy) = calendar_features (s_date r) in
      [m_temperature r, price r, Some (of_nat dw), Some (of_nat m), Some (of_nat dy)]
      @ map Some (onehot cats (category r)))"

text \<open>
  toolbox.py lines 33--51. \<open>fit_transform\<close> on a frame without rows raises
  \<open>ValueError\<close> (scikit-learn wants at least one sample); otherwise the encoder is fitted
  on this batch and the matrix assembled.
\<close>

definition preprocessing :: "merged_row list \<Rightarrow> feature_matrix result" where
  "preprocessing ms =
     (if ms = [] then Inl (ValueError ''Found array with 0 sample(s)'')
      else
        (let cats = fit_categories (map category ms) in
         Inr \<lparr>columns = base_columns @ feature_names_out cats,
              rows = map (feature_row cats) ms\<rparr>))"

subsection \<open>The scenario of the specification\<close>

definition scenario_sales_csv :: "string sales_row list" where
  "scenario_sales_csv =
     [\<lparr>s_date = ''2024-06-01'', category = ''A'', price = Some 10, sales = Some 13\<rparr>,
      \<lparr>s_date = ''2024-06-02'', category = ''B'', price = Some 20, sales = Some 18\<rparr>,
      \<lparr>s_date = ''2024-06-03'', category = ''A'', price = Some 15, sales = Some 15\<rparr>]"

definition scenario_sales :: "date sales_row list" where
  "scenario_sales =
     [\<lparr>s_date = \<lparr>year = 2024, month = 6, day = 1\<rparr>, category = ''A'', price = Some 10, sales = Some 13\<rparr>,
      \<lparr>s_date = \<lparr>year = 2024, month = 6, day = 2\<rparr>, category = ''B'', price = Some 20, sales = Some 18\<rparr>,
      \<lparr>s_date = \<lparr>year = 2024, month = 6, day = 3\<rparr>, category = ''A'', price = Some 15, sales = Some 15\<rparr>]"

definition scenario_features :: feature_matrix where
  "scenario_features =
     \<lparr>columns = [''temperature'', ''price'', ''day_of_week'', ''month'', ''day_of_year'',
                ''category_A'', ''category_B''],
      rows = [[Some (205 / 10), Some 10, Some 5, Some 6, Some 153, Some 1, Some 0],
              [Some 21, Some 20, Some 6, Some 6, Some 154, Some 0, Some 1],
              [Some (198 / 10), Some 15, Some 0, Some 6, Some 155, Some 1, Some 0]]\<rparr>"

lemma left_merge_Cons:
  "left_merge (s # ss) ws =
     (let ms = filter (\<lambda>w. w_date w = s_date s) ws in
      if ms = [] then [merge_row s None] else map (\<lambda>w. merge_row s (temperature w)) ms)
     @ left_merge ss ws"
  by (simp add: left_merge_def)

lemma left_merge_Nil [simp]: "left_merge [] ws = []"
  by (simp add: left_merge_def)

lemma merge_block_sales:
  "set (map sales (if ms = [] then [merge_row s None] else map (\<lambda>w. merge_row s (temperature w)) ms)) =
   {sales s}"
  by (cases ms) (auto simp: merge_row_def)

lemma left_merge_sales: "set (map sales (left_merge ss ws)) = set (map sales ss)"
proof (induction ss)
  case (Cons s ss)
  then show ?case
    using merge_block_sales [of "filter (\<lambda>w. w_date w = s_date s) ws" s]
    by (simp add: left_merge_Cons Let_def del: set_map)
qed simp

lemma parse_sales_sales: "parse_sales rs = Inr ss \<Longrightarrow> map sales ss = map sales rs"
  by (induction rs arbitrary: ss) (auto simp: parse_sales_def py_bind_eq_Inr)

lemma left_merge_length_general:
  "length (left_merge ss ws) =
     sum_list (map (\<lambda>s. max 1 (length (filter (\<lambda>w. w_date w = s_date s) ws))) ss)"
  by (induction ss) (auto simp: left_merge_Cons Let_def max_def Suc_le_eq)

lemma filter_date_distinct:
  "distinct (map w_date ws) \<Longrightarrow>
   map temperature (filter (\<lambda>w. w_date w = d) ws) =
     (case temperature_by_date ws d of None \<Rightarrow> [] | Some t \<Rightarrow> [t])"
proof (induction ws)
  case Nil
  then show ?case by (simp add: temperature_by_date_def)
next
  case (Cons w ws)
  from Cons.prems have "w_date w \<notin> set (map w_date ws)" by simp
  then have "d = w_date w \<Longrightarrow> filter (\<lambda>v. w_date v = d) ws = []"
    by (metis (mono_tags, lifting) filter_empty_conv image_eqI list.set_map)
  with Cons show ?case by (auto simp: temperature_by_date_def)
qed

text \<open>C17: When the weather dates are distinct, pandas' left merge on date equals the reference join that looks up each sales date in the weather.\<close>

theorem left_merge_lookup_join:
  assumes "distinct (map w_date ws)"
  shows "left_merge ss ws = lookup_join ss ws"
proof (induction ss)
  case Nil
  then show ?case by (simp add: lookup_join_def)
next
  case (Cons s ss)
  have f: "map temperature (filter (\<lambda>w. w_date w = s_date s) ws) =
     (case temperature_by_date ws (s_date s) of None \<Rightarrow> [] | Some t \<Rightarrow> [t])"
    using assms by (rule filter_date_distinct)
  have "(let ms = filter (\<lambda>w. w_date w = s_date s) ws in
      if ms = [] then [merge_row s None] else map (\<lambda>w. merge_row s (temperature w)) ms) =
      [merge_row s (case temperature_by_date ws (s_date s) of None \<Rightarrow> None | Some t \<Rightarrow> t)]"
  proof (cases "temperature_by_date ws (s_date s)")
    case None
    with f show ?thesis by (simp add: Let_def)
  next
    case (Some t)
    let ?ms = "filter (\<lambda>w. w_date w = s_date s) ws"
    have "map (\<lambda>w. merge_row s (temperature w)) ?ms = map (merge_row s) (map temperature ?ms)"
      by simp
    also have "\<dots> = [merge_row s t]" using f Some by simp
    finally have m: "map (\<lambda>w. merge_row s (temperature w)) ?ms = [merge_row s t]" .
    have "?ms \<noteq> []" using f Some by auto
    with m Some show ?thesis by (simp add: Let_def)
  qed
  with Cons.IH show ?case by (simp add: left_merge_Cons lookup_join_def)
qed

lemma truncate_merge_row [simp]: "sales_row.truncate (merge_row s t) = s"
  by (simp add: merge_row_def sales_row.defs)

text \<open>C18: With distinct weather dates the join keeps exactly the sales rows, in order, one output row for each.\<close>

theorem left_merge_preserves_sales:
  assumes "distinct (map w_date ws)"
  shows "length (left_merge ss ws) = length ss \<and>
         map sales_row.truncate (left_merge ss ws) = ss"
proof (induction ss)
  case Nil
  then show ?case by simp
next
  case (Cons s ss)
  have "length (filter (\<lambda>w. w_date w = s_date s) ws) \<le> 1"
    using arg_cong [OF filter_date_distinct [OF assms, of "s_date s"], of length]
    by (simp split: option.splits)
  with Cons.IH show ?case
    by (cases "filter (\<lambda>w. w_date w = s_date s) ws") (auto simp: left_merge_Cons)
qed

text \<open>C19: A weather date that occurs twice duplicates the matching sales row in the join.\<close>

theorem left_merge_duplicate_dates:
  assumes "w_date w = s_date s"
  shows "length (left_merge [s] [w, w]) = 2"
  using assms by (simp add: left_merge_def)

subsection \<open>The encoder and the feature matrix\<close>

lemma fit_categories_sorted_distinct:
  "sorted (fit_categories cs) \<and> distinct (fit_categories cs) \<and> set (fit_categories cs) = set cs"
  by (simp add: fit_categories_def)

lemma length_onehot [simp]: "length (onehot cats c) = length cats"
  by (simp add: onehot_def)

lemma count_onehot_one:
  "distinct cats \<Longrightarrow> count_list (onehot cats c) 1 = (if c \<in> set cats then 1 else 0)"
  by (induction cats) (auto simp: onehot_def)

lemma count_onehot_zero_one:
  "count_list (onehot cats c) 0 + count_list (onehot cats c) 1 = length cats"
  by (induction cats) (auto simp: onehot_def)

lemma nth_onehot_index:
  "c \<in> set cats \<Longrightarrow> onehot cats c ! list_index cats c = 1"
  by (simp add: onehot_def list_index_less nth_list_index)

lemma count_list_map_Some: "count_list (map Some xs) (Some y) = count_list xs y"
  by (induction xs) auto

text \<open>A category the encoder was not fitted on is encoded as all zeros (handle_unknown="ignore"). The script fits the encoder on the rows it encodes, so the case does not arise there.\<close>

theorem onehot_unknown:
  assumes "c \<notin> set cats"
  shows "onehot cats c = replicate (length cats) 0"
  using assms by (induction cats) (auto simp: onehot_def)

lemma preprocessing_Inr:
  assumes "preprocessing ms = Inr X"
  shows "ms \<noteq> [] \<and> columns X = base_columns @ feature_names_out (fit_categories (map category ms)) \<and>
         rows X = map (feature_row (fit_categories (map category ms))) ms"
  using assms by (auto simp: preprocessing_def Let_def split: if_splits)

lemma feature_row_split:
  "feature_row cats r =
     [m_temperature r, price r, Some (of_nat (dayofweek (s_date r))),
      Some (of_nat (month (s_date r))), Some (of_nat (dayofyear (s_date r)))]
     @ map Some (onehot cats (category r))"
  by (simp add: feature_row_def calendar_features_def)

lemma length_feature_row [simp]: "length (feature_row cats r) = 5 + length cats"
  by (simp add: feature_row_split)

text \<open>C22: The feature matrix has the columns temperature, price, day_of_week, month, day_of_year and then one category_<c> column per sorted distinct category, one row per joined row with one cell per column, whose first cell is the row's temperature and second its price.\<close>

theorem preprocessing_shape:
  assumes "preprocessing ms = Inr X"
  shows "columns X = [''temperature'', ''price'', ''day_of_week'', ''month'', ''day_of_year''] @
           map (\<lambda>c. ''category_'' @ c) (fit_categories (map category ms)) \<and>
         length (rows X) = length ms \<and>
         (\<forall>i < length ms. length (rows X ! i) = length (columns X) \<and>
            rows X ! i ! 0 = m_temperature (ms ! i) \<and> rows X ! i ! 1 = price (ms ! i))"
  using preprocessing_Inr [OF assms]
  by (auto simp: base_columns_def feature_names_out_def feature_row_split)

text \<open>C23: Each row has exactly one 1 among its category columns, at the column of its own category, and zeros elsewhere.\<close>

theorem preprocessing_onehot:
  assumes "preprocessing ms = Inr X" "i < length ms"
  defines "cats \<equiv> fit_categories (map category ms)" and "c \<equiv> category (ms ! i)"
  shows "count_list (drop 5 (rows X ! i)) (Some 1) = 1 \<and>
         count_list (drop 5 (rows X ! i)) (Some 0) = length cats - 1 \<and>
         columns X ! (5 + list_index cats c) = ''category_'' @ c \<and>
         rows X ! i ! (5 + list_index cats c) = Some 1"
proof -
  note pre = preprocessing_Inr [OF assms(1)]
  have cin: "c \<in> set cats" using assms(2) fit_categories_sorted_distinct
    by (simp add: cats_def c_def)
  have dist: "distinct cats" using fit_categories_sorted_distinct by (simp add: cats_def)
  have row: "rows X ! i = feature_row cats (ms ! i)" using pre assms(2) by (simp add: cats_def)
  have oh: "drop 5 (rows X ! i) = map Some (onehot cats c)" by (simp add: row feature_row_split c_def)
  have one: "count_list (onehot cats c) 1 = 1" using count_onehot_one [OF dist] cin by simp
  have zero: "count_list (onehot cats c) 0 = length cats - 1"
    using count_onehot_zero_one [of cats c] one by simp
  have ix: "list_index cats c < length cats" using cin by (rule list_index_less)
  have col: "columns X ! (5 + list_index cats c) = ''category_'' @ c"
    using pre ix cin by (simp add: cats_def base_columns_def feature_names_out_def nth_append nth_list_index)
  have "rows X ! i ! (5 + list_index cats c) = Some (onehot cats c ! list_index cats c)"
    using ix by (simp add: row feature_row_split c_def nth_append)
  then show ?thesis using oh one zero col nth_onehot_index [OF cin]
    by (simp add: count_list_map_Some)
qed

text \<open>C24: For valid dates the calendar columns hold a day of week in 0..6, a month in 1..12 and a day of year in 1..366.\<close>

theorem preprocessing_calendar_columns:
  assumes "preprocessing ms = Inr X" "\<forall>m \<in> set ms. valid_date (s_date m)" "r \<in> set (rows X)"
  shows "\<exists>dw mo dy. r ! 2 = Some (of_nat dw) \<and> r ! 3 = Some (of_nat mo) \<and> r ! 4 = Some (of_nat dy) \<and>
           dw \<le> 6 \<and> 1 \<le> mo \<and> mo \<le> 12 \<and> 1 \<le> dy \<and> dy \<le> 366"
proof -
  obtain m where m: "m \<in> set ms" and r: "r = feature_row (fit_categories (map category ms)) m"
    using preprocessing_Inr [OF assms(1)] assms(3) by auto
  have v: "valid_date (s_date m)" using assms(2) m by blast
  have "dayofyear (s_date m) \<le> 366"
    using dayofyear_le_year_length [OF v] by (simp add: year_length_def split: if_splits)
  moreover have "1 \<le> dayofyear (s_date m)" using v by (simp add: dayofyear_def valid_date_def)
  moreover have "dayofweek (s_date m) \<le> 6" by (simp add: dayofweek_def)
  ultimately show ?thesis using v
    by (auto simp: r feature_row_split valid_date_def)
qed

subsection \<open>The scenario of the specification\<close>

lemma scenario_parse_sales: "parse_sales scenario_sales_csv = Inr scenario_sales"
  by (simp add: scenario_sales_csv_def scenario_sales_def) code_simp

lemma scenario_weather_distinct: "distinct (map w_date scenario_weather)"
  by (simp add: scenario_weather_def)

lemma scenario_left_merge:
  "left_merge scenario_sales scenario_weather =
     [merge_row (scenario_sales ! 0) (Some (205 / 10)), merge_row (scenario_sales ! 1) (Some 21),
      merge_row (scenario_sales ! 2) (Some (198 / 10))]"
  by (simp add: scenario_sales_def scenario_weather_def left_merge_def)

lemma scenario_preprocessing:
  "preprocessing (left_merge scenario_sales scenario_weather) = Inr scenario_features"
  unfolding scenario_left_merge
  by (simp add: scenario_sales_def scenario_features_def merge_row_def preprocessing_def
     fit_categories_def feature_row_split onehot_def base_columns_def feature_names_out_def
     dayofweek_def toordinal_def dayofyear_def days_before_year_def days_before_month_def
     days_in_month_def is_leap_def upt_rec)

theorem left_merge_lookup_join_witness:
  "distinct (map w_date scenario_weather) \<and>
   left_merge scenario_sales scenario_weather = lookup_join scenario_sales scenario_weather"
  using left_merge_lookup_join [OF scenario_weather_distinct] scenario_weather_distinct by simp

theorem left_merge_preserves_sales_witness:
  "distinct (map w_date scenario_weather) \<and> length (left_merge scenario_sales scenario_weather) = 3"
  using left_merge_preserves_sales [OF scenario_weather_distinct] scenario_weather_distinct
  by (simp add: scenario_sales_def)

theorem left_merge_duplicate_dates_witness:
  "w_date (hd scenario_weather) = s_date (hd scenario_sales) \<and>
   length (left_merge [hd scenario_sales] [hd scenario_weather, hd scenario_weather]) = 2"
proof -
  have e: "w_date (hd scenario_weather) = s_date (hd scenario_sales)"
    by (simp add: scenario_weather_def scenario_sales_def)
  show ?thesis using e left_merge_duplicate_dates [OF e] by simp
qed

theorem preprocessing_shape_witness:
  "preprocessing (left_merge scenario_sales scenario_weather) = Inr scenario_features \<and>
   columns scenario_features ! 1 = ''price'' \<and> rows scenario_features ! 2 ! 1 = Some 15"
proof -
  note c = preprocessing_shape [OF scenario_preprocessing]
  have l: "2 < length (left_merge scenario_sales scenario_weather)" by (simp add: scenario_left_merge)
  have "rows scenario_features ! 2 ! 1 = price (left_merge scenario_sales scenario_weather ! 2)"
    using c l by blast
  also have "\<dots> = Some 15" unfolding scenario_left_merge by (simp add: scenario_sales_def merge_row_def)
  finally have r: "rows scenario_features ! 2 ! 1 = Some 15" .
  have "columns scenario_features ! 1 = ''price''" using c by simp
  with r scenario_preprocessing show ?thesis by simp
qed

theorem preprocessing_onehot_witness:
  "preprocessing (left_merge scenario_sales scenario_weather) = Inr scenario_features \<and>
   rows scenario_features ! 1 ! (5 + list_index [''A'', ''B''] ''B'') = Some 1"
proof -
  have i: "1 < length (left_merge scenario_sales scenario_weather)"
    by (simp add: scenario_left_merge)
  have c: "category (left_merge scenario_sales scenario_weather ! 1) = ''B''"
    unfolding scenario_left_merge by (simp add: scenario_sales_def merge_row_def)
  have f: "fit_categories (map category (left_merge scenario_sales scenario_weather)) = [''A'', ''B'']"
    unfolding scenario_left_merge by (simp add: scenario_sales_def merge_row_def fit_categories_def)
  show ?thesis
    using preprocessing_onehot [OF scenario_preprocessing i] scenario_preprocessing
    unfolding c f by simp
qed

theorem preprocessing_calendar_columns_witness:
  "preprocessing (left_merge scenario_sales scenario_weather) = Inr scenario_features \<and>
   list_all (\<lambda>m. valid_date (s_date m)) (left_merge scenario_sales scenario_weather) \<and>
   hd (rows scenario_features) \<in> set (rows scenario_features) \<and>
   (\<exists>dw. hd (rows scenario_features) ! 2 = Some (of_nat dw) \<and> dw \<le> 6)"
proof -
  have v: "\<forall>m \<in> set (left_merge scenario_sales scenario_weather). valid_date (s_date m)"
    unfolding scenario_left_merge
    by (simp add: scenario_sales_def merge_row_def valid_date_def days_in_month_def)
  have r: "hd (rows scenario_features) \<in> set (rows scenario_features)"
    by (simp add: scenario_features_def)
  show ?thesis using preprocessing_calendar_columns [OF scenario_preprocessing v r]
      scenario_preprocessing v r unfolding list_all_iff by blast
qed

end
