(* ===== verification/Evaluator.thy ===== *)
theory Evaluator
  imports Features
begin

text \<open>
  The model evaluator of etl.py (lines 102--124): both pre-trained models predict on the
  feature matrix, each is scored by \<open>mean_absolute_error\<close> against the \<open>sales\<close>
  column, and the model with the strictly lower error predicts again to fill
  \<open>sales_prediction\<close>; on a tie the linear regression is used. A model is opaque: a
  \<open>predictor\<close> is any function from a feature matrix to a vector of predictions that
  may raise. A plain scikit-learn linear model is modelled too, as one such predictor,
  to show how \<open>predict\<close> reacts to a NaN temperature or to feature columns that differ
  from those seen when it was fitted.
\<close>

type_synonym predictor = "feature_matrix \<Rightarrow> rat list result"

datatype model_choice = XGBoost | Linear_Regression

subsection \<open>Mean absolute error\<close>

text \<open>The sum of the absolute errors, the numerator of the mean.\<close>

definition abs_error_sum :: "rat list \<Rightarrow> rat list \<Rightarrow> rat" where
  "abs_error_sum y p = sum_list (map (\<lambda>(a, b). \<bar>b - a\<bar>) (zip y p))"

text \<open>
  \<open>sklearn.metrics.mean_absolute_error(y_true, y_pred)\<close> on one output, with the target
  the \<open>sales\<close> column (a NaN where the file has an empty field):
  \<open>check_consistent_length\<close> raises \<open>ValueError\<close> on vectors of different lengths,
  then \<open>check_array(y_true)\<close> raises on a NaN (\<open>_assert_all_finite\<close>) and on an empty
  vector; otherwise the mean of the absolute errors.
\<close>

definition mean_absolute_error :: "cell list \<Rightarrow> rat list \<Rightarrow> rat result" where
  "mean_absolute_error y p =
     (if length y \<noteq> length p
      then Inl (ValueError ''Found input variables with inconsistent numbers of samples'')
      else if None \<in> set y then Inl (ValueError ''Input y_true contains NaN'')
      else if y = [] then Inl (ValueError ''Found array with 0 sample(s)'')
      else Inr (abs_error_sum (map the y) p / of_nat (length y)))"

subsection \<open>Evaluation and selection\<close>

record evaluation =
  mae_xgb :: rat
  mae_lr :: rat
  chosen :: model_choice
  sales_prediction :: "rat list"

text \<open>
  \<open>df_final["sales_prediction"] = values\<close> raises \<open>ValueError\<close> unless there is one
  value per row of \<open>df_final\<close> (\<open>n\<close> rows).
\<close>

definition assign_column :: "nat \<Rightarrow> rat list \<Rightarrow> rat list result" where
  "assign_column n vs =
     (if length vs = n then Inr vs
      else Inl (ValueError ''Length of values does not match length of index''))"

text \<open>
  Lines 111--124, in the order the statements run: \<open>xgb_model.predict(X)\<close> and its
  error, \<open>lr_model.predict(X)\<close> and its error, the comparison \<open>mae_xgb < mae_lr\<close>, and
  the second \<open>predict\<close> of the chosen model assigned to the column.
\<close>

definition evaluate_models ::
  "predictor \<Rightarrow> predictor \<Rightarrow> feature_matrix \<Rightarrow> cell list \<Rightarrow> evaluation result" where
  "evaluate_models xgb lr X y =
     py_bind (xgb X) (\<lambda>px. py_bind (mean_absolute_error y px) (\<lambda>mx.
     py_bind (lr X) (\<lambda>pl. py_bind (mean_absolute_error y pl) (\<lambda>ml.
       if mx < ml then
         py_bind (xgb X) (\<lambda>p. py_bind (assign_column (length y) p) (\<lambda>col.
           Inr \<lparr>mae_xgb = mx, mae_lr = ml, chosen = XGBoost, sales_prediction = col\<rparr>))
       else
         py_bind (lr X) (\<lambda>p. py_bind (assign_column (length y) p) (\<lambda>col.
           Inr \<lparr>mae_xgb = mx, mae_lr = ml, chosen = Linear_Regression,
                sales_prediction = col\<rparr>))))))"

subsection \<open>The selection policy as a specification\<close>

text \<open>
  What the selection promises, stated on the two prediction vectors alone: the vector
  with the strictly smaller mean absolute error, the linear regression's otherwise.
\<close>

definition select_spec :: "rat list \<Rightarrow> rat list \<Rightarrow> rat list \<Rightarrow> model_choice \<times> rat list" where
  "select_spec y px pl =
     (if sum_list (map (\<lambda>(a, b). \<bar>b - a\<bar>) (zip y px))
         < sum_list (map (\<lambda>(a, b). \<bar>b - a\<bar>) (zip y pl))
      then (XGBoost, px) else (Linear_Regression, pl))"

subsection \<open>A scikit-learn linear model as a predictor\<close>

record linear_model =
  feature_names_in :: "string list"
  coef :: "rat list"
  intercept :: rat

text \<open>
  \<open>LinearRegression.predict\<close>: the column names must be those seen by \<open>fit\<close>
  (\<open>ValueError\<close> otherwise), no value may be NaN (\<open>ValueError\<close>), and each
  prediction is the intercept plus the dot product of the row with the coefficients.
\<close>

definition linear_predict :: "linear_model \<Rightarrow> predictor" where
  "linear_predict lm X =
     (if columns X \<noteq> feature_names_in lm
      then Inl (ValueError ''The feature names should match those that were passed during fit'')
      else if list_ex (\<lambda>r. None \<in> set r) (rows X)
      then Inl (ValueError ''Input X contains NaN'')
      else Inr (map (\<lambda>r. intercept lm + sum_list (map (\<lambda>(c, v). c * the v) (zip (coef lm) r)))
                    (rows X)))"

text \<open>A predictor that returns a fixed vector, as in the scenario of the specification.\<close>

definition constant_predictor :: "rat list \<Rightarrow> predictor" where
  "constant_predictor p X = Inr p"

text \<open>The scenario of the specification: two fixed prediction vectors and the target.\<close>

definition scenario_target :: "cell list" where
  "scenario_target = [Some 13, Some 18, Some 15]"

definition scenario_linear_model :: linear_model where
  "scenario_linear_model =
     \<lparr>feature_names_in = base_columns @ [''category_A'', ''category_B''],
      coef = [1, 0, 0, 0, 0, 1, 2], intercept = 0\<rparr>"

subsection \<open>Mean absolute error and selection\<close>

lemma abs_error_sum_nonneg: "0 \<le> abs_error_sum y p"
  unfolding abs_error_sum_def by (induction y p rule: list_induct2') auto

lemma abs_error_sum_zero_iff:
  "length y = length p \<Longrightarrow> abs_error_sum y p = 0 \<longleftrightarrow> p = y"
proof (induction y p rule: list_induct2)
  case Nil
  then show ?case by (simp add: abs_error_sum_def)
next
  case (Cons a y b p)
  have "0 \<le> \<bar>b - a\<bar>" "0 \<le> abs_error_sum y p" by (simp_all add: abs_error_sum_nonneg)
  then have "\<bar>b - a\<bar> + abs_error_sum y p = 0 \<longleftrightarrow> b = a \<and> abs_error_sum y p = 0" by auto
  with Cons.IH show ?case by (simp add: abs_error_sum_def)
qed

lemma mean_absolute_error_Inr:
  "mean_absolute_error y p = Inr m \<longleftrightarrow>
     length p = length y \<and> None \<notin> set y \<and> y \<noteq> [] \<and>
     m = abs_error_sum (map the y) p / of_nat (length y)"
  by (auto simp: mean_absolute_error_def)

lemma abs_error_sum_shift: "abs_error_sum ys (map (\<lambda>a. a + d) ys) = of_nat (length ys) * \<bar>d\<bar>"
  by (induction ys) (simp_all add: abs_error_sum_def algebra_simps)

text \<open>C25: The mean absolute error is non-negative, zero exactly when the predictions equal the target, and equal to |d| when every prediction is off by the same d (it averages absolute, not squared, errors).\<close>

theorem mean_absolute_error_metric:
  assumes "mean_absolute_error y p = Inr m"
  shows "0 \<le> m \<and> (m = 0 \<longleftrightarrow> map Some p = y) \<and>
         mean_absolute_error y (map (\<lambda>a. a + d) (map the y)) = Inr \<bar>d\<bar>"
proof -
  from assms have y: "length p = length y" "None \<notin> set y" "y \<noteq> []"
    and m: "m = abs_error_sum (map the y) p / of_nat (length y)"
    by (simp_all add: mean_absolute_error_Inr)
  have "abs_error_sum (map the y) p = 0 \<longleftrightarrow> p = map the y"
    using y(1) by (simp add: abs_error_sum_zero_iff)
  moreover have "mean_absolute_error y (map (\<lambda>a. a + d) (map the y)) = Inr \<bar>d\<bar>"
    using y abs_error_sum_shift [of "map the y" d] by (simp add: mean_absolute_error_def del: map_map)
  ultimately show ?thesis
    using y m abs_error_sum_nonneg [of "map the y" p] by (simp add: map_Some_eq_iff)
qed

lemma mae_less_iff:
  assumes "mean_absolute_error y px = Inr mx" "mean_absolute_error y pl = Inr ml"
  shows "mx < ml \<longleftrightarrow> abs_error_sum (map the y) px < abs_error_sum (map the y) pl"
proof -
  from assms have "y \<noteq> []" by (simp add: mean_absolute_error_Inr)
  then have n: "0 < (of_nat (length y) :: rat)" by simp
  from assms show ?thesis by (simp add: mean_absolute_error_Inr divide_less_cancel n)
qed

lemma evaluate_models_Inr:
  "evaluate_models xgb lr X y = Inr e \<longleftrightarrow>
     (\<exists>px pl. xgb X = Inr px \<and> lr X = Inr pl \<and>
        mean_absolute_error y px = Inr (mae_xgb e) \<and> mean_absolute_error y pl = Inr (mae_lr e) \<and>
        chosen e = (if mae_xgb e < mae_lr e then XGBoost else Linear_Regression) \<and>
        sales_prediction e = (if mae_xgb e < mae_lr e then px else pl))"
  by (cases e)
     (auto simp: evaluate_models_def py_bind_eq_Inr assign_column_def mean_absolute_error_Inr
       split: if_splits)

text \<open>C26: A successful evaluation computed both predictions and both errors, chose XGBoost exactly when its error is strictly smaller, and wrote that model's predictions, one per target value.\<close>

theorem evaluate_models_selects:
  assumes "evaluate_models xgb lr X y = Inr e"
  shows "\<exists>px pl. xgb X = Inr px \<and> lr X = Inr pl \<and>
           mean_absolute_error y px = Inr (mae_xgb e) \<and> mean_absolute_error y pl = Inr (mae_lr e) \<and>
           (chosen e = XGBoost \<longleftrightarrow> mae_xgb e < mae_lr e) \<and>
           sales_prediction e = (if chosen e = XGBoost then px else pl) \<and>
           length (sales_prediction e) = length y"
  using assms unfolding evaluate_models_Inr
  by (auto simp: mean_absolute_error_Inr)

text \<open>C1: The evaluation and choice of etl.py (lines 109-124) implement the abstract selection: the chosen model and the predictions written are those of select_spec on the two prediction vectors.\<close>

theorem evaluate_models_refines_select_spec:
  assumes "evaluate_models xgb lr X (map Some y) = Inr e" "xgb X = Inr px" "lr X = Inr pl"
  shows "(chosen e, sales_prediction e) = select_spec y px pl"
proof -
  from assms obtain
    mx: "mean_absolute_error (map Some y) px = Inr (mae_xgb e)"
    and ml: "mean_absolute_error (map Some y) pl = Inr (mae_lr e)"
    and c: "chosen e = (if mae_xgb e < mae_lr e then XGBoost else Linear_Regression)"
    and s: "sales_prediction e = (if mae_xgb e < mae_lr e then px else pl)"
    unfolding evaluate_models_Inr by auto
  show ?thesis
    using c s mae_less_iff [OF mx ml] by (simp add: select_spec_def abs_error_sum_def comp_def)
qed

text \<open>C2: When the two mean absolute errors are equal the script keeps the linear regression (the test at etl.py line 119 is a strict <).\<close>

theorem evaluate_models_tie_linear:
  assumes "evaluate_models xgb lr X y = Inr e" "mae_xgb e = mae_lr e"
  shows "chosen e = Linear_Regression"
  using assms unfolding evaluate_models_Inr by auto

text \<open>C27: If both models predict and their predictions have the length of a non-empty target without NaN, the evaluation raises nothing.\<close>

theorem evaluate_models_succeeds:
  assumes "xgb X = Inr px" "lr X = Inr pl" "length px = length y" "length pl = length y" "y \<noteq> []"
    "None \<notin> set y"
  shows "\<exists>e. evaluate_models xgb lr X y = Inr e"
  using assms
  by (simp add: evaluate_models_def mean_absolute_error_def abs_error_sum_def assign_column_def)

lemma mean_absolute_error_nan: "None \<in> set y \<Longrightarrow> \<exists>err. mean_absolute_error y p = Inl err"
  by (simp add: mean_absolute_error_def)

lemma evaluate_models_nan_fails:
  assumes "None \<in> set y" shows "\<exists>err. evaluate_models xgb lr X y = Inl err"
proof (cases "xgb X")
  case (Inr px)
  obtain err where "mean_absolute_error y px = Inl err" using mean_absolute_error_nan [OF assms] by blast
  with Inr show ?thesis by (simp add: evaluate_models_def)
qed (simp add: evaluate_models_def)

text \<open>C28: An empty sales field (NaN in the target) makes mean_absolute_error raise ValueError as soon as XGBoost has predicted one value per row, before the linear regression is run.\<close>

theorem evaluate_models_nan_target:
  assumes "None \<in> set y" "xgb X = Inr px" "length px = length y"
  shows "evaluate_models xgb lr X y = Inl (ValueError ''Input y_true contains NaN'')"
  using assms by (simp add: evaluate_models_def mean_absolute_error_def)

text \<open>\<open>LinearRegression.predict\<close> rejects a matrix with a NaN cell.\<close>

lemma linear_predict_nan:
  assumes "columns X = feature_names_in lm" "r \<in> set (rows X)" "None \<in> set r"
  shows "linear_predict lm X = Inl (ValueError ''Input X contains NaN'')"
  using assms by (auto simp: linear_predict_def list_ex_iff)


subsection \<open>Scenarios\<close>

lemma feature_names_out_eq: "feature_names_out a = feature_names_out b \<longleftrightarrow> a = b"
  by (simp add: feature_names_out_def inj_map_eq_map inj_def)

lemma fit_categories_eq:
  "sorted cs0 \<Longrightarrow> distinct cs0 \<Longrightarrow> fit_categories cs = cs0 \<longleftrightarrow> set cs = set cs0"
  using fit_categories_sorted_distinct [of cs] sorted_distinct_set_unique [of "fit_categories cs" cs0]
  by auto

text \<open>C30: Because the encoder is refitted on each batch, the feature columns equal those a model was trained with exactly when the batch has exactly the trained categories; otherwise a linear model fitted on those columns rejects the matrix with ValueError.\<close>

theorem encoder_drift_rejected:
  assumes "preprocessing ms = Inr X" "sorted cats0" "distinct cats0"
  shows "(columns X = base_columns @ feature_names_out cats0 \<longleftrightarrow> set (map category ms) = set cats0) \<and>
         (feature_names_in lm = base_columns @ feature_names_out cats0 \<and>
          set (map category ms) \<noteq> set cats0 \<longrightarrow>
          linear_predict lm X =
            Inl (ValueError ''The feature names should match those that were passed during fit''))"
proof -
  have c: "columns X = base_columns @ feature_names_out (fit_categories (map category ms))"
    using preprocessing_Inr [OF assms(1)] by simp
  have "columns X = base_columns @ feature_names_out cats0 \<longleftrightarrow> set (map category ms) = set cats0"
    unfolding c by (simp add: feature_names_out_eq fit_categories_eq [OF assms(2,3)])
  then show ?thesis by (auto simp: linear_predict_def)
qed

lemma left_merge_unmatched:
  "s \<in> set ss \<Longrightarrow> \<forall>w \<in> set ws. w_date w \<noteq> s_date s \<Longrightarrow> merge_row s None \<in> set (left_merge ss ws)"
  by (induction ss) (auto simp: left_merge_Cons Let_def filter_empty_conv)

text \<open>C29: A sales row whose date has no weather row reaches the feature matrix with a NaN in the temperature column (left join of line 93, then preprocessing), so a linear model fitted on these columns raises ValueError in predict.\<close>

theorem missing_weather_nan_feature:
  assumes "s \<in> set ss" "\<forall>w \<in> set ws. w_date w \<noteq> s_date s"
    "preprocessing (left_merge ss ws) = Inr X"
  shows "(\<exists>r. r \<in> set (rows X) \<and> r ! 0 = None) \<and> columns X ! 0 = ''temperature'' \<and>
         (feature_names_in lm = columns X \<longrightarrow>
            linear_predict lm X = Inl (ValueError ''Input X contains NaN''))"
proof -
  let ?cats = "fit_categories (map category (left_merge ss ws))"
  note pre = preprocessing_Inr [OF assms(3)]
  have r: "feature_row ?cats (merge_row s None) \<in> set (rows X)"
    using pre left_merge_unmatched [OF assms(1,2)] by simp
  have n: "feature_row ?cats (merge_row s None) ! 0 = None"
    by (simp add: feature_row_split merge_row_def)
  have "None \<in> set (feature_row ?cats (merge_row s None))"
    by (simp add: feature_row_split merge_row_def)
  then have "feature_names_in lm = columns X \<longrightarrow>
      linear_predict lm X = Inl (ValueError ''Input X contains NaN'')"
    using linear_predict_nan [OF _ r] by simp
  moreover have "columns X ! 0 = ''temperature''" using pre by (simp add: base_columns_def)
  ultimately show ?thesis using r n by blast
qed

lemma scenario_mae: "mean_absolute_error scenario_target [12, 18, 14] = Inr (2 / 3)"
  by (simp add: mean_absolute_error_def abs_error_sum_def scenario_target_def)

lemma scenario_evaluate:
  "evaluate_models (constant_predictor [12, 18, 14]) (constant_predictor [5, 5, 5])
     scenario_features scenario_target =
   Inr \<lparr>mae_xgb = 2 / 3, mae_lr = 31 / 3, chosen = XGBoost, sales_prediction = [12, 18, 14]\<rparr>"
  by (simp add: evaluate_models_def mean_absolute_error_def abs_error_sum_def assign_column_def
      constant_predictor_def scenario_target_def)

theorem mean_absolute_error_metric_witness:
  "mean_absolute_error scenario_target [12, 18, 14] = Inr (2 / 3) \<and>
   mean_absolute_error scenario_target [14, 19, 16] = Inr 1"
proof -
  have "mean_absolute_error scenario_target (map (\<lambda>a. a + 1) (map the scenario_target)) = Inr \<bar>1\<bar>"
    using mean_absolute_error_metric [OF scenario_mae] by blast
  then show ?thesis using scenario_mae by (simp add: scenario_target_def)
qed

theorem evaluate_models_selects_witness:
  "evaluate_models (constant_predictor [12, 18, 14]) (constant_predictor [5, 5, 5])
     scenario_features scenario_target =
   Inr \<lparr>mae_xgb = 2 / 3, mae_lr = 31 / 3, chosen = XGBoost, sales_prediction = [12, 18, 14]\<rparr> \<and>
   length [12, 18, 14 :: rat] = length scenario_target"
  using evaluate_models_selects [OF scenario_evaluate] scenario_evaluate
  by (simp add: constant_predictor_def scenario_target_def)

theorem evaluate_models_refines_select_spec_witness:
  "select_spec [13, 18, 15] [12, 18, 14] [5, 5, 5] = (XGBoost, [12, 18, 14])"
proof -
  have x: "constant_predictor [12, 18, 14] scenario_features = Inr [12, 18, 14]"
    and l: "constant_predictor [5, 5, 5] scenario_features = Inr [5, 5, 5]"
    by (simp_all add: constant_predictor_def)
  have e: "evaluate_models (constant_predictor [12, 18, 14]) (constant_predictor [5, 5, 5])
     scenario_features (map Some [13, 18, 15]) =
   Inr \<lparr>mae_xgb = 2 / 3, mae_lr = 31 / 3, chosen = XGBoost, sales_prediction = [12, 18, 14]\<rparr>"
    using scenario_evaluate by (simp add: scenario_target_def)
  show ?thesis
    using evaluate_models_refines_select_spec [OF e x l] by simp
qed

theorem evaluate_models_tie_linear_witness:
  "evaluate_models (constant_predictor [12, 18, 14]) (constant_predictor [12, 18, 14])
     scenario_features scenario_target =
   Inr \<lparr>mae_xgb = 2 / 3, mae_lr = 2 / 3, chosen = Linear_Regression,
        sales_prediction = [12, 18, 14]\<rparr>"
proof -
  have e: "evaluate_models (constant_predictor [12, 18, 14]) (constant_predictor [12, 18, 14])
     scenario_features scenario_target =
     Inr \<lparr>mae_xgb = 2 / 3, mae_lr = 2 / 3, chosen = Linear_Regression,
          sales_prediction = [12, 18, 14]\<rparr>"
    by (simp add: evaluate_models_def mean_absolute_error_def abs_error_sum_def assign_column_def
        constant_predictor_def scenario_target_def)
  have t: "mae_xgb \<lparr>mae_xgb = 2 / 3, mae_lr = 2 / 3, chosen = Linear_Regression,
          sales_prediction = [12, 18, 14]\<rparr> =
        mae_lr \<lparr>mae_xgb = 2 / 3, mae_lr = 2 / 3, chosen = Linear_Regression,
          sales_prediction = [12, 18, 14]\<rparr>" by simp
  show ?thesis using evaluate_models_tie_linear [OF e t] e by simp
qed

theorem evaluate_models_succeeds_witness:
  "\<exists>e. evaluate_models (constant_predictor [12, 18, 14]) (constant_predictor [5, 5, 5])
         scenario_features scenario_target = Inr e"
proof -
  have x: "constant_predictor [12, 18, 14] scenario_features = Inr [12, 18, 14]"
    and l: "constant_predictor [5, 5, 5] scenario_features = Inr [5, 5, 5]"
    by (simp_all add: constant_predictor_def)
  have n: "length [12, 18, 14 :: rat] = length scenario_target"
    "length [5, 5, 5 :: rat] = length scenario_target" "scenario_target \<noteq> []"
    "None \<notin> set scenario_target"
    by (simp_all add: scenario_target_def)
  show ?thesis
    using evaluate_models_succeeds [where xgb = "constant_predictor [12, 18, 14]"
      and lr = "constant_predictor [5, 5, 5]" and X = scenario_features and y = scenario_target,
      OF x l n] .
qed

theorem evaluate_models_nan_target_witness:
  "evaluate_models (constant_predictor [12, 18, 14]) (constant_predictor [5, 5, 5])
     scenario_features [Some 13, None, Some 15] = Inl (ValueError ''Input y_true contains NaN'')"
proof -
  have n: "None \<in> set [Some 13, None, Some (15 :: rat)]" by simp
  have x: "constant_predictor [12, 18, 14] scenario_features = Inr [12, 18, 14]"
    by (simp add: constant_predictor_def)
  have l: "length [12, 18, 14 :: rat] = length [Some 13, None, Some (15 :: rat)]" by simp
  show ?thesis using evaluate_models_nan_target [where xgb = "constant_predictor [12, 18, 14]"
      and lr = "constant_predictor [5, 5, 5]" and X = scenario_features, OF n x l] .
qed


theorem encoder_drift_rejected_witness:
  "py_bind (preprocessing (left_merge [hd scenario_sales] scenario_weather))
     (linear_predict scenario_linear_model) =
   Inl (ValueError ''The feature names should match those that were passed during fit'')"
proof -
  have ne: "left_merge [hd scenario_sales] scenario_weather \<noteq> []"
    by (simp add: scenario_sales_def scenario_weather_def left_merge_def)
  obtain X where p: "preprocessing (left_merge [hd scenario_sales] scenario_weather) = Inr X"
    using ne by (simp add: preprocessing_def Let_def)
  have f: "feature_names_in scenario_linear_model = base_columns @ feature_names_out [''A'', ''B'']"
    by (simp add: scenario_linear_model_def feature_names_out_def)
  have c: "set (map category (left_merge [hd scenario_sales] scenario_weather)) \<noteq> set [''A'', ''B'']"
    by (simp add: scenario_sales_def scenario_weather_def left_merge_def merge_row_def)
  have "linear_predict scenario_linear_model X =
      Inl (ValueError ''The feature names should match those that were passed during fit'')"
    using encoder_drift_rejected [OF p, of "[''A'', ''B'']" scenario_linear_model] f c by simp
  then show ?thesis using p by simp
qed

theorem missing_weather_nan_feature_witness:
  "\<exists>X. preprocessing (left_merge scenario_sales (tl scenario_weather)) = Inr X \<and>
     linear_predict scenario_linear_model X = Inl (ValueError ''Input X contains NaN'')"
proof -
  have ne: "left_merge scenario_sales (tl scenario_weather) \<noteq> []"
    by (simp add: scenario_sales_def scenario_weather_def left_merge_def)
  obtain X where p: "preprocessing (left_merge scenario_sales (tl scenario_weather)) = Inr X"
    using ne by (simp add: preprocessing_def Let_def)
  have s: "hd scenario_sales \<in> set scenario_sales" by (simp add: scenario_sales_def)
  have w: "\<forall>w \<in> set (tl scenario_weather). w_date w \<noteq> s_date (hd scenario_sales)"
    by (simp add: scenario_weather_def scenario_sales_def)
  have c: "feature_names_in scenario_linear_model = columns X"
    using preprocessing_Inr [OF p]
    by (simp add: scenario_linear_model_def scenario_sales_def scenario_weather_def left_merge_def
        merge_row_def fit_categories_def feature_names_out_def)
  show ?thesis using missing_weather_nan_feature [OF s w p, of scenario_linear_model] c p by blast
qed

end
