(* ===== verification/Queries.thy ===== *)
theory Queries
  imports Prelude
begin

text \<open>
  Reading the SQL script (etl.py lines 127--133): the text of \<open>./utils/queries.sql\<close>
  is split at every \<open>;\<close>, each piece stripped of surrounding white space, the blank
  pieces dropped, and the first statement taken as the \<open>CREATE TABLE\<close> statement. The
  file's content is a string (\<open>None\<close>: the file does not exist).
\<close>

text \<open>\<open>[q.strip() for q in f.read().split(";") if q.strip()]\<close>.\<close>

definition read_queries :: "string \<Rightarrow> string list" where
  "read_queries content = filter (\<lambda>q. q \<noteq> []) (map py_strip (py_split CHR '';'' content))"

text \<open>
  Lines 128 and 133: \<open>open\<close> raises \<open>FileNotFoundError\<close>, which nothing catches, and
  \<open>queries[0]\<close> raises \<open>IndexError\<close> when the script holds no statement.
\<close>

definition load_create_table :: "string option \<Rightarrow> string result" where
  "load_create_table file =
     (case file of
        None \<Rightarrow> Inl (FileNotFoundError ''./utils/queries.sql'')
      | Some content \<Rightarrow>
          (case read_queries content of
             [] \<Rightarrow> Inl IndexError
           | q # _ \<Rightarrow> Inr q))"

text \<open>A statement as \<open>strip()\<close> leaves it: no white space at either end.\<close>

definition stripped :: "string \<Rightarrow> bool" where
  "stripped q \<longleftrightarrow> q = [] \<or> (\<not> py_isspace (hd q) \<and> \<not> py_isspace (last q))"

text \<open>A script of two statements, as the repository's \<open>queries.sql\<close> is described.\<close>

definition sample_script :: string where
  "sample_script = ''CREATE TABLE IF NOT EXISTS sales_predictions (d date);\<newline>SELECT 1;\<newline>''"

subsection \<open>Stripping and splitting\<close>

lemma set_dropWhile_subset: "set (dropWhile P xs) \<subseteq> set xs"
  by (induction xs) auto

lemma set_py_strip: "set (py_strip s) \<subseteq> set s"
  using set_dropWhile_subset [of py_isspace "rev (dropWhile py_isspace s)"]
    set_dropWhile_subset [of py_isspace s]
  by (auto simp: py_strip_def)

lemma py_strip_Nil_iff: "py_strip s = [] \<longleftrightarrow> (\<forall>c \<in> set s. py_isspace c)"
proof
  assume "py_strip s = []"
  then have all: "\<forall>x \<in> set (dropWhile py_isspace s). py_isspace x"
    by (simp add: py_strip_def dropWhile_eq_Nil_conv)
  have "dropWhile py_isspace s = []"
  proof (rule ccontr)
    assume ne: "dropWhile py_isspace s \<noteq> []"
    then have "\<not> py_isspace (hd (dropWhile py_isspace s))" by (rule hd_dropWhile)
    with ne all show False by simp
  qed
  then show "\<forall>c \<in> set s. py_isspace c" by (simp add: dropWhile_eq_Nil_conv)
next
  assume "\<forall>c \<in> set s. py_isspace c"
  then have "dropWhile py_isspace s = []" by (rule dropWhile_eq_Nil_conv [THEN iffD2])
  then show "py_strip s = []" by (simp add: py_strip_def del: dropWhile_eq_Nil_conv)
qed

lemma dropWhile_id: "xs = [] \<or> \<not> P (hd xs) \<Longrightarrow> dropWhile P xs = xs"
  by (cases xs) auto

lemma stripped_py_strip: "stripped (py_strip s)"
proof -
  let ?t = "dropWhile py_isspace s"
  let ?u = "dropWhile py_isspace (rev ?t)"
  have u: "?u \<noteq> [] \<Longrightarrow> \<not> py_isspace (hd ?u)" by (rule hd_dropWhile)
  have "?u \<noteq> [] \<Longrightarrow> \<not> py_isspace (last (rev ?u))"
  proof -
    assume ne: "?u \<noteq> []"
    have "last (rev ?u) = hd ?u" using ne by (simp add: last_rev)
    with u ne show ?thesis by simp
  qed
  moreover have "?u \<noteq> [] \<Longrightarrow> \<not> py_isspace (hd (rev ?u))"
  proof -
    assume ne: "?u \<noteq> []"
    have "?t \<noteq> []" using ne by (metis Nil_is_rev_conv dropWhile.simps(1))
    then have h: "\<not> py_isspace (hd ?t)" by (rule hd_dropWhile)
    obtain v where v: "rev ?t = v @ ?u" and "\<forall>x \<in> set v. py_isspace x"
      by (metis takeWhile_dropWhile_id set_takeWhileD)
    then have "?t = rev ?u @ rev v" by (metis rev_append rev_rev_ident)
    then have "hd ?t = hd (rev ?u @ rev v)" by (rule arg_cong)
    also have "\<dots> = hd (rev ?u)" using ne by (simp add: hd_append2)
    finally show ?thesis using h by simp
  qed
  ultimately show ?thesis by (auto simp: stripped_def py_strip_def)
qed

lemma py_strip_pad:
  assumes a: "\<forall>c \<in> set a. py_isspace c" and b: "\<forall>c \<in> set b. py_isspace c" and s: "stripped q"
  shows "py_strip (a @ q @ b) = q"
proof (cases "q = []")
  case True
  then show ?thesis using a b
    by (auto simp: py_strip_def dropWhile_append2 dropWhile_eq_Nil_conv dest: set_dropWhileD)
next
  case False
  with s have h: "\<not> py_isspace (hd q)" and l: "\<not> py_isspace (hd (rev q))"
    by (auto simp: stripped_def hd_rev)
  have "dropWhile py_isspace (a @ q @ b) = q @ b"
    using a h False by (cases q) (simp_all add: dropWhile_append2)
  moreover have "dropWhile py_isspace (rev b @ rev q) = dropWhile py_isspace (rev q)"
    by (rule dropWhile_append2) (use b in simp)
  moreover have "dropWhile py_isspace (rev q) = rev q"
    using l False by (cases "rev q") simp_all
  ultimately show ?thesis by (simp add: py_strip_def)
qed

lemma py_strip_stripped: "stripped q \<Longrightarrow> py_strip q = q"
  using py_strip_pad [of "[]" "[]" q] by simp

text \<open>Every statement read from the SQL script is non-empty, stripped and contains no semicolon.\<close>

theorem read_queries_wellformed:
  assumes "q \<in> set (read_queries content)"
  shows "q \<noteq> [] \<and> CHR '';'' \<notin> set q \<and> stripped q \<and> py_strip q = q"
proof -
  from assms obtain p where p: "p \<in> set (py_split CHR '';'' content)" and q: "q = py_strip p"
    and ne: "q \<noteq> []" by (auto simp: read_queries_def)
  have "CHR '';'' \<notin> set p" using p by (rule py_split_pieces)
  then have "CHR '';'' \<notin> set q" using set_py_strip [of p] q by auto
  moreover have "stripped q" using q stripped_py_strip by simp
  ultimately show ?thesis using ne py_strip_stripped by simp
qed

lemma py_split_join:
  "qs \<noteq> [] \<Longrightarrow> (\<forall>q \<in> set qs. c \<notin> set q) \<Longrightarrow> py_split c (py_join c qs) = qs"
proof (induction c qs rule: py_join.induct)
  case (1 c)
  then show ?case by simp
next
  case (2 c p)
  then show ?case by (simp add: py_split_no_sep)
next
  case (3 c p q ps)
  then show ?case by (simp add: py_split_append_sep)
qed

text \<open>C34: Reading a script whose statements (non-empty, stripped, without ";") are each padded with whitespace, separated by ";" and followed by a whitespace-only tail gives back exactly the statements: strip removes the padding and the blank tail is dropped.\<close>

theorem read_queries_join:
  assumes "\<forall>q \<in> set qs. q \<noteq> [] \<and> stripped q \<and> CHR '';'' \<notin> set q"
    and "\<forall>c \<in> set (a @ b @ z). py_isspace c"
  shows "read_queries (py_join CHR '';'' (map (\<lambda>q. a @ q @ b) qs @ [z])) = qs"
proof -
  have sp: "\<not> py_isspace CHR '';''" by (simp add: py_isspace_def)
  have nosep: "\<forall>p \<in> set (map (\<lambda>q. a @ q @ b) qs @ [z]). CHR '';'' \<notin> set p"
    using assms sp by auto
  have split: "py_split CHR '';'' (py_join CHR '';'' (map (\<lambda>q. a @ q @ b) qs @ [z])) =
      map (\<lambda>q. a @ q @ b) qs @ [z]"
    using nosep by (simp add: py_split_join)
  have "map py_strip (map (\<lambda>q. a @ q @ b) qs) = qs"
    using assms(1) assms(2) by (simp add: py_strip_pad map_idI)
  moreover have "py_strip z = []" using assms(2) by (simp add: py_strip_Nil_iff)
  ultimately show ?thesis using assms(1)
    by (simp add: read_queries_def split filter_id_conv)
qed

lemma py_split_all_chars:
  "(\<forall>p \<in> set (py_split c s). \<forall>x \<in> set p. P x) \<longleftrightarrow> (\<forall>x \<in> set s. x \<noteq> c \<longrightarrow> P x)"
proof (induction s)
  case Nil
  then show ?case by simp
next
  case (Cons x xs)
  obtain p ps where sp: "py_split c xs = p # ps" by (cases "py_split c xs") auto
  show ?case using Cons.IH sp by auto
qed

lemma read_queries_Nil_iff:
  "read_queries s = [] \<longleftrightarrow> (\<forall>x \<in> set s. x = CHR '';'' \<or> py_isspace x)"
proof -
  have "read_queries s = [] \<longleftrightarrow> (\<forall>p \<in> set (py_split CHR '';'' s). \<forall>x \<in> set p. py_isspace x)"
    by (auto simp: read_queries_def filter_empty_conv py_strip_Nil_iff)
  also have "\<dots> \<longleftrightarrow> (\<forall>x \<in> set s. x \<noteq> CHR '';'' \<longrightarrow> py_isspace x)"
    by (rule py_split_all_chars)
  finally show ?thesis by blast
qed

text \<open>C35: Loading the CREATE TABLE statement raises FileNotFoundError without the file, IndexError when it holds only semicolons and whitespace, and otherwise returns the first statement.\<close>

theorem load_create_table_result:
  "load_create_table file =
     (case file of
        None \<Rightarrow> Inl (FileNotFoundError ''./utils/queries.sql'')
      | Some s \<Rightarrow>
          (if \<forall>x \<in> set s. x = CHR '';'' \<or> py_isspace x then Inl IndexError
           else Inr (hd (read_queries s))))"
  by (auto simp: load_create_table_def read_queries_Nil_iff [symmetric] split: option.split list.split)

text \<open>The statement run is the stripped text before the first semicolon.\<close>

theorem load_create_table_first_statement:
  assumes "CHR '';'' \<notin> set q" "\<not> (\<forall>x \<in> set q. py_isspace x)"
  shows "load_create_table (Some (q @ CHR '';'' # rest)) = Inr (py_strip q)"
proof -
  have "py_strip q \<noteq> []" using assms(2) py_strip_Nil_iff by blast
  then show ?thesis
    using assms(1) by (simp add: load_create_table_def read_queries_def py_split_append_sep)
qed

subsection \<open>Witnesses\<close>

lemma sample_script_queries:
  "read_queries sample_script = [''CREATE TABLE IF NOT EXISTS sales_predictions (d date)'', ''SELECT 1'']"
  by (simp add: sample_script_def read_queries_def py_strip_def py_isspace_def)

theorem read_queries_join_witness:
  "read_queries (py_join CHR '';'' (map (\<lambda>q. ''\<newline>'' @ q @ '' '')
      [''CREATE TABLE IF NOT EXISTS sales_predictions (d date)'', ''SELECT 1''] @ [''\<newline>''])) =
     [''CREATE TABLE IF NOT EXISTS sales_predictions (d date)'', ''SELECT 1'']"
proof -
  have h: "\<forall>q \<in> set [''CREATE TABLE IF NOT EXISTS sales_predictions (d date)'', ''SELECT 1'']. q \<noteq> [] \<and> stripped q \<and> CHR '';'' \<notin> set q"
    by (simp add: stripped_def py_isspace_def)
  have w: "\<forall>c \<in> set (''\<newline>'' @ '' '' @ ''\<newline>''). py_isspace c"
    by (simp add: py_isspace_def)
  show ?thesis using read_queries_join [OF h w] .
qed

theorem load_create_table_result_witness:
  "load_create_table (Some sample_script) = Inr ''CREATE TABLE IF NOT EXISTS sales_predictions (d date)'' \<and>
   load_create_table (Some '' ; ;'') = Inl IndexError"
proof -
  have a: "\<not> (\<forall>x \<in> set sample_script. x = CHR '';'' \<or> py_isspace x)"
    by (simp add: sample_script_def py_isspace_def)
  have b: "\<forall>x \<in> set '' ; ;''. x = CHR '';'' \<or> py_isspace x"
    by (simp add: py_isspace_def)
  show ?thesis
    using load_create_table_result [of "Some sample_script"] load_create_table_result [of "Some '' ; ;''"]
      a b by (simp add: sample_script_queries)
qed

end
