(* ===== verification/Sinks.thy ===== *)
theory Sinks
  imports Prelude "HOL-Library.Sublist"
begin

text \<open>
  The persistence sinks of etl.py (lines 135--169): the local PostgreSQL database and the
  Supabase one. A sink is the state of the table \<open>sales_predictions\<close> in one database
  (absent, or its rows in insertion order) and whether the database accepts connections.
  The operations are those the pipeline issues: the statement \<open>create_table_query\<close>
  inside \<open>engine.begin()\<close>, \<open>DataFrame.to_sql(..., if_exists="append")\<close>
  (which creates the table when it is absent and inserts all rows in one transaction),
  and \<open>SELECT COUNT(*)\<close>. The rows are of any type \<open>'r\<close>: the sink does not look at
  them. The SQL script is not under src/: its first statement is read as PostgreSQL would
  read it as far as the table goes (\<open>CREATE TABLE IF NOT EXISTS\<close>, plain
  \<open>CREATE TABLE\<close>, which fails when the table exists, or another statement, taken to
  leave the table alone).
\<close>

record 'r sink =
  reachable :: bool
  table :: "'r list option"

definition connection_error :: py_error where
  "connection_error = OperationalError ''could not connect to server''"

text \<open>
  The statement \<open>create_table_query\<close> as PostgreSQL reads it, as far as the table
  \<open>sales_predictions\<close> is concerned: its words (keywords and unquoted names are
  case-insensitive), and whether it creates that table only when it is absent, creates it
  unconditionally, or is some other statement, which leaves the table as it is.
\<close>

datatype ddl_kind = Create_if_absent | Create_strict | Other_statement

definition sql_upper :: "string \<Rightarrow> string" where
  "sql_upper w =
     map (\<lambda>c. case map_of (zip ''abcdefghijklmnopqrstuvwxyz'' ''ABCDEFGHIJKLMNOPQRSTUVWXYZ'') c of
                 Some u \<Rightarrow> u | None \<Rightarrow> c) w"

definition sql_table_name :: "string \<Rightarrow> string" where
  "sql_table_name w = takeWhile (\<lambda>c. c \<noteq> CHR ''('') w"

definition ddl_kind :: "string \<Rightarrow> ddl_kind" where
  "ddl_kind q =
     (let ws = map sql_upper (py_split_ws q) in
      if take 5 ws = [''CREATE'', ''TABLE'', ''IF'', ''NOT'', ''EXISTS''] \<and> 5 < length ws then
        (if sql_table_name (ws ! 5) = ''SALES_PREDICTIONS'' then Create_if_absent else Other_statement)
      else if take 2 ws = [''CREATE'', ''TABLE''] \<and> 2 < length ws then
        (if sql_table_name (ws ! 2) = ''SALES_PREDICTIONS'' then Create_strict else Other_statement)
      else Other_statement)"

text \<open>etl.py lines 139--140 (and 146--147): \<open>conn.execute(text(create_table_query))\<close> in
  a transaction.\<close>

definition exec_ddl :: "string \<Rightarrow> 'r sink \<Rightarrow> 'r sink result" where
  "exec_ddl q s =
     (if \<not> reachable s then Inl connection_error
      else case ddl_kind q of
        Create_if_absent \<Rightarrow>
          Inr (s\<lparr>table := Some (case table s of None \<Rightarrow> [] | Some rs \<Rightarrow> rs)\<rparr>)
      | Create_strict \<Rightarrow>
          (case table s of
             None \<Rightarrow> Inr (s\<lparr>table := Some []\<rparr>)
           | Some rs \<Rightarrow> Inl (ProgrammingError ''relation \"sales_predictions\" already exists''))
      | Other_statement \<Rightarrow> Inr s)"

text \<open>etl.py lines 155 and 158: \<open>to_sql\<close> with \<open>if_exists="append"\<close>.\<close>

definition to_sql_append :: "'r list \<Rightarrow> 'r sink \<Rightarrow> 'r sink result" where
  "to_sql_append rows s =
     (if \<not> reachable s then Inl connection_error
      else Inr (s\<lparr>table := Some ((case table s of None \<Rightarrow> [] | Some rs \<Rightarrow> rs) @ rows)\<rparr>))"

text \<open>etl.py lines 163--169: \<open>SELECT COUNT(*) FROM sales_predictions\<close>.\<close>

definition count_rows :: "'r sink \<Rightarrow> nat result" where
  "count_rows s =
     (if \<not> reachable s then Inl connection_error
      else case table s of
             None \<Rightarrow> Inl (OperationalError ''relation \"sales_predictions\" does not exist'')
           | Some rs \<Rightarrow> Inr (length rs))"

text \<open>The rows a sink holds, none when the table does not exist.\<close>

definition stored_rows :: "'r sink \<Rightarrow> 'r list" where
  "stored_rows s = (case table s of None \<Rightarrow> [] | Some rs \<Rightarrow> rs)"

subsection \<open>The sink as a state machine\<close>

text \<open>
  The operations a client can issue, and one step of a sink: the state after an
  operation that succeeded. A failed operation leaves the sink as it was (each runs in
  its own transaction). Outside the pipeline the database may also go down or come back.
\<close>

datatype 'r sink_op = Exec_ddl string | Append "'r list" | Count

definition sink_apply :: "'r sink_op \<Rightarrow> 'r sink \<Rightarrow> 'r sink result" where
  "sink_apply op s =
     (case op of
        Exec_ddl q \<Rightarrow> exec_ddl q s
      | Append rows \<Rightarrow> to_sql_append rows s
      | Count \<Rightarrow> py_bind (count_rows s) (\<lambda>_. Inr s))"

inductive sink_step :: "'r sink \<Rightarrow> 'r sink \<Rightarrow> bool" where
  op_ok: "sink_apply op s = Inr s' \<Longrightarrow> sink_step s s'"
| op_failed: "sink_apply op s = Inl e \<Longrightarrow> sink_step s s"
| outage: "sink_step s (s\<lparr>reachable := b\<rparr>)"

inductive sink_reach :: "'r sink \<Rightarrow> 'r sink \<Rightarrow> bool" where
  refl: "sink_reach s s"
| step: "sink_reach s t \<Longrightarrow> sink_step t u \<Longrightarrow> sink_reach s u"

inductive_cases sink_step_cases: "sink_step s s'"

text \<open>A database that is up and has no table yet.\<close>

definition fresh_sink :: "'r sink" where
  "fresh_sink = \<lparr>reachable = True, table = None\<rparr>"

subsection \<open>Properties of the sinks\<close>

lemma stored_rows_None [simp]: "table s = None \<Longrightarrow> stored_rows s = []"
  by (simp add: stored_rows_def)

lemma stored_rows_exec_ddl:
  "exec_ddl q s = Inr s' \<Longrightarrow> stored_rows s' = stored_rows s \<and> reachable s' = reachable s"
  by (auto simp: exec_ddl_def stored_rows_def split: option.splits if_splits ddl_kind.splits)

lemma exec_ddl_creates:
  "exec_ddl q s = Inr s' \<Longrightarrow> ddl_kind q \<noteq> Other_statement \<Longrightarrow> table s' \<noteq> None"
  by (auto simp: exec_ddl_def split: option.splits if_splits ddl_kind.splits)

lemma stored_rows_to_sql: "to_sql_append rows s = Inr s' \<Longrightarrow> stored_rows s' = stored_rows s @ rows \<and> table s' \<noteq> None"
  by (auto simp: to_sql_append_def stored_rows_def split: if_splits)

lemma sink_step_prefix: "sink_step s s' \<Longrightarrow> prefix (stored_rows s) (stored_rows s')"
proof (induction rule: sink_step.induct)
  case (op_ok op s s')
  then show ?case
    by (cases op)
       (auto simp: sink_apply_def py_bind_eq_Inr dest: stored_rows_exec_ddl stored_rows_to_sql)
next
  case (op_failed op s e)
  then show ?case by simp
next
  case (outage s b)
  then show ?case by (simp add: stored_rows_def)
qed

text \<open>C20: Along any sequence of DDL, append and count operations, failures and outages, the rows of a database table only grow by appending.\<close>

theorem sink_append_only:
  assumes "sink_reach s t"
  shows "prefix (stored_rows s) (stored_rows t)"
  using assms
proof (induction rule: sink_reach.induct)
  case (refl s)
  then show ?case by simp
next
  case (step s t u)
  then show ?case using sink_step_prefix prefix_order.trans by blast
qed

text \<open>Executing the script's first statement a second time keeps the rows, and succeeds with no change unless the statement is a plain CREATE TABLE sales_predictions, which then raises ProgrammingError.\<close>

theorem exec_ddl_rerun:
  assumes "exec_ddl q s = Inr s'"
  shows "exec_ddl q s' =
           (if ddl_kind q = Create_strict
            then Inl (ProgrammingError ''relation \"sales_predictions\" already exists'') else Inr s') \<and>
         stored_rows s' = stored_rows s"
  using assms by (auto simp: exec_ddl_def stored_rows_def split: if_splits option.splits ddl_kind.splits)

text \<open>After a successful to_sql append, SELECT COUNT(*) returns the previous number of rows plus the number appended.\<close>

theorem append_then_count:
  assumes "to_sql_append rows s = Inr s'"
  shows "count_rows s' = Inr (length (stored_rows s) + length rows) \<and>
         length rows \<le> length (stored_rows s) + length rows"
  using assms by (auto simp: to_sql_append_def count_rows_def stored_rows_def split: if_splits)

subsection \<open>Witnesses\<close>

theorem sink_append_only_witness:
  "sink_reach (fresh_sink :: nat sink) \<lparr>reachable = True, table = Some [1, 2]\<rparr> \<and>
   prefix (stored_rows (fresh_sink :: nat sink)) [1, 2]"
proof -
  have a: "sink_apply (Append [1, 2]) (fresh_sink :: nat sink) = Inr \<lparr>reachable = True, table = Some [1, 2]\<rparr>"
    by (simp add: sink_apply_def to_sql_append_def fresh_sink_def)
  have r: "sink_reach (fresh_sink :: nat sink) \<lparr>reachable = True, table = Some [1, 2]\<rparr>"
    by (rule sink_reach.step [OF sink_reach.refl sink_step.op_ok [OF a]])
  show ?thesis using r sink_append_only [OF r] by (simp add: stored_rows_def)
qed

end
