(* ===== verification/Pipeline.thy ===== *)
theory Pipeline
  imports Evaluator Queries Sinks
begin

text \<open>
  The batch run of etl.py (the \<open>if __name__ == "__main__"\<close> block, lines 12--171),
  statement by statement: creating the two engines, loading the sales file and the
  weather, building the features, loading the models, evaluating and selecting, reading
  the SQL script, creating the table in both databases, appending the scored rows to
  both, and counting them. The run threads a state (the log and the two databases) and
  stops at the first exception that nothing catches, keeping the state reached: an
  \<open>'a run\<close> is a state-and-exception computation. The log messages are the code's,
  with the accents of the Spanish ones dropped (the theory is ASCII).
\<close>

subsection \<open>Scored rows, inputs and state\<close>

record scored_row = merged_row +
  prediction :: rat

text \<open>Lines 121 and 124: \<open>df_final["sales_prediction"] = predictions\<close>, row by row.\<close>

definition score_rows :: "merged_row list \<Rightarrow> rat list \<Rightarrow> scored_row list" where
  "score_rows ms ps =
     map (\<lambda>(m, p). \<lparr>s_date = s_date m, category = category m, price = price m, sales = sales m,
                    m_temperature = m_temperature m, prediction = p\<rparr>) (zip ms ps)"

datatype log_entry = Info string | Error_log string | Metric string rat

text \<open>
  What the run finds in its environment: whether \<open>create_engine\<close> accepts the local
  and the Supabase URL built from the environment variables, the sales file (its header
  and rows; \<open>None\<close> when it does not exist), what the weather request produced, the two
  model files (\<open>None\<close> when one is missing) and the SQL script.
\<close>

record etl_input =
  local_engine_ok :: bool
  supa_engine_ok :: bool
  sales_file :: "(string list \<times> string sales_row list) option"
  weather_response :: http_outcome
  model_files :: "(predictor \<times> predictor) option"
  queries_file :: "string option"

text \<open>\<open>engine_supa\<close>: whether the name \<open>engine_supabase\<close> is bound.\<close>

record etl_state =
  log :: "log_entry list"
  local_db :: "scored_row sink"
  supa_db :: "scored_row sink"
  engine_supa :: bool

subsection \<open>State and exceptions\<close>

type_synonym 'a run = "etl_state \<Rightarrow> (py_error \<times> etl_state) + ('a \<times> etl_state)"

definition run_bind :: "'a run \<Rightarrow> ('a \<Rightarrow> 'b run) \<Rightarrow> 'b run" where
  "run_bind m f = (\<lambda>s. case m s of Inl (e, s') \<Rightarrow> Inl (e, s') | Inr (a, s') \<Rightarrow> f a s')"

definition return :: "'a \<Rightarrow> 'a run" where
  "return a = (\<lambda>s. Inr (a, s))"

definition raise :: "py_error \<Rightarrow> 'a run" where
  "raise e = (\<lambda>s. Inl (e, s))"

definition lift :: "'a result \<Rightarrow> 'a run" where
  "lift r = (\<lambda>s. case r of Inl e \<Rightarrow> Inl (e, s) | Inr a \<Rightarrow> Inr (a, s))"

definition emit :: "log_entry \<Rightarrow> unit run" where
  "emit l = (\<lambda>s. Inr ((), s\<lparr>log := log s @ [l]\<rparr>))"

text \<open>The state a computation ends in, whether it returned or raised.\<close>

definition final_state :: "(py_error \<times> etl_state) + ('a \<times> etl_state) \<Rightarrow> etl_state" where
  "final_state r = (case r of Inl (e, s) \<Rightarrow> s | Inr (a, s) \<Rightarrow> s)"

subsection \<open>The pure steps\<close>

text \<open>Lines 69--79: \<open>toolbox.get_data()\<close> and the weather frame.\<close>

definition load_weather :: "http_outcome \<Rightarrow> weather_row list result" where
  "load_weather r = py_bind (get_data r) weather_frame"

text \<open>
  Lines 84--97, with the columns the file lacks: \<open>df_sales["date"]\<close> (line 85), the
  parse of the dates, the normalisation of the weather dates (lines 86--90), the join
  (line 93), \<open>df[["category"]]\<close> in \<open>preprocessing\<close> (toolbox.py line 43), the encoder,
  \<open>df[feature_cols]\<close> (line 49: \<open>price\<close> must be there, and \<open>temperature\<close> too, which
  the join renames \<open>temperature_x\<close>/\<open>temperature_y\<close> when the file has such a column),
  and \<open>df_final["sales"]\<close> (line 97).
\<close>

definition build_frame ::
  "string list \<Rightarrow> string sales_row list \<Rightarrow> weather_row list \<Rightarrow>
   (merged_row list \<times> feature_matrix \<times> cell list) result" where
  "build_frame cols rs ws =
     (if ''date'' \<notin> set cols then Inl (KeyError ''date'') else
      py_bind (parse_sales rs) (\<lambda>ss.
      py_bind (normalize_weather ws) (\<lambda>ws'.
        let df_final = left_merge ss ws' in
        if ''category'' \<notin> set cols then Inl (KeyError ''category'') else
        py_bind (preprocessing df_final) (\<lambda>X.
          if ''price'' \<notin> set cols \<or> ''temperature'' \<in> set cols
          then Inl (KeyError ''feature_cols not in index'')
          else if ''sales'' \<notin> set cols then Inl (KeyError ''sales'')
          else Inr (df_final, X, map sales df_final)))))"

subsection \<open>The stages of the run\<close>

text \<open>Lines 38--56: \<open>create_engine\<close>; a failure is fatal for the local database only.\<close>

definition stage_connect :: "etl_input \<Rightarrow> unit run" where
  "stage_connect inp =
     run_bind (emit (Info ''[INFO] Conectando a la base de datos Local y Supabase...'')) (\<lambda>_.
     if \<not> local_engine_ok inp then
       run_bind (emit (Error_log ''[ERROR] No se pudo conectar a la base de datos local'')) (\<lambda>_.
         raise (ArgumentError ''could not parse the database URL''))
     else
       run_bind (emit (Info ''[OK] Conectado a la base de datos Local de forma exitosam.'')) (\<lambda>_.
       if supa_engine_ok inp then
         run_bind (\<lambda>s. Inr ((), s\<lparr>engine_supa := True\<rparr>)) (\<lambda>_.
           emit (Info ''[OK] Conectado a la base de datos SupaBase de forma exitosa.''))
       else emit (Error_log ''[ERROR] No se pudo conectar a la base de datos SupaBase'')))"

text \<open>Lines 59--79: the sales file (a missing one is fatal) and the weather.\<close>

definition stage_load ::
  "etl_input \<Rightarrow> ((string list \<times> string sales_row list) \<times> weather_row list) run" where
  "stage_load inp =
     run_bind (emit (Info ''[INFO] Cargando datos de entrada...'')) (\<lambda>_.
     case sales_file inp of
       None \<Rightarrow>
         run_bind (emit (Error_log ''[ERROR] No se encontro el archivo sales.csv.'')) (\<lambda>_.
           raise (FileNotFoundError ''./data/sales.csv''))
     | Some f \<Rightarrow> run_bind (lift (load_weather (weather_response inp))) (\<lambda>ws. return (f, ws)))"

text \<open>Lines 82--97.\<close>

definition stage_process ::
  "(string list \<times> string sales_row list) \<Rightarrow> weather_row list \<Rightarrow>
   (merged_row list \<times> feature_matrix \<times> cell list) run" where
  "stage_process f ws =
     run_bind (emit (Info ''[INFO] Procesando datos de entrada...'')) (\<lambda>_.
       lift (build_frame (fst f) (snd f) ws))"

text \<open>Lines 99--107: both models are loaded; a missing file is fatal.\<close>

definition stage_models :: "etl_input \<Rightarrow> (predictor \<times> predictor) run" where
  "stage_models inp =
     run_bind (emit (Info ''[INFO] Cargando modelos...'')) (\<lambda>_.
     case model_files inp of
       None \<Rightarrow>
         run_bind (emit (Error_log ''[ERROR] No se encontro el archivo del modelo'')) (\<lambda>_.
           raise (FileNotFoundError ''./models/xgb_model.joblib''))
     | Some ms \<Rightarrow> return ms)"

text \<open>Lines 109--124: evaluation, the two logged errors, the choice and the scored rows.\<close>

definition stage_evaluate ::
  "predictor \<times> predictor \<Rightarrow> merged_row list \<Rightarrow> feature_matrix \<Rightarrow> cell list \<Rightarrow>
   scored_row list run" where
  "stage_evaluate ms df X y =
     run_bind (emit (Info ''[INFO] Evaluando modelos...'')) (\<lambda>_.
     run_bind (lift (evaluate_models (fst ms) (snd ms) X y)) (\<lambda>ev.
     run_bind (emit (Metric ''MAE XGBoost'' (mae_xgb ev))) (\<lambda>_.
     run_bind (emit (Metric ''MAE Linear Regression'' (mae_lr ev))) (\<lambda>_.
     run_bind (emit (Info ''[INFO] Seleccionando mejor modelo...'')) (\<lambda>_.
     run_bind (emit (Info (if chosen ev = XGBoost
                           then ''[OK] Usando XGBoost para predicciones finales.''
                           else ''[OK] Usando Regresion Lineal para predicciones finales.''))) (\<lambda>_.
       return (score_rows df (sales_prediction ev))))))))"

text \<open>Lines 126--133.\<close>

definition stage_queries :: "etl_input \<Rightarrow> string run" where
  "stage_queries inp =
     run_bind (emit (Info ''[INFO] Leyendo queries.sql...'')) (\<lambda>_.
       lift (load_create_table (queries_file inp)))"

text \<open>
  Lines 135--150: the first statement \<open>q\<close> of the SQL script run in each database, each
  attempt in its own \<open>try\<close>: a failure (an unreachable database, a \<open>CREATE TABLE\<close> of an
  existing table, or the \<open>NameError\<close> of an unbound \<open>engine_supabase\<close>) is logged and the
  run goes on.
\<close>

definition stage_create_tables :: "string \<Rightarrow> unit run" where
  "stage_create_tables q =
     run_bind (emit (Info ''[INFO] Creando tabla si no existe...'')) (\<lambda>_.
     run_bind (\<lambda>s. case exec_ddl q (local_db s) of
         Inl e \<Rightarrow> emit (Error_log ''[ERROR] No se pudo crear la tabla en PostgreSQL local'') s
       | Inr db \<Rightarrow> emit (Info ''[OK] tabla creada en PostgreSQL local exitosamente.'')
                    (s\<lparr>local_db := db\<rparr>)) (\<lambda>_.
     (\<lambda>s. case (if engine_supa s then exec_ddl q (supa_db s) else Inl (NameError ''engine_supabase'')) of
         Inl e \<Rightarrow> emit (Error_log ''[ERROR] No se pudo crear la tabla en PostgreSQL SuPabase'') s
       | Inr db \<Rightarrow> emit (Info ''[OK] tabla creada en PostgreSQL SupaBase exitosamente.'')
                    (s\<lparr>supa_db := db\<rparr>))))"

text \<open>Lines 153--159: the appends, outside any \<open>try\<close>: a failure ends the run.\<close>

definition stage_upload :: "scored_row list \<Rightarrow> unit run" where
  "stage_upload out =
     run_bind (emit (Info ''[INFO] Subiendo predicciones a la base de datos...'')) (\<lambda>_.
     run_bind (\<lambda>s. case to_sql_append out (local_db s) of
         Inl e \<Rightarrow> Inl (e, s)
       | Inr db \<Rightarrow> emit (Info ''[OK] Predicciones subidas a PostgreSQL local.'') (s\<lparr>local_db := db\<rparr>))
       (\<lambda>_.
     (\<lambda>s. case (if engine_supa s then to_sql_append out (supa_db s)
                else Inl (NameError ''engine_supabase'')) of
         Inl e \<Rightarrow> Inl (e, s)
       | Inr db \<Rightarrow> emit (Info ''[OK] Predicciones subidas a PostgreSQL SupaBase.'') (s\<lparr>supa_db := db\<rparr>))))"

text \<open>Lines 161--171: the two counts, outside any \<open>try\<close>, and the final message.\<close>

definition stage_verify :: "unit run" where
  "stage_verify =
     run_bind (emit (Info ''[INFO] Verificando registros en la tabla...'')) (\<lambda>_.
     run_bind (\<lambda>s. lift (count_rows (local_db s)) s) (\<lambda>n.
     run_bind (emit (Metric ''[OK] Registros en tabla local'' (of_nat n))) (\<lambda>_.
     run_bind (\<lambda>s. lift (if engine_supa s then count_rows (supa_db s)
                         else Inl (NameError ''engine_supabase'')) s) (\<lambda>m.
     run_bind (emit (Metric ''[OK] Registros en tabla respaldo'' (of_nat m))) (\<lambda>_.
       emit (Info ''[OK] Proceso finalizado.''))))))"

subsection \<open>The whole run\<close>

definition etl_main :: "etl_input \<Rightarrow> unit run" where
  "etl_main inp =
     run_bind (stage_connect inp) (\<lambda>_.
     run_bind (stage_load inp) (\<lambda>(f, ws).
     run_bind (stage_process f ws) (\<lambda>(df, X, y).
     run_bind (stage_models inp) (\<lambda>ms.
     run_bind (stage_evaluate ms df X y) (\<lambda>out.
     run_bind (stage_queries inp) (\<lambda>q.
     run_bind (stage_create_tables q) (\<lambda>_.
     run_bind (stage_upload out) (\<lambda>_.
       stage_verify))))))))"

text \<open>A run from the two databases as they are, with an empty log.\<close>

definition etl_run ::
  "etl_input \<Rightarrow> scored_row sink \<Rightarrow> scored_row sink \<Rightarrow> (py_error \<times> etl_state) + (unit \<times> etl_state)" where
  "etl_run inp l s = etl_main inp \<lparr>log = [], local_db = l, supa_db = s, engine_supa = False\<rparr>"

subsection \<open>The scenario of the specification\<close>

text \<open>
  The run of the scenario: both databases up, the three sales rows of the sales file (with
  the columns \<open>date\<close>, \<open>category\<close>, \<open>price\<close>, \<open>sales\<close>), the three days of weather,
  two models that predict the fixed vectors of the specification, and a SQL script whose
  first statement creates a table.
\<close>

definition scenario_input :: etl_input where
  "scenario_input =
     \<lparr>local_engine_ok = True, supa_engine_ok = True,
      sales_file = Some ([''date'', ''category'', ''price'', ''sales''], scenario_sales_csv),
      weather_response = Json_body (Some scenario_daily),
      model_files = Some (constant_predictor [12, 18, 14], constant_predictor [5, 5, 5]),
      queries_file = Some sample_script\<rparr>"

end
