(* ===== verification/Runs.thy ===== *)
theory Runs
  imports Pipeline
begin

text \<open>
  Reasoning about runs of the batch script modelled in Pipeline: the equations of the
  state-and-exception monad, relations between the state before and after a computation
  that every step keeps (\<open>preserves\<close>, with composition rules in \<open>preserves_intros\<close>),
  failures that leave both databases as they were (\<open>fails_keeping\<close>), and, stage by
  stage, what a run that returns went through and what one that raises left behind.
\<close>

named_theorems preserves_intros "composition rules of preserves"

subsection \<open>Relations between states\<close>

text \<open>A relation between the state before and after that every step of a computation keeps,
  and the relations that only the log may change for.\<close>

definition preserves :: "(etl_state \<Rightarrow> etl_state \<Rightarrow> bool) \<Rightarrow> 'a run \<Rightarrow> bool" where
  "preserves R m \<longleftrightarrow> (\<forall>s. R s (final_state (m s)))"

definition log_stable :: "(etl_state \<Rightarrow> etl_state \<Rightarrow> bool) \<Rightarrow> bool" where
  "log_stable R \<longleftrightarrow> (\<forall>s l. R s (s\<lparr>log := log s @ [l]\<rparr>)) \<and> (\<forall>s. R s s) \<and> transp R"

text \<open>The databases are left alone; the environment (databases and bound engine) is left
  alone; the log only grows; the Supabase database is left alone.\<close>

definition same_dbs :: "etl_state \<Rightarrow> etl_state \<Rightarrow> bool" where
  "same_dbs s s' \<longleftrightarrow> local_db s' = local_db s \<and> supa_db s' = supa_db s"

definition same_env :: "etl_state \<Rightarrow> etl_state \<Rightarrow> bool" where
  "same_env s s' \<longleftrightarrow> same_dbs s s' \<and> engine_supa s' = engine_supa s"

definition log_grows :: "etl_state \<Rightarrow> etl_state \<Rightarrow> bool" where
  "log_grows s s' \<longleftrightarrow> prefix (log s) (log s')"

definition supa_untouched :: "etl_state \<Rightarrow> etl_state \<Rightarrow> bool" where
  "supa_untouched s s' \<longleftrightarrow> (\<not> engine_supa s \<longrightarrow> \<not> engine_supa s' \<and> supa_db s' = supa_db s)"

text \<open>Once the local database is down, it stays down and neither database gains rows.\<close>

definition local_down :: "etl_state \<Rightarrow> etl_state \<Rightarrow> bool" where
  "local_down s s' \<longleftrightarrow>
     (\<not> reachable (local_db s) \<longrightarrow> \<not> reachable (local_db s') \<and>
        stored_rows (local_db s') = stored_rows (local_db s) \<and>
        stored_rows (supa_db s') = stored_rows (supa_db s))"

text \<open>A computation that raises, from every state, an error satisfying \<open>P\<close> without
  touching the databases.\<close>

definition fails_keeping :: "(py_error \<Rightarrow> bool) \<Rightarrow> 'a run \<Rightarrow> bool" where
  "fails_keeping P m \<longleftrightarrow> (\<forall>s. \<exists>e s'. m s = Inl (e, s') \<and> P e \<and> same_dbs s s')"

text \<open>The state \<open>etl_run\<close> starts from.\<close>

definition init_state :: "scored_row sink \<Rightarrow> scored_row sink \<Rightarrow> etl_state" where
  "init_state l s = \<lparr>log = [], local_db = l, supa_db = s, engine_supa = False\<rparr>"

text \<open>The state after the table creation, which always returns, and the messages it logs:
  named, so that a run can be computed without splitting on the kind of the statement.\<close>

definition ddl_step :: "string \<Rightarrow> etl_state \<Rightarrow> etl_state" where
  "ddl_step q s = final_state (stage_create_tables q s)"

definition ddl_msgs :: "string \<Rightarrow> etl_state \<Rightarrow> log_entry list" where
  "ddl_msgs q s = drop (length (log s)) (log (ddl_step q s))"

subsection \<open>The monad\<close>

text \<open>The stages of a run.\<close>

lemmas etl_stage_defs = stage_connect_def stage_load_def stage_process_def stage_models_def
  stage_evaluate_def stage_queries_def stage_create_tables_def stage_upload_def stage_verify_def


subsection \<open>Reasoning about runs\<close>

lemma run_bind_Inr:
  "run_bind m f s = Inr (b, s'') \<longleftrightarrow> (\<exists>a s'. m s = Inr (a, s') \<and> f a s' = Inr (b, s''))"
  by (auto simp: run_bind_def split: sum.splits prod.splits)

lemma run_bind_Inl:
  "run_bind m f s = Inl (e, s'') \<longleftrightarrow>
     m s = Inl (e, s'') \<or> (\<exists>a s'. m s = Inr (a, s') \<and> f a s' = Inl (e, s''))"
  by (auto simp: run_bind_def split: sum.splits prod.splits)

lemma run_simps [simp]:
  "return a s = Inr (a, s)" "raise e s = Inl (e, s)" "emit l s = Inr ((), s\<lparr>log := log s @ [l]\<rparr>)"
  "lift (Inl e) s = Inl (e, s)" "lift (Inr a) s = Inr (a, s)"
  by (simp_all add: return_def raise_def emit_def lift_def)

lemma preserves_return [preserves_intros]: "log_stable R \<Longrightarrow> preserves R (return a)"
  by (simp add: preserves_def final_state_def log_stable_def)

lemma preserves_raise [preserves_intros]: "log_stable R \<Longrightarrow> preserves R (raise e)"
  by (simp add: preserves_def final_state_def log_stable_def)

lemma preserves_lift [preserves_intros]: "log_stable R \<Longrightarrow> preserves R (lift r)"
  by (cases r) (simp_all add: preserves_def final_state_def log_stable_def)

lemma preserves_emit [preserves_intros]: "log_stable R \<Longrightarrow> preserves R (emit l)"
  by (simp add: preserves_def final_state_def log_stable_def)

lemma preserves_bind [preserves_intros]:
  assumes "log_stable R" "preserves R m" "\<And>a. preserves R (f a)"
  shows "preserves R (run_bind m f)"
  unfolding preserves_def
proof
  fix s
  show "R s (final_state (run_bind m f s))"
  proof (cases "m s")
    case (Inl r)
    then show ?thesis using assms(2) unfolding preserves_def
      by (cases r) (auto simp: run_bind_def final_state_def dest: spec [of _ s])
  next
    case (Inr r)
    then obtain a s' where r: "m s = Inr (a, s')" by (cases r) auto
    have "R s s'" using assms(2) r unfolding preserves_def by (auto simp: final_state_def dest: spec [of _ s])
    moreover have "R s' (final_state (f a s'))" using assms(3) unfolding preserves_def by blast
    ultimately show ?thesis using assms(1) r unfolding log_stable_def
      by (auto simp: run_bind_def dest: transpD)
  qed
qed

lemma preserves_if [preserves_intros]:
  "preserves R m1 \<Longrightarrow> preserves R m2 \<Longrightarrow> preserves R (if b then m1 else m2)"
  by simp

lemma preserves_case_option [preserves_intros]:
  "preserves R m1 \<Longrightarrow> (\<And>a. preserves R (m2 a)) \<Longrightarrow> preserves R (case x of None \<Rightarrow> m1 | Some a \<Rightarrow> m2 a)"
  by (cases x) simp_all

lemma preserves_case_prod [preserves_intros]:
  "(\<And>a b. preserves R (f a b)) \<Longrightarrow> preserves R (case p of (a, b) \<Rightarrow> f a b)"
  by (cases p) simp

lemma log_stable_same_dbs: "log_stable same_dbs"
  by (auto simp: log_stable_def same_dbs_def transp_def)

lemma same_dbs_engine [simp]: "same_dbs s (s\<lparr>engine_supa := b\<rparr>)"
  by (simp add: same_dbs_def)

lemma log_stable_same_env: "log_stable same_env"
  by (auto simp: log_stable_def same_env_def same_dbs_def transp_def)

lemma log_stable_log_grows: "log_stable log_grows"
  by (auto simp: log_stable_def log_grows_def transp_def intro: prefix_order.trans)

lemma log_stable_supa_untouched: "log_stable supa_untouched"
  by (auto simp: log_stable_def supa_untouched_def transp_def)

lemma same_env_supa_untouched: "preserves same_env m \<Longrightarrow> preserves supa_untouched m"
  by (auto simp: preserves_def same_env_def same_dbs_def supa_untouched_def)

lemma preserves_Inr: "preserves R m \<Longrightarrow> m s = Inr (a, s') \<Longrightarrow> R s s'"
  by (auto simp: preserves_def final_state_def dest: spec [of _ s])

lemma preserves_Inl: "preserves R m \<Longrightarrow> m s = Inl (e, s') \<Longrightarrow> R s s'"
  by (auto simp: preserves_def final_state_def dest: spec [of _ s])

lemma preserves_set_engine: "preserves same_dbs (\<lambda>s. Inr ((), s\<lparr>engine_supa := True\<rparr>))"
  by (simp add: preserves_def final_state_def)

lemma stage_connect_same_dbs: "preserves same_dbs (stage_connect inp)"
  unfolding stage_connect_def
  by (intro preserves_intros log_stable_same_dbs preserves_set_engine)+

lemma stages_same_env:
  "preserves same_env (stage_load inp)" "preserves same_env (stage_process f ws)"
  "preserves same_env (stage_models inp)" "preserves same_env (stage_evaluate ms df X y)"
  "preserves same_env (stage_queries inp)"
  unfolding stage_load_def stage_process_def stage_models_def stage_evaluate_def stage_queries_def
  by (intro preserves_intros log_stable_same_env)+

lemma stage_connect_supa_untouched:
  assumes "\<not> supa_engine_ok inp" shows "preserves supa_untouched (stage_connect inp)"
  unfolding stage_connect_def if_not_P [OF assms]
  by (intro preserves_intros log_stable_supa_untouched)

lemma stage_create_tables_supa_untouched: "preserves supa_untouched (stage_create_tables q)"
  by (auto simp: preserves_def final_state_def supa_untouched_def stage_create_tables_def
      run_bind_def emit_def split: sum.splits)

lemma stage_upload_supa_untouched: "preserves supa_untouched (stage_upload out)"
  by (auto simp: preserves_def final_state_def supa_untouched_def stage_upload_def
      run_bind_def emit_def split: sum.splits)

lemma stage_verify_supa_untouched: "preserves supa_untouched stage_verify"
  unfolding stage_verify_def
  by (intro preserves_intros log_stable_supa_untouched)
     (auto simp: preserves_def final_state_def supa_untouched_def lift_def split: sum.splits)

lemma stage_log_grows:
  "preserves log_grows (stage_connect inp)" "preserves log_grows (stage_load inp)"
  "preserves log_grows (stage_process f ws)" "preserves log_grows (stage_models inp)"
  "preserves log_grows (stage_evaluate ms df X y)" "preserves log_grows (stage_queries inp)"
  "preserves log_grows (stage_create_tables q)" "preserves log_grows (stage_upload out)"
  "preserves log_grows stage_verify"
  unfolding etl_stage_defs
  by (intro preserves_intros log_stable_log_grows;
      auto simp: preserves_def final_state_def log_grows_def lift_def split: sum.splits)+

subsection \<open>Failures before the databases are touched\<close>

lemma fails_keeping_raise: "P e \<Longrightarrow> fails_keeping P (raise e)"
  by (simp add: fails_keeping_def same_dbs_def)

lemma fails_keeping_lift: "P e \<Longrightarrow> fails_keeping P (lift (Inl e))"
  by (simp add: fails_keeping_def same_dbs_def lift_def)

lemma fails_keeping_first:
  assumes "fails_keeping P m" shows "fails_keeping P (run_bind m f)"
  unfolding fails_keeping_def
proof
  fix s
  obtain e s' where "m s = Inl (e, s')" "P e" "same_dbs s s'"
    using assms unfolding fails_keeping_def by blast
  then show "\<exists>e s'. run_bind m f s = Inl (e, s') \<and> P e \<and> same_dbs s s'"
    by (simp add: run_bind_def)
qed

lemma fails_keeping_bind:
  assumes "preserves same_dbs m" "\<And>s e s'. m s = Inl (e, s') \<Longrightarrow> P e"
    and "\<And>s a s'. m s = Inr (a, s') \<Longrightarrow> fails_keeping P (f a)"
  shows "fails_keeping P (run_bind m f)"
  unfolding fails_keeping_def
proof
  fix s
  show "\<exists>e s'. run_bind m f s = Inl (e, s') \<and> P e \<and> same_dbs s s'"
  proof (cases "m s")
    case (Inl r)
    then obtain e s' where r: "m s = Inl (e, s')" by (cases r) auto
    then show ?thesis using assms(2) preserves_Inl [OF assms(1) r] by (simp add: run_bind_def)
  next
    case (Inr r)
    then obtain a s' where r: "m s = Inr (a, s')" by (cases r) auto
    obtain e s'' where "f a s' = Inl (e, s'')" "P e" "same_dbs s' s''"
      using assms(3) [OF r] unfolding fails_keeping_def by blast
    with r preserves_Inr [OF assms(1) r] show ?thesis
      by (auto simp: run_bind_def same_dbs_def)
  qed
qed

lemma fails_keeping_then:
  assumes "preserves same_dbs m" "\<And>a. fails_keeping P (f a)"
    and "\<And>s e s'. m s = Inl (e, s') \<Longrightarrow> P e"
  shows "fails_keeping P (run_bind m f)"
  by (rule fails_keeping_bind [OF assms(1)]) (simp_all add: assms(2,3))

lemma fails_keeping_case_prod:
  "(\<And>a b. fails_keeping P (f a b)) \<Longrightarrow> fails_keeping P (case p of (a, b) \<Rightarrow> f a b)"
  by (cases p) simp

lemma preserves_same_env_dbs: "preserves same_env m \<Longrightarrow> preserves same_dbs m"
  by (auto simp: preserves_def same_env_def)

lemma stage_connect_Inl: "stage_connect inp s = Inl (e, s') \<Longrightarrow> \<not> local_engine_ok inp"
  by (auto simp: stage_connect_def run_bind_def split: if_splits)

lemma stage_connect_ok: "local_engine_ok inp \<Longrightarrow> stage_connect inp s = Inl (e, s') \<Longrightarrow> False"
  using stage_connect_Inl by blast

subsection \<open>What a successful run went through\<close>

lemma stage_connect_Inr:
  "stage_connect inp s = Inr (u, s') \<Longrightarrow>
     local_engine_ok inp \<and> engine_supa s' = (engine_supa s \<or> supa_engine_ok inp)"
  by (auto simp: stage_connect_def run_bind_def split: if_splits)

lemma stage_load_Inr:
  "stage_load inp s = Inr ((f, ws), s') \<Longrightarrow>
     sales_file inp = Some f \<and> load_weather (weather_response inp) = Inr ws"
  by (auto simp: stage_load_def run_bind_def lift_def split: option.splits sum.splits)

lemma stage_process_Inr:
  "stage_process f ws s = Inr (r, s') \<Longrightarrow> build_frame (fst f) (snd f) ws = Inr r"
  by (auto simp: stage_process_def run_bind_def lift_def split: sum.splits)

lemma stage_models_Inr: "stage_models inp s = Inr (ms, s') \<Longrightarrow> model_files inp = Some ms"
  by (auto simp: stage_models_def run_bind_def split: option.splits)

lemma stage_evaluate_Inr:
  "stage_evaluate ms df X y s = Inr (out, s') \<Longrightarrow>
     \<exists>ev. evaluate_models (fst ms) (snd ms) X y = Inr ev \<and> out = score_rows df (sales_prediction ev) \<and>
          Metric ''MAE XGBoost'' (mae_xgb ev) \<in> set (log s') \<and>
          Metric ''MAE Linear Regression'' (mae_lr ev) \<in> set (log s')"
  by (auto simp: stage_evaluate_def run_bind_def lift_def split: sum.splits)

lemma stage_create_tables_Inr:
  "stage_create_tables q s = Inr (u, s') \<Longrightarrow>
     stored_rows (local_db s') = stored_rows (local_db s) \<and>
     stored_rows (supa_db s') = stored_rows (supa_db s) \<and> engine_supa s' = engine_supa s \<and>
     reachable (local_db s') = reachable (local_db s) \<and> reachable (supa_db s') = reachable (supa_db s)"
  by (auto simp: stage_create_tables_def run_bind_def split: sum.splits if_splits
      dest!: stored_rows_exec_ddl)

lemma stage_create_tables_returns: "\<exists>s'. stage_create_tables q s = Inr ((), s')"
  by (auto simp: stage_create_tables_def run_bind_def split: sum.splits)

lemma stage_create_tables_step: "stage_create_tables q s = Inr ((), ddl_step q s)"
  using stage_create_tables_returns [of q s] by (auto simp: ddl_step_def final_state_def)

lemma ddl_step_facts [simp]:
  "stored_rows (local_db (ddl_step q s)) = stored_rows (local_db s)"
  "stored_rows (supa_db (ddl_step q s)) = stored_rows (supa_db s)"
  "engine_supa (ddl_step q s) = engine_supa s"
  "reachable (local_db (ddl_step q s)) = reachable (local_db s)"
  "reachable (supa_db (ddl_step q s)) = reachable (supa_db s)"
  using stage_create_tables_Inr [OF stage_create_tables_step [of q s]] by simp_all

lemma ddl_step_supa_unbound [simp]: "\<not> engine_supa s \<Longrightarrow> supa_db (ddl_step q s) = supa_db s"
  using preserves_Inr [OF stage_create_tables_supa_untouched stage_create_tables_step [of q s]]
  by (simp add: supa_untouched_def)

lemma log_ddl_step: "log (ddl_step q s) = log s @ ddl_msgs q s"
proof -
  have "prefix (log s) (log (ddl_step q s))"
    using preserves_Inr [OF stage_log_grows(7) stage_create_tables_step] by (simp add: log_grows_def)
  then show ?thesis by (auto simp: ddl_msgs_def prefix_def)
qed

lemma to_sql_append_stored:
  "to_sql_append out s =
     (if \<not> reachable s then Inl connection_error
      else Inr (s\<lparr>table := Some (stored_rows s @ out)\<rparr>))"
  by (simp add: to_sql_append_def stored_rows_def)

lemma stored_rows_update [simp]: "stored_rows (s\<lparr>table := Some rs\<rparr>) = rs"
  by (simp add: stored_rows_def)

text \<open>The unfolding of a whole run into its stages and the database operations, the table
  creation taken as a whole.\<close>

lemmas etl_unfold = etl_run_def etl_main_def run_bind_def stage_connect_def stage_load_def
  stage_process_def stage_models_def stage_evaluate_def stage_queries_def stage_create_tables_step
  stage_upload_def stage_verify_def to_sql_append_stored count_rows_def log_ddl_step

lemma stage_upload_Inr:
  "stage_upload out s = Inr (u, s') \<Longrightarrow>
     stored_rows (local_db s') = stored_rows (local_db s) @ out \<and>
     stored_rows (supa_db s') = stored_rows (supa_db s) @ out \<and> engine_supa s"
  by (auto simp: stage_upload_def run_bind_def split: sum.splits if_splits
      dest!: stored_rows_to_sql)

lemma stage_verify_same_dbs: "preserves same_dbs stage_verify"
  unfolding stage_verify_def
  by (intro preserves_intros log_stable_same_dbs;
      auto simp: preserves_def final_state_def same_dbs_def lift_def split: sum.splits)

lemma stage_verify_Inr: "stage_verify s = Inr (u, s') \<Longrightarrow> same_dbs s s'"
  using preserves_Inr [OF stage_verify_same_dbs] by blast

lemma etl_run_init: "etl_run inp l s = etl_main inp (init_state l s)"
  by (simp add: etl_run_def init_state_def)

lemma etl_main_Inr_stages:
  assumes "etl_main inp s0 = Inr (u, st)"
  obtains s1 f ws s2 df X y s3 ms s4 out s5 q s6 s7 s8 u1 u7 u8 where
    "stage_connect inp s0 = Inr (u1, s1)" "stage_load inp s1 = Inr ((f, ws), s2)"
    "stage_process f ws s2 = Inr ((df, X, y), s3)" "stage_models inp s3 = Inr (ms, s4)"
    "stage_evaluate ms df X y s4 = Inr (out, s5)" "stage_queries inp s5 = Inr (q, s6)"
    "stage_create_tables q s6 = Inr (u7, s7)" "stage_upload out s7 = Inr (u8, s8)"
    "stage_verify s8 = Inr (u, st)"
  using assms by (auto simp: etl_main_def run_bind_Inr split: prod.splits)

lemma etl_main_Inr_engine:
  assumes "etl_main inp s0 = Inr (u, st)"
  shows "supa_engine_ok inp \<or> engine_supa s0"
proof -
  obtain s1 f ws s2 df X y s3 ms s4 out s5 q s6 s7 s8 u1 u7 u8 where
    c: "stage_connect inp s0 = Inr (u1, s1)" and ld: "stage_load inp s1 = Inr ((f, ws), s2)"
    and pr: "stage_process f ws s2 = Inr ((df, X, y), s3)" and md: "stage_models inp s3 = Inr (ms, s4)"
    and ev: "stage_evaluate ms df X y s4 = Inr (out, s5)" and qs: "stage_queries inp s5 = Inr (q, s6)"
    and ct: "stage_create_tables q s6 = Inr (u7, s7)" and up: "stage_upload out s7 = Inr (u8, s8)"
    and vf: "stage_verify s8 = Inr (u, st)"
    using assms by (rule etl_main_Inr_stages)
  have "engine_supa s6 = engine_supa s1"
    using preserves_Inr [OF stages_same_env(1) ld] preserves_Inr [OF stages_same_env(2) pr]
      preserves_Inr [OF stages_same_env(3) md] preserves_Inr [OF stages_same_env(4) ev]
      preserves_Inr [OF stages_same_env(5) qs] by (simp add: same_env_def)
  moreover have "engine_supa s7 = engine_supa s6" using stage_create_tables_Inr [OF ct] by simp
  moreover have "engine_supa s7" using stage_upload_Inr [OF up] by simp
  ultimately show ?thesis using stage_connect_Inr [OF c] by blast
qed

lemma stages_tail_Inr:
  assumes ct: "stage_create_tables q s6 = Inr (u7, s7)" and up: "stage_upload out s7 = Inr (u8, s8)"
    and vf: "stage_verify s8 = Inr (u, st)"
  shows "stored_rows (local_db st) = stored_rows (local_db s6) @ out \<and>
    stored_rows (supa_db st) = stored_rows (supa_db s6) @ out \<and> prefix (log s6) (log st) \<and>
    engine_supa s6"
proof -
  have "prefix (log s6) (log s7)" "prefix (log s7) (log s8)" "prefix (log s8) (log st)"
    using preserves_Inr [OF stage_log_grows(7) ct] preserves_Inr [OF stage_log_grows(8) up]
      preserves_Inr [OF stage_log_grows(9) vf] by (simp_all add: log_grows_def)
  then have "prefix (log s6) (log st)" by (metis prefix_order.trans)
  with stage_create_tables_Inr [OF ct] stage_upload_Inr [OF up] stage_verify_Inr [OF vf]
  show ?thesis by (simp add: same_dbs_def)
qed

lemma etl_main_success:
  assumes "etl_main inp s0 = Inr (u, st)"
  shows "\<exists>f ws df X y xgb lr ev.
           local_engine_ok inp \<and> (supa_engine_ok inp \<or> engine_supa s0) \<and>
           sales_file inp = Some f \<and> load_weather (weather_response inp) = Inr ws \<and>
           build_frame (fst f) (snd f) ws = Inr (df, X, y) \<and> model_files inp = Some (xgb, lr) \<and>
           evaluate_models xgb lr X y = Inr ev \<and>
           stored_rows (local_db st) = stored_rows (local_db s0) @ score_rows df (sales_prediction ev) \<and>
           stored_rows (supa_db st) = stored_rows (supa_db s0) @ score_rows df (sales_prediction ev) \<and>
           Metric ''MAE XGBoost'' (mae_xgb ev) \<in> set (log st) \<and>
           Metric ''MAE Linear Regression'' (mae_lr ev) \<in> set (log st)"
proof -
  obtain s1 f ws s2 df X y s3 ms s4 out s5 q s6 s7 s8 u1 u7 u8 where
    c: "stage_connect inp s0 = Inr (u1, s1)" and ld: "stage_load inp s1 = Inr ((f, ws), s2)"
    and pr: "stage_process f ws s2 = Inr ((df, X, y), s3)" and md: "stage_models inp s3 = Inr (ms, s4)"
    and ev: "stage_evaluate ms df X y s4 = Inr (out, s5)" and qs: "stage_queries inp s5 = Inr (q, s6)"
    and ct: "stage_create_tables q s6 = Inr (u7, s7)" and up: "stage_upload out s7 = Inr (u8, s8)"
    and vf: "stage_verify s8 = Inr (u, st)"
    using assms by (rule etl_main_Inr_stages)
  have e1: "same_dbs s0 s1" by (rule preserves_Inr [OF stage_connect_same_dbs c])
  have e2: "same_env s1 s2" "same_env s2 s3" "same_env s3 s4" "same_env s4 s5" "same_env s5 s6"
    using preserves_Inr [OF stages_same_env(1) ld] preserves_Inr [OF stages_same_env(2) pr]
      preserves_Inr [OF stages_same_env(3) md] preserves_Inr [OF stages_same_env(4) ev]
      preserves_Inr [OF stages_same_env(5) qs] by simp_all
  have conn: "local_engine_ok inp \<and> engine_supa s1 = (engine_supa s0 \<or> supa_engine_ok inp)"
    by (rule stage_connect_Inr [OF c])
  obtain xgb lr where ms: "ms = (xgb, lr)" and mf: "model_files inp = Some (xgb, lr)"
    using stage_models_Inr [OF md] by (cases ms) auto
  obtain evl where evl: "evaluate_models xgb lr X y = Inr evl"
    and out: "out = score_rows df (sales_prediction evl)"
    and m1: "Metric ''MAE XGBoost'' (mae_xgb evl) \<in> set (log s5)"
    and m2: "Metric ''MAE Linear Regression'' (mae_lr evl) \<in> set (log s5)"
    using stage_evaluate_Inr [OF ev] ms by auto
  have tail: "stored_rows (local_db st) = stored_rows (local_db s6) @ out \<and>
      stored_rows (supa_db st) = stored_rows (supa_db s6) @ out \<and> prefix (log s6) (log st) \<and>
      engine_supa s6"
    by (rule stages_tail_Inr [OF ct up vf])
  have "prefix (log s5) (log s6)"
    using preserves_Inr [OF stage_log_grows(6) qs] by (simp add: log_grows_def)
  with tail have "set (log s5) \<subseteq> set (log st)"
    by (metis prefix_order.trans set_mono_prefix)
  moreover have "sales_file inp = Some f \<and> load_weather (weather_response inp) = Inr ws"
    by (rule stage_load_Inr [OF ld])
  moreover have "build_frame (fst f) (snd f) ws = Inr (df, X, y)"
    by (rule stage_process_Inr [OF pr])
  ultimately show ?thesis
    using e1 e2 conn tail mf evl out m1 m2
    by (auto simp: same_env_def same_dbs_def)
qed

lemma etl_main_progress:
  assumes "local_engine_ok inp" "supa_engine_ok inp" "sales_file inp = Some (cols, rs)"
    "load_weather (weather_response inp) = Inr ws" "build_frame cols rs ws = Inr (df, X, y)"
    "model_files inp = Some (xgb, lr)" "evaluate_models xgb lr X y = Inr ev"
    "load_create_table (queries_file inp) = Inr q" "reachable (local_db s0)" "reachable (supa_db s0)"
  shows "\<exists>st. etl_main inp s0 = Inr ((), st) \<and>
     stored_rows (local_db st) = stored_rows (local_db s0) @ score_rows df (sales_prediction ev) \<and>
     stored_rows (supa_db st) = stored_rows (supa_db s0) @ score_rows df (sales_prediction ev) \<and>
     reachable (local_db st) \<and> reachable (supa_db st)"
  using assms by (simp add: etl_unfold)

subsection \<open>A local database that is down\<close>

lemma log_stable_local_down: "log_stable local_down"
  by (auto simp: log_stable_def local_down_def transp_def)

lemma same_dbs_local_down: "preserves same_dbs m \<Longrightarrow> preserves local_down m"
  by (auto simp: preserves_def same_dbs_def local_down_def)

lemma stage_create_tables_local_down: "preserves local_down (stage_create_tables q)"
  by (auto simp: preserves_def final_state_def local_down_def stage_create_tables_def
      run_bind_def exec_ddl_def stored_rows_def split: sum.splits option.splits ddl_kind.splits)

lemma stage_upload_local_down: "preserves local_down (stage_upload out)"
  by (auto simp: preserves_def final_state_def local_down_def stage_upload_def
      run_bind_def to_sql_append_def split: sum.splits)

lemma etl_main_local_down: "preserves local_down (etl_main inp)"
  unfolding etl_main_def
  by (intro preserves_intros log_stable_local_down same_dbs_local_down stage_connect_same_dbs
        preserves_same_env_dbs stages_same_env stage_create_tables_local_down
        stage_upload_local_down stage_verify_same_dbs)

lemma stage_verify_Inr_reachable: "stage_verify s = Inr (u, s') \<Longrightarrow> reachable (local_db s')"
  by (auto simp: stage_verify_def run_bind_def lift_def count_rows_def split: sum.splits if_splits)

subsection \<open>Runs that stop before the databases are touched\<close>

lemma etl_main_fails_at_load:
  assumes "\<And>s e s'. stage_connect inp s = Inl (e, s') \<Longrightarrow> P e"
    and "fails_keeping P (stage_load inp)"
  shows "fails_keeping P (etl_main inp)"
  unfolding etl_main_def
  by (rule fails_keeping_then [OF stage_connect_same_dbs fails_keeping_first [OF assms(2)] assms(1)])

lemma load_weather_request_exception:
  "load_weather (Request_exception m) = Inl (KeyError ''time'')"
  by (simp add: load_weather_def weather_frame_def)

lemma stage_load_request_exception:
  assumes "sales_file inp = Some f" "weather_response inp = Request_exception m"
  shows "fails_keeping (\<lambda>e. e = KeyError ''time'') (stage_load inp)"
proof -
  have eq: "stage_load inp = run_bind (emit (Info ''[INFO] Cargando datos de entrada...''))
      (\<lambda>_. run_bind (lift (Inl (KeyError ''time''))) (\<lambda>ws. return (f, ws)))"
    by (simp add: stage_load_def assms load_weather_request_exception)
  show ?thesis unfolding eq
    by (rule fails_keeping_then [OF preserves_emit [OF log_stable_same_dbs]])
       (rule fails_keeping_first, rule fails_keeping_lift, simp, simp)
qed

lemma fails_keeping_at:
  assumes "fails_keeping P m"
  obtains e s' where "m s = Inl (e, s')" "P e" "local_db s' = local_db s" "supa_db s' = supa_db s"
  using assms unfolding fails_keeping_def same_dbs_def by blast

lemma stage_models_missing:
  "model_files inp = None \<Longrightarrow> fails_keeping (\<lambda>_. True) (stage_models inp)"
  unfolding stage_models_def
  by (auto intro!: fails_keeping_then fails_keeping_raise preserves_emit log_stable_same_dbs)

lemma etl_main_fails_at_models:
  assumes "fails_keeping (\<lambda>_. True) (stage_models inp)"
  shows "fails_keeping (\<lambda>_. True) (etl_main inp)"
  unfolding etl_main_def
  by (intro fails_keeping_then [OF stage_connect_same_dbs]
        fails_keeping_then [OF preserves_same_env_dbs [OF stages_same_env(1)]]
        fails_keeping_case_prod
        fails_keeping_then [OF preserves_same_env_dbs [OF stages_same_env(2)]]
        fails_keeping_first [OF assms]) simp_all

lemma stage_queries_error:
  "load_create_table (queries_file inp) = Inl e \<Longrightarrow> fails_keeping (\<lambda>_. True) (stage_queries inp)"
  unfolding stage_queries_def
  by (auto intro!: fails_keeping_then fails_keeping_lift preserves_emit log_stable_same_dbs)

lemma etl_main_fails_at_queries:
  assumes "fails_keeping (\<lambda>_. True) (stage_queries inp)"
  shows "fails_keeping (\<lambda>_. True) (etl_main inp)"
  unfolding etl_main_def
  by (intro fails_keeping_then [OF stage_connect_same_dbs]
        fails_keeping_then [OF preserves_same_env_dbs [OF stages_same_env(1)]]
        fails_keeping_case_prod
        fails_keeping_then [OF preserves_same_env_dbs [OF stages_same_env(2)]]
        fails_keeping_then [OF preserves_same_env_dbs [OF stages_same_env(3)]]
        fails_keeping_then [OF preserves_same_env_dbs [OF stages_same_env(4)]]
        fails_keeping_first [OF assms]) simp_all

text \<open>An empty \<open>sales\<close> field reaches the target vector, where the evaluation rejects it.\<close>

lemma build_frame_nan:
  assumes "build_frame cols rs ws = Inr (df, X, y)" "None \<in> set (map sales rs)"
  shows "None \<in> set y"
proof -
  obtain ss ws' where p: "parse_sales rs = Inr ss" and y: "y = map sales (left_merge ss ws')"
    using assms(1) by (auto simp: build_frame_def py_bind_eq_Inr Let_def split: if_splits)
  show ?thesis
    using assms(2) unfolding y left_merge_sales parse_sales_sales [OF p] .
qed

lemma stage_evaluate_nan:
  assumes "None \<in> set y" shows "fails_keeping (\<lambda>_. True) (stage_evaluate ms df X y)"
proof -
  obtain err where e: "evaluate_models (fst ms) (snd ms) X y = Inl err"
    using evaluate_models_nan_fails [OF assms] by blast
  show ?thesis unfolding stage_evaluate_def e
    by (rule fails_keeping_then [OF preserves_emit [OF log_stable_same_dbs]])
       (rule fails_keeping_first, rule fails_keeping_lift, simp_all)
qed

lemma etl_main_nan_sales:
  assumes f: "sales_file inp = Some (cols, rs)" and n: "None \<in> set (map sales rs)"
  shows "fails_keeping (\<lambda>_. True) (etl_main inp)"
  unfolding etl_main_def
  apply (rule fails_keeping_bind [OF stage_connect_same_dbs], simp)
  apply (rule fails_keeping_bind [OF preserves_same_env_dbs [OF stages_same_env(1)]], simp)
  apply (clarsimp dest!: stage_load_Inr simp: f split: prod.splits)
  apply (rule fails_keeping_bind [OF preserves_same_env_dbs [OF stages_same_env(2)]], simp)
  apply (clarsimp dest!: stage_process_Inr split: prod.splits)
  apply (rule fails_keeping_then [OF preserves_same_env_dbs [OF stages_same_env(3)]], simp_all)
  apply (rule fails_keeping_first, rule stage_evaluate_nan)
  using n by (auto dest: build_frame_nan)

subsection \<open>The scenario of the specification\<close>

lemma scenario_load_weather: "load_weather (Json_body (Some scenario_daily)) = Inr scenario_weather"
  by (simp add: load_weather_def scenario_weather_frame)

lemma scenario_normalize_weather: "normalize_weather scenario_weather = Inr scenario_weather"
  by (rule normalize_weather_valid)
     (auto simp: scenario_weather_def valid_date_def days_in_month_def in_ts_bounds_def)

lemma scenario_build_frame:
  "build_frame [''date'', ''category'', ''price'', ''sales''] scenario_sales_csv scenario_weather =
     Inr (left_merge scenario_sales scenario_weather, scenario_features, scenario_target)"
proof -
  have y: "map sales (left_merge scenario_sales scenario_weather) = scenario_target"
    unfolding scenario_left_merge by (simp add: scenario_target_def scenario_sales_def merge_row_def)
  show ?thesis
    by (simp add: build_frame_def scenario_parse_sales scenario_normalize_weather Let_def
        scenario_preprocessing y)
qed

lemma scenario_load_create_table: "load_create_table (Some sample_script) = Inr ''CREATE TABLE IF NOT EXISTS sales_predictions (d date)''"
  by (simp add: load_create_table_def sample_script_queries)


lemmas scenario_facts = scenario_input_def scenario_load_weather scenario_build_frame
  scenario_evaluate scenario_load_create_table fresh_sink_def score_rows_def scenario_left_merge

lemma scenario_run:
  "\<exists>st. etl_run scenario_input fresh_sink fresh_sink = Inr ((), st) \<and>
     stored_rows (local_db st) = score_rows (left_merge scenario_sales scenario_weather) [12, 18, 14] \<and>
     stored_rows (supa_db st) = score_rows (left_merge scenario_sales scenario_weather) [12, 18, 14] \<and>
     Metric ''[OK] Registros en tabla local'' 3 \<in> set (log st)"
  by (simp add: etl_unfold scenario_facts)

subsection \<open>The table creation never aborts\<close>

lemma stage_create_tables_local:
  assumes "stage_create_tables q s = Inr (u, s')"
  shows "(reachable (local_db s) \<and> ddl_kind q = Create_if_absent \<longrightarrow> table (local_db s') \<noteq> None) \<and>
    (reachable (local_db s) \<and> ddl_kind q = Create_strict \<and> table (local_db s) \<noteq> None \<longrightarrow>
      Error_log ''[ERROR] No se pudo crear la tabla en PostgreSQL local'' \<in> set (log s'))"
proof (cases "exec_ddl q (local_db s)")
  case (Inl e)
  then show ?thesis using assms
    by (auto simp: stage_create_tables_def run_bind_def exec_ddl_def split: sum.splits if_splits)
next
  case (Inr db)
  then show ?thesis using assms exec_ddl_creates [OF Inr]
    by (auto simp: stage_create_tables_def run_bind_def exec_ddl_def split: sum.splits if_splits
        option.splits)
qed

text \<open>C15: The CREATE TABLE section (lines 135-150) never raises: a failure against either database is caught and logged and keeps its rows; a reachable database ends with the table when the statement is CREATE TABLE IF NOT EXISTS, and a plain CREATE TABLE on an existing table is logged as an error.\<close>

theorem stage_create_tables_total:
  "\<exists>s'. stage_create_tables q s = Inr ((), s') \<and>
     stored_rows (local_db s') = stored_rows (local_db s) \<and>
     stored_rows (supa_db s') = stored_rows (supa_db s) \<and>
     (reachable (local_db s) \<and> ddl_kind q = Create_if_absent \<longrightarrow> table (local_db s') \<noteq> None) \<and>
     (reachable (local_db s) \<and> ddl_kind q = Create_strict \<and> table (local_db s) \<noteq> None \<longrightarrow>
        Error_log ''[ERROR] No se pudo crear la tabla en PostgreSQL local'' \<in> set (log s'))"
proof -
  obtain s' where r: "stage_create_tables q s = Inr ((), s')"
    using stage_create_tables_returns by blast
  show ?thesis using r stage_create_tables_Inr [OF r] stage_create_tables_local [OF r] by blast
qed

theorem stage_create_tables_total_witness:
  "reachable (local_db (init_state \<lparr>reachable = True, table = Some []\<rparr> fresh_sink)) \<and>
   ddl_kind ''CREATE TABLE sales_predictions (d date)'' = Create_strict \<and>
   (\<exists>s'. stage_create_tables ''CREATE TABLE sales_predictions (d date)''
           (init_state \<lparr>reachable = True, table = Some []\<rparr> fresh_sink) = Inr ((), s') \<and>
     Error_log ''[ERROR] No se pudo crear la tabla en PostgreSQL local'' \<in> set (log s'))"
proof -
  have k: "ddl_kind ''CREATE TABLE sales_predictions (d date)'' = Create_strict"
    by (simp add: ddl_kind_def py_split_ws_def py_isspace_def sql_upper_def sql_table_name_def)
  show ?thesis
    using stage_create_tables_total [of "''CREATE TABLE sales_predictions (d date)''"
        "init_state \<lparr>reachable = True, table = Some []\<rparr> fresh_sink"] k
    by (auto simp: init_state_def)
qed

end
