(* ===== verification/Logging.thy ===== *)
theory Logging
  imports Config
begin

text \<open>
  The logging configuration of etl.py (lines 14--20) and the file it produces.
  \<open>logging.basicConfig(level=logging.INFO, format=..., filename='etl.log', filemode='w')\<close>
  sets the root logger's level to \<open>INFO\<close> (20) and attaches a \<open>FileHandler\<close> that opens
  \<open>etl.log\<close> in mode \<open>'w'\<close>, truncating what an earlier run wrote. Each
  \<open>logging.info\<close>/\<open>logging.error\<close> call of the run (the entries of the run state's log)
  creates a record at level 20 or 40 with the time of the call; a record whose level is
  below the logger's is dropped, the others are written in order, rendered by the format
  \<open>%(asctime)s - %(levelname)s - %(message)s\<close>. Exceptions that nothing catches are not
  logging calls: the interpreter prints their traceback on standard error, not in the file.
\<close>

record log_config =
  lc_level :: nat
  lc_filename :: string
  lc_filemode :: string

text \<open>Lines 15--20.\<close>

definition basic_config :: log_config where
  "basic_config = \<lparr>lc_level = 20, lc_filename = ''etl.log'', lc_filemode = ''w''\<rparr>"

text \<open>The level of the record each call creates: \<open>logging.info\<close> (also for the metric
  lines) at \<open>INFO\<close> = 20, \<open>logging.error\<close> at \<open>ERROR\<close> = 40.\<close>

fun levelno :: "log_entry \<Rightarrow> nat" where
  "levelno (Info m) = 20"
| "levelno (Error_log m) = 40"
| "levelno (Metric l v) = 20"

text \<open>\<open>logging.getLevelName\<close>: the names of the predefined levels, \<open>"Level n"\<close> otherwise.\<close>

definition level_name :: "nat \<Rightarrow> string" where
  "level_name n =
     (case map_of [(50, ''CRITICAL''), (40, ''ERROR''), (30, ''WARNING''), (20, ''INFO''),
                   (10, ''DEBUG''), (0, ''NOTSET'')] n of
        Some s \<Rightarrow> s
      | None \<Rightarrow> ''Level '' @ py_int_str n)"

text \<open>A \<open>LogRecord\<close> as the format uses it: the time of the call, the level name and the
  logged entry (its \<open>%(message)s\<close>).\<close>

record log_record =
  asctime :: string
  levelname :: string
  message :: log_entry

definition make_record :: "string \<Rightarrow> log_entry \<Rightarrow> log_record" where
  "make_record t e = \<lparr>asctime = t, levelname = level_name (levelno e), message = e\<rparr>"

text \<open>\<open>Logger.isEnabledFor\<close>: the records of the calls at times \<open>ts\<close>, those below the
  logger's level dropped.\<close>

definition emit_records :: "log_config \<Rightarrow> string list \<Rightarrow> log_entry list \<Rightarrow> log_record list" where
  "emit_records c ts es =
     map (\<lambda>(t, e). make_record t e) (filter (\<lambda>(t, e). lc_level c \<le> levelno e) (zip ts es))"

text \<open>\<open>FileHandler(filename, mode)\<close>: mode \<open>'w'\<close> truncates the file, \<open>'a'\<close> keeps it.\<close>

definition open_file :: "log_config \<Rightarrow> log_record list \<Rightarrow> log_record list" where
  "open_file c old = (if lc_filemode c = ''w'' then [] else old)"

text \<open>The file after a run that made the calls \<open>es\<close> at the times \<open>ts\<close>.\<close>

definition log_file ::
  "log_config \<Rightarrow> log_record list \<Rightarrow> string list \<Rightarrow> log_entry list \<Rightarrow> log_record list" where
  "log_file c old ts es = open_file c old @ emit_records c ts es"

text \<open>Line 17: one line of the file, for the text \<open>msg\<close> of the message.\<close>

definition format_record :: "(log_entry \<Rightarrow> string) \<Rightarrow> log_record \<Rightarrow> string" where
  "format_record msg r = asctime r @ '' - '' @ levelname r @ '' - '' @ msg (message r)"

subsection \<open>Properties\<close>

lemma levelno_ge_info [simp]: "20 \<le> levelno e"
  by (cases e) simp_all

lemma level_name_levelno: "level_name (levelno e) = (case e of Error_log m \<Rightarrow> ''ERROR'' | _ \<Rightarrow> ''INFO'')"
  by (cases e) (simp_all add: level_name_def)

lemma emit_records_all:
  "(\<And>e. lc_level c \<le> levelno e) \<Longrightarrow> emit_records c ts es = map2 make_record ts es"
  by (simp add: emit_records_def filter_True case_prod_beta)

lemma levelname_map2:
  "map levelname (map2 make_record ts es) =
   map (\<lambda>e. case e of Error_log m \<Rightarrow> ''ERROR'' | _ \<Rightarrow> ''INFO'') (take (length ts) es)"
  by (induction ts es rule: list_induct2') (simp_all add: make_record_def level_name_levelno)

text \<open>A run that made no \<open>logging.error\<close> call leaves no \<open>ERROR\<close> line.\<close>

lemma log_file_no_error:
  assumes "\<forall>e \<in> set es. levelno e = 20"
  shows "''ERROR'' \<notin> set (map levelname (log_file basic_config old ts es))"
proof
  assume "''ERROR'' \<in> set (map levelname (log_file basic_config old ts es))"
  then obtain t e where "(t, e) \<in> set (zip ts es)" "level_name (levelno e) = ''ERROR''"
    by (auto simp: log_file_def open_file_def basic_config_def emit_records_def make_record_def)
  then show False using assms by (auto simp: level_name_def dest: set_zip_rightD)
qed

text \<open>C21: With the configuration of lines 15-20, etl.log after a run holds exactly the records of that run's logging calls, in order, with level name ERROR for the logging.error calls and INFO for the others: what an earlier run wrote is discarded (filemode 'w') and no call is filtered out (level INFO).\<close>

theorem log_file_current_run:
  "log_file basic_config old ts es = map2 make_record ts es \<and>
   map levelname (log_file basic_config old ts es) =
     map (\<lambda>e. case e of Error_log m \<Rightarrow> ''ERROR'' | _ \<Rightarrow> ''INFO'') (take (length ts) es)"
proof -
  have f: "log_file basic_config old ts es = map2 make_record ts es"
    by (simp add: log_file_def open_file_def basic_config_def emit_records_all)
  show ?thesis unfolding f using levelname_map2 [of ts es] by blast
qed

end
