(* ===== verification/Spec2Isabelle.thy ===== *)
theory Spec2Isabelle
  imports Logging
begin

text \<open>
  A verification development of the sales-prediction batch of this repository:
  \<open>src/etl.py\<close> (the script run as \<open>__main__\<close>) and \<open>src/utils/toolbox.py\<close> (the weather
  request and the feature builder it calls). The script connects to a local PostgreSQL
  database and a Supabase one, reads \<open>data/sales.csv\<close>, fetches the daily temperatures of
  the Open-Meteo API, joins them to the sales by date, builds the features, loads two
  trained models, scores both against the sales, keeps the one with the lower mean absolute
  error, creates the table \<open>sales_predictions\<close> in both databases, appends the scored rows to
  both and counts them.

  \<^bold>\<open>Theories.\<close>
  \<^item> Prelude: Python's exceptions as the datatype \<open>py_error\<close>, fallible code as
    \<open>'a result = py_error + 'a\<close> with \<open>py_bind\<close> and the element-wise \<open>py_map\<close>;
    \<open>str.split\<close>, \<open>str.join\<close>, \<open>str.strip\<close> and \<open>list.index\<close>; floats as \<open>rat\<close>, NaN as
    \<open>None\<close> in a \<open>cell = rat option\<close>.
  \<^item> Calendar: the dates pandas handles (etl.py lines 73, 85--90; toolbox.py lines 36--39):
    the proleptic Gregorian calendar as CPython's \<open>datetime\<close> computes it
    (\<open>days_before_year\<close>, \<open>toordinal\<close>, \<open>dayofweek\<close>, \<open>dayofyear\<close>), the
    \<open>Timestamp\<close> bounds, \<open>strftime("%m/%d/%Y")\<close>, the parse of ISO and month/day/year
    strings, and the round trip the script performs on the weather dates.
  \<^item> Weather: \<open>toolbox.get_data\<close> (toolbox.py lines 5--29) on an abstract HTTP outcome,
    and the weather frame of etl.py lines 69--79 with numpy's round-half-to-even mean.
  \<^item> Features: the sales rows (\<open>price\<close> and \<open>sales\<close> as float cells, NaN for an
    empty field, as \<open>pd.read_csv\<close> reads them), the left join of etl.py line 93 (pandas' order: sales rows
    in order, one output row per matching weather row, NaN when none), and
    \<open>toolbox.preprocessing\<close> (lines 33--51): calendar columns, scikit-learn's
    \<open>OneHotEncoder(handle_unknown="ignore")\<close> fitted on the batch, the column order.
  \<^item> Evaluator: \<open>mean_absolute_error\<close> with scikit-learn's checks (lengths, a NaN in
    the target, an empty target), the evaluation and
    choice of etl.py lines 109--124 over two predictors, an abstract selection
    specification, and \<open>LinearRegression.predict\<close> with its feature-name and NaN checks.
  \<^item> Queries: the SQL script of etl.py lines 127--133 (split on \<open>;\<close>, strip, drop empty).
  \<^item> Sinks: a database table as a record (reachable, rows or absent); the statement read
    from the SQL script executed as PostgreSQL does (\<open>ddl_kind\<close>: create if absent, plain
    create, which fails on an existing table, or another statement); the append of
    \<open>to_sql(if_exists="append")\<close> and the count; an inductive step relation of a sink.
  \<^item> Pipeline: the whole script as stages of a state-and-exception monad \<open>'a run\<close> over
    the state (log, both databases, whether \<open>engine_supabase\<close> is bound), each stage the
    statements of one block of etl.py, with its \<open>try\<close>/\<open>except\<close> as written.
  \<^item> Runs: the monad laws, a frame rule (\<open>preserves\<close>, with relations such as
    \<open>same_dbs\<close>, \<open>supa_untouched\<close> and \<open>local_down\<close> that each stage keeps),
    failures that keep both databases (\<open>fails_keeping\<close>), the decomposition of a run
    that returns into its stages, and the computation of the scenario run.
  \<^item> Config: the environment variables read by \<open>os.getenv\<close> (etl.py lines 24--36, with
    the default Supabase port 5432) and the connection URLs of lines 42 and 52 as
    f-strings (\<open>None\<close> rendered as \<open>None\<close>); \<open>configure\<close> turns them, for a given
    acceptance test of \<open>create_engine\<close>, into the engine flags a run starts from.
  \<^item> Logging: \<open>logging.basicConfig\<close> (etl.py lines 14--20): the level filter (\<open>INFO\<close>),
    the \<open>FileHandler\<close> opening \<open>etl.log\<close> in mode \<open>'w'\<close>, the records a run's logging
    calls (the entries of its log) write there, and the format of line 17.

  \<^bold>\<open>What is proved.\<close> Each component theory states its own properties. Weather:
  the date normalisation of lines 89--90 is the identity on the frame, the rounded mean
  lies between the extremes, the frame has one row per day. Features: the join is the
  lookup join when the weather dates are distinct, keeps every sales row, and duplicates
  rows when a date repeats; the feature matrix has the columns of line 48 in order, with
  each row's temperature and price in the first two, exact one-hot columns and calendar
  columns in range. Evaluator: the MAE averages absolute errors; the evaluation refines
  the selection specification, picks the linear regression on ties, and raises on a NaN
  target; a sales date without weather reaches the predictor as NaN; the per-batch
  encoder yields the trained columns exactly when the batch has the trained categories.
  Queries: a padded script reads back to its statements, and the first statement (or
  the error) is the one used. Sinks: a table only ever grows by appends. Runs: the table
  creation never aborts the run. Config: the connection URLs read back into the
  environment's fields. Logging: \<open>etl.log\<close> holds exactly the current run's records.
  This theory proves the properties of the whole run: what a run that returns did to
  both databases (\<open>etl_success\<close>), and conversely that a run whose stages all succeed
  on reachable databases returns and logs the counts (\<open>etl_progress\<close>); which failures
  stop it before any write (a missing sales file, model or SQL script, a failed weather
  request, an empty sales field); that a down local database aborts it before the backup
  is written; that a missing Supabase engine aborts it, after the local write when
  everything else succeeds; that a failed weather request leaves no \<open>ERROR\<close> line in
  the log; and that running the batch twice appends its predictions twice. The scenario
  of the specification is computed end to end in Runs (\<open>scenario_run\<close>) and serves
  as the concrete input of the witnesses.

  \<^bold>\<open>Bounds and fuel.\<close> Every function of the development is total and structurally
  recursive or a fold, except \<open>ndigits\<close> (the digits of \<open>str(n)\<close> in Config), whose
  recursion on \<open>n div 10\<close> terminates by the measure \<open>n\<close>: no fuel is needed. The
  script has no loop that could run forever (it iterates only over finite lists and
  columns), so termination is totality of the definitions and no separate termination
  property is stated. Dates are bounded by the \<open>Timestamp\<close> range
  (1677-09-22 to 2262-04-11) as pandas bounds them.

  \<^bold>\<open>Not modelled.\<close> The text of a log message is the logged entry: the accents of
  the Spanish messages are dropped, the exception text that some \<open>logging.error\<close>
  f-strings append is not carried, and the metric values are not rendered to decimal
  text (\<open>:.4f\<close>); the time stamps of the records are a parameter. SQLAlchemy's URL
  parser, which decides whether \<open>create_engine\<close> accepts a URL, is a library: it is a
  parameter of \<open>configure\<close>, which is why the configuration is only partly modelled.
  Of the SQL script (not under src/) only the effect of its first statement on the
  table \<open>sales_predictions\<close> is modelled; another statement is taken to leave that
  table alone; PostgreSQL's column types and constraints are not modelled either, so
  the databases are partly modelled. The CSV parser is abstracted to the four columns the script reads, with
  \<open>price\<close> and \<open>sales\<close> as float cells; quoting, other column types and an empty
  \<open>category\<close> field are not modelled; an empty \<open>date\<close> field, which
  \<open>pd.to_datetime\<close> turns into \<open>NaT\<close>, is a \<open>ValueError\<close> of the date parser in the
  model. \<open>str.strip\<close> and \<open>str.split()\<close> test white space on the characters a byte can
  hold, not on decoded code points above 0xff. Whatever \<open>create_engine\<close> raises for
  the local URL, the model re-raises it as \<open>ArgumentError\<close>, and one missing model
  file stands for either. The decoding \<open>url_parts\<close> of Config is the URL layout used
  to state what the connection URLs mean, not a translation of repository code. Floating point
  rounding error is not modelled (floats are exact rationals). The trained models are
  abstract predictors; only the linear regression is modelled as the affine map
  scikit-learn computes.
\<close>

subsection \<open>Successful runs\<close>

text \<open>C3: A run of the script that returns had both engines, the sales file, the weather, the frame, both models and the evaluation succeed, appended the same scored rows to both databases, and logged both MAE values.\<close>

theorem etl_success:
  assumes "etl_run inp l s = Inr (u, st)"
  shows "\<exists>f ws df X y xgb lr ev.
           local_engine_ok inp \<and> supa_engine_ok inp \<and>
           sales_file inp = Some f \<and> load_weather (weather_response inp) = Inr ws \<and>
           build_frame (fst f) (snd f) ws = Inr (df, X, y) \<and> model_files inp = Some (xgb, lr) \<and>
           evaluate_models xgb lr X y = Inr ev \<and>
           stored_rows (local_db st) = stored_rows l @ score_rows df (sales_prediction ev) \<and>
           stored_rows (supa_db st) = stored_rows s @ score_rows df (sales_prediction ev) \<and>
           Metric ''MAE XGBoost'' (mae_xgb ev) \<in> set (log st) \<and>
           Metric ''MAE Linear Regression'' (mae_lr ev) \<in> set (log st)"
  using etl_main_success [OF assms [unfolded etl_run_init]] by (simp add: init_state_def)

text \<open>C4: If both engines are created, the sales file, the weather, the frame, both models, the evaluation and the SQL script succeed and both databases are reachable, the run returns, appends the scored rows to both databases and logs their row counts.\<close>

theorem etl_progress:
  assumes "local_engine_ok inp" "supa_engine_ok inp" "sales_file inp = Some (cols, rs)"
    "load_weather (weather_response inp) = Inr ws" "build_frame cols rs ws = Inr (df, X, y)"
    "model_files inp = Some (xgb, lr)" "evaluate_models xgb lr X y = Inr ev"
    "load_create_table (queries_file inp) = Inr q" "reachable l" "reachable s"
  shows "\<exists>st. etl_run inp l s = Inr ((), st) \<and>
     stored_rows (local_db st) = stored_rows l @ score_rows df (sales_prediction ev) \<and>
     stored_rows (supa_db st) = stored_rows s @ score_rows df (sales_prediction ev) \<and>
     Metric ''[OK] Registros en tabla local'' (of_nat (length (stored_rows (local_db st)))) \<in> set (log st) \<and>
     Metric ''[OK] Registros en tabla respaldo'' (of_nat (length (stored_rows (supa_db st)))) \<in> set (log st)"
  using assms
  by (simp add: etl_unfold)

text \<open>C5: Running the script twice on the same inputs appends the same scored rows twice to each database: to_sql(if_exists="append") does not deduplicate.\<close>

theorem etl_rerun_duplicates:
  assumes "local_engine_ok inp" "supa_engine_ok inp" "sales_file inp = Some (cols, rs)"
    "load_weather (weather_response inp) = Inr ws" "build_frame cols rs ws = Inr (df, X, y)"
    "model_files inp = Some (xgb, lr)" "evaluate_models xgb lr X y = Inr ev"
    "load_create_table (queries_file inp) = Inr q" "reachable l" "reachable s"
  shows "\<exists>st1 st2. etl_run inp l s = Inr ((), st1) \<and>
     etl_run inp (local_db st1) (supa_db st1) = Inr ((), st2) \<and>
     stored_rows (local_db st2) =
       stored_rows l @ score_rows df (sales_prediction ev) @ score_rows df (sales_prediction ev) \<and>
     stored_rows (supa_db st2) =
       stored_rows s @ score_rows df (sales_prediction ev) @ score_rows df (sales_prediction ev)"
proof -
  obtain st1 where r1: "etl_main inp (init_state l s) = Inr ((), st1)"
    and rows1: "stored_rows (local_db st1) = stored_rows l @ score_rows df (sales_prediction ev)"
      "stored_rows (supa_db st1) = stored_rows s @ score_rows df (sales_prediction ev)"
    and up1: "reachable (local_db st1)" "reachable (supa_db st1)"
    using etl_main_progress [OF assms(1-8), of "init_state l s"] assms(9,10)
    by (auto simp: init_state_def)
  obtain st2 where r2: "etl_main inp (init_state (local_db st1) (supa_db st1)) = Inr ((), st2)"
    and rows2: "stored_rows (local_db st2) = stored_rows (local_db st1) @ score_rows df (sales_prediction ev)"
      "stored_rows (supa_db st2) = stored_rows (supa_db st1) @ score_rows df (sales_prediction ev)"
    using etl_main_progress [OF assms(1-8), of "init_state (local_db st1) (supa_db st1)"] up1
    by (auto simp: init_state_def)
  show ?thesis using r1 r2 rows1 rows2 by (auto simp: etl_run_init)
qed

subsection \<open>Runs that fail\<close>

text \<open>C10: A missing model file stops the run with an exception before either database is written.\<close>

theorem etl_models_missing_no_write:
  assumes "model_files inp = None"
  shows "\<exists>e st. etl_run inp l s = Inl (e, st) \<and> local_db st = l \<and> supa_db st = s"
proof -
  have "fails_keeping (\<lambda>_. True) (etl_main inp)"
    by (rule etl_main_fails_at_models [OF stage_models_missing [OF assms]])
  then obtain e st where "etl_main inp (init_state l s) = Inl (e, st)"
      "local_db st = l" "supa_db st = s"
    by (rule fails_keeping_at [where s = "init_state l s"]) (simp_all add: init_state_def)
  then show ?thesis by (auto simp: etl_run_init)
qed

text \<open>C13: An empty sales field in sales.csv (NaN in the target column) stops the run with an exception before either database is written, whatever the models predict.\<close>

theorem etl_nan_sales_no_write:
  assumes "sales_file inp = Some (cols, rs)" "r \<in> set rs" "sales r = None"
  shows "\<exists>e st. etl_run inp l s = Inl (e, st) \<and> local_db st = l \<and> supa_db st = s"
proof -
  have "None \<in> set (map sales rs)" using assms(2,3) by force
  then have "fails_keeping (\<lambda>_. True) (etl_main inp)"
    by (rule etl_main_nan_sales [OF assms(1)])
  then obtain e st where "etl_main inp (init_state l s) = Inl (e, st)"
      "local_db st = l" "supa_db st = s"
    by (rule fails_keeping_at [where s = "init_state l s"]) (simp_all add: init_state_def)
  then show ?thesis by (auto simp: etl_run_init)
qed

text \<open>C8: When the weather request fails, get_data returns the error dictionary and temperatures["time"] raises KeyError: the run stops before any database is written.\<close>

theorem etl_weather_error_aborts:
  assumes "local_engine_ok inp" "sales_file inp = Some f" "weather_response inp = Request_exception m"
  shows "\<exists>st. etl_run inp l s = Inl (KeyError ''time'', st) \<and> local_db st = l \<and> supa_db st = s"
proof -
  have "fails_keeping (\<lambda>e. e = KeyError ''time'') (etl_main inp)"
    by (rule etl_main_fails_at_load [OF _ stage_load_request_exception [OF assms(2,3)]])
       (rule FalseE, rule stage_connect_ok [OF assms(1)])
  then obtain e st where "etl_main inp (init_state l s) = Inl (e, st)" "e = KeyError ''time''"
      "local_db st = l" "supa_db st = s"
    by (rule fails_keeping_at [where s = "init_state l s"]) (simp_all add: init_state_def)
  then show ?thesis by (simp add: etl_run_init)
qed

text \<open>C9: A failed weather request ends the run with an uncaught KeyError that no logging call records: with both engines created, etl.log holds no ERROR line for the run.\<close>

theorem etl_weather_error_unlogged:
  assumes "local_engine_ok inp" "supa_engine_ok inp" "sales_file inp = Some f"
    "weather_response inp = Request_exception m"
  shows "\<exists>st. etl_run inp l s = Inl (KeyError ''time'', st) \<and>
           ''ERROR'' \<notin> set (map levelname (log_file basic_config old ts (log st)))"
proof -
  let ?st = "\<lparr>log = [Info ''[INFO] Conectando a la base de datos Local y Supabase...'',
      Info ''[OK] Conectado a la base de datos Local de forma exitosam.'',
      Info ''[OK] Conectado a la base de datos SupaBase de forma exitosa.'',
      Info ''[INFO] Cargando datos de entrada...''], local_db = l, supa_db = s, engine_supa = True\<rparr>"
  have r: "etl_run inp l s = Inl (KeyError ''time'', ?st)"
    using assms by (simp add: etl_unfold load_weather_request_exception)
  have "''ERROR'' \<notin> set (map levelname (log_file basic_config old ts (log ?st)))"
    by (rule log_file_no_error) simp
  with r show ?thesis by blast
qed

text \<open>C6: If the Supabase engine cannot be created the run always raises (the append at etl.py line 158 is unguarded) and the Supabase database is left as it was.\<close>

theorem etl_backup_engine_failure:
  assumes "\<not> supa_engine_ok inp"
  shows "\<exists>e st. etl_run inp l s = Inl (e, st) \<and> supa_db st = s"
proof -
  have pres: "preserves supa_untouched (etl_main inp)"
    unfolding etl_main_def
    by (intro preserves_intros log_stable_supa_untouched stage_connect_supa_untouched [OF assms]
        same_env_supa_untouched stages_same_env stage_create_tables_supa_untouched
        stage_upload_supa_untouched stage_verify_supa_untouched)
  show ?thesis
  proof (cases "etl_main inp (init_state l s)")
    case (Inl r)
    then obtain e st where r: "etl_main inp (init_state l s) = Inl (e, st)" by (cases r) auto
    have "supa_untouched (init_state l s) st" by (rule preserves_Inl [OF pres r])
    with r show ?thesis by (auto simp: etl_run_init supa_untouched_def init_state_def)
  next
    case (Inr r)
    then obtain u st where r: "etl_main inp (init_state l s) = Inr (u, st)" by (cases r) auto
    have "supa_engine_ok inp \<or> engine_supa (init_state l s)"
      by (rule etl_main_Inr_engine [OF r])
    with assms have False by (simp add: init_state_def)
    then show ?thesis ..
  qed
qed

text \<open>C16: When the Supabase engine cannot be created but everything else succeeds on a reachable local database, the run appends the scored rows to the local database and then fails with NameError engine_supabase, leaving the backup as it was.\<close>

theorem etl_backup_partial_write:
  assumes "local_engine_ok inp" "\<not> supa_engine_ok inp" "sales_file inp = Some (cols, rs)"
    "load_weather (weather_response inp) = Inr ws" "build_frame cols rs ws = Inr (df, X, y)"
    "model_files inp = Some (xgb, lr)" "evaluate_models xgb lr X y = Inr ev"
    "load_create_table (queries_file inp) = Inr q" "reachable l"
  shows "\<exists>st. etl_run inp l s = Inl (NameError ''engine_supabase'', st) \<and>
     stored_rows (local_db st) = stored_rows l @ score_rows df (sales_prediction ev) \<and>
     supa_db st = s \<and>
     Error_log ''[ERROR] No se pudo conectar a la base de datos SupaBase'' \<in> set (log st)"
  using assms by (simp add: etl_unfold)

text \<open>C7: If the local database is unreachable the run raises (the local to_sql at line 155 is unguarded) and no rows are written to either database, the backup included.\<close>

theorem etl_local_db_down:
  assumes "\<not> reachable l"
  shows "\<exists>e st. etl_run inp l s = Inl (e, st) \<and>
           stored_rows (local_db st) = stored_rows l \<and> stored_rows (supa_db st) = stored_rows s"
proof (cases "etl_main inp (init_state l s)")
  case (Inl r)
  then obtain e st where r: "etl_main inp (init_state l s) = Inl (e, st)" by (cases r) auto
  have "local_down (init_state l s) st" by (rule preserves_Inl [OF etl_main_local_down r])
  with r assms show ?thesis by (auto simp: etl_run_init local_down_def init_state_def)
next
  case (Inr r)
  then obtain u st where r: "etl_main inp (init_state l s) = Inr (u, st)" by (cases r) auto
  have "local_down (init_state l s) st" by (rule preserves_Inr [OF etl_main_local_down r])
  moreover obtain s8 u' where "stage_verify s8 = Inr (u', st)"
    using r by (rule etl_main_Inr_stages) (metis prod.collapse)
  then have "reachable (local_db st)" by (rule stage_verify_Inr_reachable)
  ultimately have False using assms by (simp add: local_down_def init_state_def)
  then show ?thesis ..
qed

text \<open>C11: If queries.sql is missing or holds no statement, the run raises before either database is written.\<close>

theorem etl_queries_error_no_write:
  assumes "load_create_table (queries_file inp) = Inl e0"
  shows "\<exists>e st. etl_run inp l s = Inl (e, st) \<and> local_db st = l \<and> supa_db st = s"
proof -
  have "fails_keeping (\<lambda>_. True) (etl_main inp)"
    by (rule etl_main_fails_at_queries [OF stage_queries_error [OF assms]])
  then obtain e st where "etl_main inp (init_state l s) = Inl (e, st)"
      "local_db st = l" "supa_db st = s"
    by (rule fails_keeping_at [where s = "init_state l s"]) (simp_all add: init_state_def)
  then show ?thesis by (auto simp: etl_run_init)
qed

text \<open>C12: Without the sales file the run logs the error and re-raises FileNotFoundError before touching either database.\<close>

theorem etl_sales_missing:
  assumes "local_engine_ok inp" "sales_file inp = None"
  shows "\<exists>st. etl_run inp l s = Inl (FileNotFoundError ''./data/sales.csv'', st) \<and>
           local_db st = l \<and> supa_db st = s \<and>
           Error_log ''[ERROR] No se encontro el archivo sales.csv.'' \<in> set (log st)"
  using assms
  by (simp add: etl_run_def etl_main_def run_bind_def stage_connect_def stage_load_def)

subsection \<open>Witnesses\<close>

theorem etl_success_witness:
  "\<exists>st. etl_run scenario_input fresh_sink fresh_sink = Inr ((), st) \<and>
     (\<exists>X y xgb lr ev. model_files scenario_input = Some (xgb, lr) \<and>
        evaluate_models xgb lr X y = Inr ev \<and> Metric ''MAE XGBoost'' (mae_xgb ev) \<in> set (log st))"
proof -
  obtain st where r: "etl_run scenario_input fresh_sink fresh_sink = Inr ((), st)"
    using scenario_run by blast
  show ?thesis using r etl_success [OF r] by blast
qed

theorem etl_models_missing_no_write_witness:
  "model_files (scenario_input\<lparr>model_files := None\<rparr>) = None \<and>
   (\<exists>e st. etl_run (scenario_input\<lparr>model_files := None\<rparr>) fresh_sink fresh_sink = Inl (e, st) \<and>
      local_db st = fresh_sink \<and> supa_db st = fresh_sink)"
  using etl_models_missing_no_write [of "scenario_input\<lparr>model_files := None\<rparr>" fresh_sink fresh_sink]
  by simp

theorem etl_nan_sales_no_write_witness:
  "sales_file (scenario_input\<lparr>sales_file := Some ([''date'', ''category'', ''price'', ''sales''],
      [\<lparr>s_date = ''2024-06-01'', category = ''A'', price = Some 10, sales = None\<rparr>])\<rparr>) =
     Some ([''date'', ''category'', ''price'', ''sales''],
       [\<lparr>s_date = ''2024-06-01'', category = ''A'', price = Some 10, sales = None\<rparr>]) \<and>
   (\<exists>e st. etl_run (scenario_input\<lparr>sales_file := Some ([''date'', ''category'', ''price'', ''sales''],
      [\<lparr>s_date = ''2024-06-01'', category = ''A'', price = Some 10, sales = None\<rparr>])\<rparr>)
      fresh_sink fresh_sink = Inl (e, st) \<and> local_db st = fresh_sink \<and> supa_db st = fresh_sink)"
  using etl_nan_sales_no_write [of "scenario_input\<lparr>sales_file := Some ([''date'', ''category'', ''price'', ''sales''],
      [\<lparr>s_date = ''2024-06-01'', category = ''A'', price = Some 10, sales = None\<rparr>])\<rparr>"
      "[''date'', ''category'', ''price'', ''sales'']"
      "[\<lparr>s_date = ''2024-06-01'', category = ''A'', price = Some 10, sales = None\<rparr>]"
      "\<lparr>s_date = ''2024-06-01'', category = ''A'', price = Some 10, sales = None\<rparr>"
      fresh_sink fresh_sink]
  by simp

theorem etl_weather_error_unlogged_witness:
  "local_engine_ok (scenario_input\<lparr>weather_response := Request_exception ''timeout''\<rparr>) \<and>
   supa_engine_ok (scenario_input\<lparr>weather_response := Request_exception ''timeout''\<rparr>) \<and>
   (\<exists>st. etl_run (scenario_input\<lparr>weather_response := Request_exception ''timeout''\<rparr>)
           fresh_sink fresh_sink = Inl (KeyError ''time'', st) \<and>
      ''ERROR'' \<notin> set (map levelname (log_file basic_config [] [''t1'', ''t2'', ''t3'', ''t4''] (log st))))"
  using etl_weather_error_unlogged [of "scenario_input\<lparr>weather_response := Request_exception ''timeout''\<rparr>"
      "([''date'', ''category'', ''price'', ''sales''], scenario_sales_csv)" "''timeout''"
      fresh_sink fresh_sink "[]" "[''t1'', ''t2'', ''t3'', ''t4'']"]
  by (simp add: scenario_input_def)

theorem etl_weather_error_aborts_witness:
  "local_engine_ok (scenario_input\<lparr>weather_response := Request_exception ''timeout''\<rparr>) \<and>
   sales_file (scenario_input\<lparr>weather_response := Request_exception ''timeout''\<rparr>) =
     Some ([''date'', ''category'', ''price'', ''sales''], scenario_sales_csv) \<and>
   (\<exists>st. etl_run (scenario_input\<lparr>weather_response := Request_exception ''timeout''\<rparr>)
           fresh_sink fresh_sink = Inl (KeyError ''time'', st) \<and>
      local_db st = fresh_sink \<and> supa_db st = fresh_sink)"
  using etl_weather_error_aborts [of "scenario_input\<lparr>weather_response := Request_exception ''timeout''\<rparr>"
      "([''date'', ''category'', ''price'', ''sales''], scenario_sales_csv)" "''timeout''"
      fresh_sink fresh_sink]
  by (simp add: scenario_input_def)

theorem etl_backup_engine_failure_witness:
  "\<not> supa_engine_ok (scenario_input\<lparr>supa_engine_ok := False\<rparr>) \<and>
   (\<exists>e st. etl_run (scenario_input\<lparr>supa_engine_ok := False\<rparr>) fresh_sink fresh_sink = Inl (e, st) \<and>
      supa_db st = fresh_sink)"
  using etl_backup_engine_failure [of "scenario_input\<lparr>supa_engine_ok := False\<rparr>" fresh_sink fresh_sink]
  by simp

theorem etl_progress_witness:
  "local_engine_ok scenario_input \<and> supa_engine_ok scenario_input \<and>
   reachable (fresh_sink :: scored_row sink) \<and>
   load_create_table (queries_file scenario_input) = Inr ''CREATE TABLE IF NOT EXISTS sales_predictions (d date)'' \<and>
   (\<exists>st. etl_run scenario_input fresh_sink fresh_sink = Inr ((), st) \<and>
      Metric ''[OK] Registros en tabla local'' (of_nat (length (stored_rows (local_db st)))) \<in> set (log st))"
proof -
  have a: "local_engine_ok scenario_input" "supa_engine_ok scenario_input"
    "sales_file scenario_input = Some ([''date'', ''category'', ''price'', ''sales''], scenario_sales_csv)"
    "load_weather (weather_response scenario_input) = Inr scenario_weather"
    "model_files scenario_input = Some (constant_predictor [12, 18, 14], constant_predictor [5, 5, 5])"
    "load_create_table (queries_file scenario_input) = Inr ''CREATE TABLE IF NOT EXISTS sales_predictions (d date)''"
    "reachable (fresh_sink :: scored_row sink)"
    by (simp_all add: scenario_input_def scenario_load_weather scenario_load_create_table fresh_sink_def)
  show ?thesis
    using etl_progress [OF a(1-4) scenario_build_frame a(5) scenario_evaluate a(6,7,7)] a by blast
qed

theorem etl_backup_partial_write_witness:
  "\<exists>st. etl_run (scenario_input\<lparr>supa_engine_ok := False\<rparr>) fresh_sink fresh_sink =
      Inl (NameError ''engine_supabase'', st) \<and>
    stored_rows (local_db st) = score_rows (left_merge scenario_sales scenario_weather) [12, 18, 14] \<and>
    supa_db st = fresh_sink"
proof -
  let ?inp = "scenario_input\<lparr>supa_engine_ok := False\<rparr>"
  have a: "local_engine_ok ?inp" "\<not> supa_engine_ok ?inp"
    "sales_file ?inp = Some ([''date'', ''category'', ''price'', ''sales''], scenario_sales_csv)"
    "load_weather (weather_response ?inp) = Inr scenario_weather"
    "model_files ?inp = Some (constant_predictor [12, 18, 14], constant_predictor [5, 5, 5])"
    "load_create_table (queries_file ?inp) = Inr ''CREATE TABLE IF NOT EXISTS sales_predictions (d date)''"
    "reachable (fresh_sink :: scored_row sink)"
    by (simp_all add: scenario_input_def scenario_load_weather scenario_load_create_table fresh_sink_def)
  show ?thesis
    using etl_backup_partial_write [OF a(1-4) scenario_build_frame a(5) scenario_evaluate a(6,7),
        of fresh_sink]
    by (simp add: fresh_sink_def) blast
qed

theorem etl_local_db_down_witness:
  "\<not> reachable (fresh_sink\<lparr>reachable := False\<rparr> :: scored_row sink) \<and>
   (\<exists>e st. etl_run scenario_input (fresh_sink\<lparr>reachable := False\<rparr>) fresh_sink = Inl (e, st) \<and>
      stored_rows (supa_db st) = [])"
  using etl_local_db_down [of "fresh_sink\<lparr>reachable := False\<rparr>" scenario_input fresh_sink]
  by (auto simp: fresh_sink_def stored_rows_def)

theorem etl_queries_error_no_write_witness:
  "load_create_table (queries_file (scenario_input\<lparr>queries_file := None\<rparr>)) =
     Inl (FileNotFoundError ''./utils/queries.sql'') \<and>
   (\<exists>e st. etl_run (scenario_input\<lparr>queries_file := None\<rparr>) fresh_sink fresh_sink = Inl (e, st) \<and>
      local_db st = fresh_sink \<and> supa_db st = fresh_sink)"
proof -
  have q: "load_create_table (queries_file (scenario_input\<lparr>queries_file := None\<rparr>)) =
      Inl (FileNotFoundError ''./utils/queries.sql'')"
    by (simp add: load_create_table_def)
  show ?thesis using q etl_queries_error_no_write [OF q, of fresh_sink fresh_sink] by simp
qed

theorem etl_sales_missing_witness:
  "local_engine_ok (scenario_input\<lparr>sales_file := None\<rparr>) \<and>
   sales_file (scenario_input\<lparr>sales_file := None\<rparr>) = None \<and>
   (\<exists>st. etl_run (scenario_input\<lparr>sales_file := None\<rparr>) fresh_sink fresh_sink =
      Inl (FileNotFoundError ''./data/sales.csv'', st) \<and> local_db st = fresh_sink)"
  using etl_sales_missing [of "scenario_input\<lparr>sales_file := None\<rparr>" fresh_sink fresh_sink]
  by (auto simp: scenario_input_def)

theorem etl_rerun_duplicates_witness:
  "(\<exists>st1 st2. etl_run scenario_input fresh_sink fresh_sink = Inr ((), st1) \<and>
     etl_run scenario_input (local_db st1) (supa_db st1) = Inr ((), st2) \<and>
     map prediction (stored_rows (local_db st2)) = [12, 18, 14, 12, 18, 14])"
proof -
  have a: "local_engine_ok scenario_input" "supa_engine_ok scenario_input"
    "sales_file scenario_input = Some ([''date'', ''category'', ''price'', ''sales''], scenario_sales_csv)"
    "load_weather (weather_response scenario_input) = Inr scenario_weather"
    "model_files scenario_input = Some (constant_predictor [12, 18, 14], constant_predictor [5, 5, 5])"
    "load_create_table (queries_file scenario_input) =
       Inr ''CREATE TABLE IF NOT EXISTS sales_predictions (d date)''"
    "reachable (fresh_sink :: scored_row sink)"
    by (simp_all add: scenario_input_def scenario_load_weather scenario_load_create_table fresh_sink_def)
  have p: "map prediction (score_rows (left_merge scenario_sales scenario_weather) [12, 18, 14]) = [12, 18, 14]"
    unfolding scenario_left_merge by (simp add: score_rows_def)
  show ?thesis
    using etl_rerun_duplicates [OF a(1-4) scenario_build_frame a(5) scenario_evaluate a(6,7,7)] p
    by (auto simp: fresh_sink_def)
qed

end
